theory Spec2Isabelle
  imports Complex_Main "HOL-Library.AList"
begin

section \<open>Conventions of the embedding\<close>

text \<open>
  The trading pipeline of the repository (risk gate, execution module, position manager,
  signal generator and the per-asset cycle of the worker) is embedded function by function.
  \<^item> Python \<open>Decimal\<close> quantities (prices, sizes, amounts of the store) are modelled as
    \<open>real\<close>: the arithmetic is exact, so the 28 digit context of \<open>Decimal\<close> division and
    the scale of the \<open>Numeric\<close> columns of the store are not part of the model.
  \<^item> A Python \<open>float\<close> is a \<open>real\<close> as well.  Where the position check of the risk gate
    adds, multiplies and divides floats before it compares them with a limit, each
    operation is rounded to the nearest double (\<open>float_round\<close> below), and so is each
    conversion of a \<open>Decimal\<close> of the store to a float there.  The features and scores
    of the signal generator and the size of a position are computed without rounding;
    the least squares fit \<open>np.polyfit\<close>, whose result is compared with 0, is a
    parameter.  \<open>nan\<close> and \<open>inf\<close> are not part of the model.
  \<^item> A \<open>datetime\<close> is an \<open>int\<close>: microseconds since the epoch, in UTC.  Every reading of
    the system clock is a parameter of the function that reads it.
  \<^item> A table of the store is the list of its rows, oldest first; the store is passed in
    and returned.  Answers of the network (order book, order submission) and the value
    of \<open>uuid.uuid4()\<close> are parameters as well.
  \<^item> A raised exception is a value of type \<open>error\<close>.
\<close>

type_synonym datetime = int

text \<open>The exceptions the modelled code can raise.  Those raised by the code itself are
  named after their message; \<open>External\<close> is an exception raised inside a library call
  (transport, signing, JSON decoding), with its text.\<close>

datatype error =
    InvalidState string
  | InvalidPrice real
  | InvalidSize real
  | CouldNotFetchOrderbook
  | NoAsksInOrderbook
  | NoBidsInOrderbook
  | AccountNotInitialized
  | MultipleResultsFound
  | IntegrityError
  | ZeroSizeArray
  | IndexError
  | External string

type_synonym 'a result = "error + 'a"

text \<open>Texts stored in the tables: a plain string, the formatted daily loss message
  \<open>f"Daily loss ${daily_loss:.2f} >= ${limit:.2f}"\<close> (kept as its two numbers), or
  \<open>str(e)\<close> of an exception.\<close>

datatype message = Plain string | DailyLossMessage real real | ExceptionText error

section \<open>Floats\<close>

text \<open>Rounding to the nearest integer, a tie going to the even one.\<close>

definition round_half_even :: "real \<Rightarrow> int" where
  "round_half_even x =
     (if x - real_of_int \<lfloor>x\<rfloor> < 1 / 2 then \<lfloor>x\<rfloor>
      else if x - real_of_int \<lfloor>x\<rfloor> > 1 / 2 then \<lfloor>x\<rfloor> + 1
      else if even \<lfloor>x\<rfloor> then \<lfloor>x\<rfloor> else \<lfloor>x\<rfloor> + 1)"

text \<open>The double nearest to a real number (IEEE 754 binary64, round to nearest, ties to
  even): with \<open>2 ^ e \<le> |x| < 2 ^ (e + 1)\<close> the doubles around \<open>x\<close> are the multiples of
  \<open>2 ^ (e - 52)\<close>.  Overflow and the subnormal range (magnitudes from \<open>2 ^ 1024\<close> on and
  below \<open>2 ^ -1022\<close>) are left out.  It is what \<open>float(d)\<close> returns for a \<open>Decimal\<close>, what a
  literal of the source denotes, and each arithmetic operation on floats returns the
  double nearest to the exact result.\<close>

definition float_round :: "real \<Rightarrow> real" where
  "float_round x =
     (if x = 0 then 0
      else let ulp = 2 powi (\<lfloor>log 2 \<bar>x\<bar>\<rfloor> - 52)
           in real_of_int (round_half_even (x / ulp)) * ulp)"

definition float_add :: "real \<Rightarrow> real \<Rightarrow> real" where
  "float_add a b = float_round (a + b)"

definition float_mul :: "real \<Rightarrow> real \<Rightarrow> real" where
  "float_mul a b = float_round (a * b)"

definition float_div :: "real \<Rightarrow> real \<Rightarrow> real" where
  "float_div a b = float_round (a / b)"

section \<open>Settings (app/core/config.py)\<close>

record settings =
  POLYMARKET_API_KEY :: string
  POLYMARKET_PRIVATE_KEY :: string
  PORTFOLIO_TRADE_PCT :: real
  MAX_MARKET_USD :: real
  TAKE_PROFIT_PCT :: real
  STOP_LOSS_PCT :: real
  MIN_LIQUIDITY_USD :: real
  MARKET_CLOSE_BUFFER_MINUTES :: int
  STALE_DATA_THRESHOLD_SECONDS :: int
  TRADING_ASSETS :: "string list"

text \<open>The defaults of the class \<open>Settings\<close>; no credentials are configured by default.\<close>

definition default_settings :: settings where
  "default_settings =
     \<lparr>POLYMARKET_API_KEY = '''', POLYMARKET_PRIVATE_KEY = '''',
      PORTFOLIO_TRADE_PCT = 5, MAX_MARKET_USD = 100,
      TAKE_PROFIT_PCT = 8, STOP_LOSS_PCT = 5, MIN_LIQUIDITY_USD = 500,
      MARKET_CLOSE_BUFFER_MINUTES = 2, STALE_DATA_THRESHOLD_SECONDS = 60,
      TRADING_ASSETS = [''BTC'', ''ETH'', ''SOL'']\<rparr>"

section \<open>Take profit and stop loss (RiskManager, risk\_service.py)\<close>




section \<open>The configuration cache (RiskManager.load\_config)\<close>

text \<open>The \<open>config\<close> table maps a key to a JSON value; the risk gate reads numbers from it
  with \<open>float(...)\<close> and \<open>int(...)\<close>, so a value is modelled as the number read.  The
  dictionary built from the rows is an association list (keys are unique in the table);
  it is truthy when it is not empty.\<close>

type_synonym config_dict = "(string \<times> real) list"

record risk_manager =
  config_cache :: config_dict
  last_config_load :: "datetime option"

text \<open>\<open>RiskManager.__init__\<close>.\<close>

definition risk_manager_init :: risk_manager where
  "risk_manager_init = \<lparr>config_cache = [], last_config_load = None\<rparr>"

text \<open>The attribute \<open>seconds\<close> of a Python \<open>timedelta\<close>: a difference of \<open>d\<close>
  microseconds is normalised to days, seconds (from 0 to 86399) and microseconds, and
  \<open>seconds\<close> is the middle component only.\<close>

definition timedelta_seconds :: "int \<Rightarrow> int" where
  "timedelta_seconds d = (d div 1000000) mod 86400"

text \<open>\<open>timedelta.total_seconds()\<close>.\<close>

definition total_seconds :: "int \<Rightarrow> real" where
  "total_seconds d = real_of_int d / 1000000"

text \<open>\<open>load_config(force)\<close>: \<open>config_rows\<close> is the content of the \<open>config\<close> table,
  \<open>now\<close> the clock when the age of the cache is tested and \<open>loaded_at\<close> the clock when
  the rows have been read.  The result is the manager and the dictionary returned.\<close>

definition load_config ::
  "risk_manager \<Rightarrow> config_dict \<Rightarrow> datetime \<Rightarrow> datetime \<Rightarrow> bool \<Rightarrow> risk_manager \<times> config_dict" where
  "load_config rm config_rows now loaded_at force =
     (if \<not> force \<and> config_cache rm \<noteq> [] \<and> last_config_load rm \<noteq> None
           \<and> timedelta_seconds (now - the (last_config_load rm)) < 60
      then (rm, config_cache rm)
      else (rm\<lparr>config_cache := config_rows, last_config_load := Some loaded_at\<rparr>, config_rows))"

text \<open>\<open>config.get(key, default)\<close> read through \<open>float\<close>, and through \<open>int\<close>, which
  truncates towards zero.\<close>

definition config_float :: "config_dict \<Rightarrow> string \<Rightarrow> real \<Rightarrow> real" where
  "config_float config k d = (case map_of config k of None \<Rightarrow> d | Some v \<Rightarrow> v)"

definition py_int :: "real \<Rightarrow> int" where
  "py_int r = (if r \<ge> 0 then \<lfloor>r\<rfloor> else \<lceil>r\<rceil>)"

definition config_int :: "config_dict \<Rightarrow> string \<Rightarrow> real \<Rightarrow> int" where
  "config_int config k d = py_int (config_float config k d)"

section \<open>The store (app/db/models/models.py)\<close>

record bot_state_row =
  bot_state_state :: string
  bot_state_reason :: message
  bot_state_updated_by :: string
  bot_state_updated_at :: datetime

datatype audit_details =
    BotStateChange string message
  | BreakerTripped string string
  | OrderPlaced string string string real real

record audit_log_row =
  audit_event_type :: string
  audit_details :: audit_details
  audit_user_id :: "string option"

record circuit_breaker_row =
  breaker_name :: string
  is_tripped :: bool
  trip_reason :: "string option"
  trip_count :: int
  last_trip :: "datetime option"
  last_reset :: "datetime option"

record daily_pnl_row =
  pnl_date :: datetime
  realized_pnl :: real
  fees_paid :: real
  trade_count :: int
  win_count :: int
  loss_count :: int

record market_row =
  market_id :: nat
  market_condition_id :: string
  market_asset :: string
  market_end_date :: "datetime option"
  market_active :: bool
  yes_token_id :: "string option"
  no_token_id :: "string option"
  market_title :: string

record position_row =
  position_id :: nat
  position_market_id :: nat
  position_token_id :: string
  position_side :: string
  position_size :: real
  avg_entry_price :: real
  position_status :: string
  opened_at :: datetime
  closed_at :: "datetime option"

record order_row =
  order_id :: string
  order_market_id :: nat
  order_decision_id :: "nat option"
  order_side :: string
  order_token_id :: string
  order_price :: real
  order_size :: real
  order_status :: string
  order_type :: string
  error_message :: "message option"

record decision_row =
  decision_id :: nat
  decision_asset :: string
  decision_direction :: string
  decision_confidence :: real
  decision_features :: "string \<rightharpoonup> real"
  signal_source :: string
  executed :: bool
  execution_id :: "string option"

record candle_row =
  candle_symbol :: string
  candle_timeframe :: string
  candle_open_time :: datetime
  candle_open :: real
  candle_high :: real
  candle_low :: real
  candle_close :: real
  candle_volume :: real

record store =
  bot_state :: "bot_state_row list"
  audit_log :: "audit_log_row list"
  circuit_breakers :: "circuit_breaker_row list"
  daily_pnl :: "daily_pnl_row list"
  config_table :: config_dict
  markets :: "market_row list"
  positions :: "position_row list"
  orders :: "order_row list"
  decisions :: "decision_row list"
  candles :: "candle_row list"

text \<open>The store with no rows.\<close>

definition empty_store :: store where
  "empty_store = \<lparr>bot_state = [], audit_log = [], circuit_breakers = [], daily_pnl = [],
     config_table = [], markets = [], positions = [], orders = [], decisions = [],
     candles = []\<rparr>"

text \<open>\<open>Result.scalar_one_or_none()\<close> of SQLAlchemy: no row gives \<open>None\<close>, one row gives
  the row, more rows raise.\<close>

fun scalar_one_or_none :: "'a list \<Rightarrow> 'a option result" where
  "scalar_one_or_none [] = Inr None"
| "scalar_one_or_none [x] = Inr (Some x)"
| "scalar_one_or_none (x # y # zs) = Inl MultipleResultsFound"

text \<open>A new primary key: larger than every key of the table.\<close>

definition next_id :: "nat list \<Rightarrow> nat" where
  "next_id ids = Suc (fold max ids 0)"

text \<open>\<open>sep.join(xs)\<close>.\<close>

fun join :: "string \<Rightarrow> string list \<Rightarrow> string" where
  "join sep [] = []"
| "join sep [x] = x"
| "join sep (x # y # zs) = x @ sep @ join sep (y # zs)"

section \<open>The risk gate (RiskManager, risk\_service.py)\<close>

definition STATES :: "string list" where
  "STATES = [''RUNNING'', ''PAUSED'', ''STOPPED'', ''HALTED_DAILY_LOSS'',
             ''HALTED_CIRCUIT_BREAKER'']"

text \<open>\<open>get_bot_state\<close>: the row with the largest id, that is the last row.\<close>

definition get_bot_state :: "store \<Rightarrow> string" where
  "get_bot_state db =
     (case bot_state db of [] \<Rightarrow> ''STOPPED'' | _ # _ \<Rightarrow> bot_state_state (last (bot_state db)))"

text \<open>\<open>set_bot_state(state, reason, user)\<close>, at clock \<open>now\<close>: the last row is overwritten,
  or a first row is added; an audit row is added.\<close>

definition set_bot_state ::
  "store \<Rightarrow> string \<Rightarrow> message \<Rightarrow> string \<Rightarrow> datetime \<Rightarrow> store result" where
  "set_bot_state db state reason user now =
     (if state \<notin> set STATES then Inl (InvalidState state)
      else
        let row = \<lparr>bot_state_state = state, bot_state_reason = reason,
                   bot_state_updated_by = user, bot_state_updated_at = now\<rparr>;
            rows = (case bot_state db of [] \<Rightarrow> [row] | _ # _ \<Rightarrow> butlast (bot_state db) @ [row]);
            audit = \<lparr>audit_event_type = ''bot_state_change'',
                     audit_details = BotStateChange state reason,
                     audit_user_id = Some user\<rparr>
        in Inr (db\<lparr>bot_state := rows, audit_log := audit_log db @ [audit]\<rparr>))"

definition get_tripped_breakers :: "store \<Rightarrow> string list" where
  "get_tripped_breakers db = map breaker_name (filter is_tripped (circuit_breakers db))"

text \<open>\<open>func.date(...)\<close> of a timestamp: its calendar day, counted from the epoch.\<close>

definition sql_date :: "datetime \<Rightarrow> int" where
  "sql_date t = t div 86400000000"

text \<open>\<open>get_daily_loss\<close>; \<open>today\<close> is \<open>date.today()\<close>.  The loss returned is
  \<open>abs(float(daily.realized_pnl))\<close>.\<close>

definition get_daily_loss :: "store \<Rightarrow> int \<Rightarrow> real result" where
  "get_daily_loss db today =
     (case scalar_one_or_none (filter (\<lambda>d. sql_date (pnl_date d) = today) (daily_pnl db)) of
        Inl e \<Rightarrow> Inl e
      | Inr None \<Rightarrow> Inr 0
      | Inr (Some daily) \<Rightarrow>
          if realized_pnl daily < 0 then Inr \<bar>float_round (realized_pnl daily)\<bar> else Inr 0)"

text \<open>\<open>can_trade\<close>.  \<open>now\<close> and \<open>loaded_at\<close> are the clock readings of \<open>load_config\<close>,
  \<open>t_set\<close> the one of \<open>set_bot_state\<close>.  The manager and the store are returned as the
  call leaves them, with the value returned or the exception raised.\<close>

definition can_trade ::
  "risk_manager \<Rightarrow> store \<Rightarrow> int \<Rightarrow> datetime \<Rightarrow> datetime \<Rightarrow> datetime
     \<Rightarrow> risk_manager \<times> store \<times> (bool \<times> string) result" where
  "can_trade rm db today now loaded_at t_set =
     (let state = get_bot_state db in
      if state \<noteq> ''RUNNING'' then (rm, db, Inr (False, ''Bot state is '' @ state))
      else
        let tripped = get_tripped_breakers db in
        if tripped \<noteq> [] then
          (rm, db, Inr (False, ''Circuit breakers tripped: '' @ join '', '' tripped))
        else
          case get_daily_loss db today of
            Inl e \<Rightarrow> (rm, db, Inl e)
          | Inr loss \<Rightarrow>
              let (rm', config) = load_config rm (config_table db) now loaded_at False;
                  limit = config_float config ''daily_loss_limit_usd'' 25
              in if loss \<ge> limit then
                   (case set_bot_state db ''HALTED_DAILY_LOSS'' (DailyLossMessage loss limit)
                           ''system'' t_set of
                      Inl e \<Rightarrow> (rm', db, Inl e)
                    | Inr db' \<Rightarrow> (rm', db', Inr (False, ''Daily loss limit reached'')))
                 else (rm', db, Inr (True, ''Trading allowed'')))"

text \<open>The query of \<open>get_asset_exposure\<close>: the sum of \<open>size * avg_entry_price\<close> over the
  join of the open positions with the markets of the asset, in the exact arithmetic of
  the store.\<close>

definition sum_exposure :: "store \<Rightarrow> string \<Rightarrow> real" where
  "sum_exposure db asset =
     sum_list (concat (map (\<lambda>p. concat (map (\<lambda>m.
        if position_market_id p = market_id m \<and> market_asset m = asset
           \<and> position_status p = ''open''
        then [position_size p * avg_entry_price p] else []) (markets db))) (positions db)))"

text \<open>\<open>get_asset_exposure\<close>: \<open>float(exposure) if exposure else 0.0\<close>.\<close>

definition get_asset_exposure :: "store \<Rightarrow> string \<Rightarrow> real" where
  "get_asset_exposure db asset = float_round (sum_exposure db asset)"

text \<open>\<open>get_total_crypto_exposure\<close>: the list of the assets is written in the function.\<close>

definition get_total_crypto_exposure :: "store \<Rightarrow> real" where
  "get_total_crypto_exposure db =
     fold (\<lambda>asset total. float_add total (get_asset_exposure db asset))
       [''BTC'', ''ETH'', ''SOL''] 0"

definition get_open_position_count :: "store \<Rightarrow> nat" where
  "get_open_position_count db = length (filter (\<lambda>p. position_status p = ''open'') (positions db))"

record risk_checks =
  max_trade_size :: bool
  max_market_exposure :: bool
  correlation_limit :: bool
  max_positions :: bool
  daily_loss :: bool

text \<open>The reasons of \<open>check_position_risk\<close>, each a formatted text of the source kept as
  the numbers it prints: \<open>"Trade size $.. > max $.. (..%)"\<close>,
  \<open>"Trade size $.. > max market $.."\<close>, \<open>"Crypto exposure $.. > max $.."\<close>,
  \<open>"Open positions .. >= max .."\<close>, \<open>"Daily loss $.. >= limit $.."\<close>.\<close>

datatype risk_reason =
    TradeSizeAboveMax real real real
  | TradeSizeAboveMarketMax real real
  | CryptoExposureAboveMax real real
  | OpenPositionsAtMax nat int
  | DailyLossAtLimit real real

record risk_result =
  passed :: bool
  checks :: risk_checks
  reasons :: "risk_reason list"
  result_size_usd :: real
  result_portfolio_value :: real

text \<open>\<open>check_position_risk(asset, size_usd, portfolio_value)\<close>; \<open>size_usd\<close> and
  \<open>portfolio_value\<close> are floats, and so are the limits, which \<open>float(...)\<close> reads from the
  configuration.\<close>

definition check_position_risk ::
  "risk_manager \<Rightarrow> store \<Rightarrow> string \<Rightarrow> real \<Rightarrow> real \<Rightarrow> int \<Rightarrow> datetime \<Rightarrow> datetime
     \<Rightarrow> risk_manager \<times> (bool \<times> risk_result) result" where
  "check_position_risk rm db asset size_usd portfolio_value today now loaded_at =
     (let (rm', config) = load_config rm (config_table db) now loaded_at False;
          max_trade_pct = config_float config ''portfolio_trade_pct'' 5;
          max_trade_usd = float_div (float_mul portfolio_value max_trade_pct) 100;
          c1 = \<not> size_usd > max_trade_usd;
          r1 = (if size_usd > max_trade_usd
                then [TradeSizeAboveMax size_usd max_trade_usd max_trade_pct] else []);
          max_market_usd = config_float config ''max_market_usd'' 100;
          c2 = \<not> size_usd > max_market_usd;
          r2 = (if size_usd > max_market_usd
                then [TradeSizeAboveMarketMax size_usd max_market_usd] else []);
          correlation_max_pct = config_float config ''correlation_max_basket_pct'' 35;
          current_exposure = get_asset_exposure db asset;
          total_crypto_exposure = get_total_crypto_exposure db;
          new_total = float_add total_crypto_exposure size_usd;
          max_correlated = float_div (float_mul portfolio_value correlation_max_pct) 100;
          c3 = \<not> new_total > max_correlated;
          r3 = (if new_total > max_correlated
                then [CryptoExposureAboveMax new_total max_correlated] else []);
          max_pos = config_int config ''max_open_positions'' 5;
          open_positions = get_open_position_count db;
          c4 = \<not> int open_positions \<ge> max_pos;
          r4 = (if int open_positions \<ge> max_pos
                then [OpenPositionsAtMax open_positions max_pos] else [])
      in case get_daily_loss db today of
           Inl e \<Rightarrow> (rm', Inl e)
         | Inr loss \<Rightarrow>
             let daily_limit = config_float config ''daily_loss_limit_usd'' 25;
                 hit = (loss \<ge> float_mul daily_limit (float_round 0.8) \<and> loss \<ge> daily_limit);
                 c5 = \<not> hit;
                 r5 = (if hit then [DailyLossAtLimit loss daily_limit] else []);
                 all_passed = (c1 \<and> c2 \<and> c3 \<and> c4 \<and> c5)
             in (rm', Inr (all_passed,
                   \<lparr>passed = all_passed,
                    checks = \<lparr>max_trade_size = c1, max_market_exposure = c2,
                              correlation_limit = c3, max_positions = c4, daily_loss = c5\<rparr>,
                    reasons = r1 @ r2 @ r3 @ r4 @ r5,
                    result_size_usd = size_usd,
                    result_portfolio_value = portfolio_value\<rparr>)))"


text \<open>The condition of the position check in the words of the specification, for
  comparison with the code: the exposure is the sum of \<open>size * avg_entry_price\<close> over
  the open positions of each configured asset (\<open>TRADING_ASSETS\<close> of the settings), and
  the sums and products are those of exact arithmetic.  \<open>loss\<close> is the realised loss
  of today.\<close>

definition spec_position_check ::
  "settings \<Rightarrow> config_dict \<Rightarrow> store \<Rightarrow> real \<Rightarrow> real \<Rightarrow> real \<Rightarrow> bool" where
  "spec_position_check cfg config db size_usd portfolio_value loss =
     (size_usd \<le> portfolio_value * config_float config ''portfolio_trade_pct'' 5 / 100
    \<and> size_usd \<le> config_float config ''max_market_usd'' 100
    \<and> sum_list (map (sum_exposure db) (TRADING_ASSETS cfg)) + size_usd
         \<le> portfolio_value * config_float config ''correlation_max_basket_pct'' 35 / 100
    \<and> int (get_open_position_count db) < config_int config ''max_open_positions'' 5
    \<and> loss < config_float config ''daily_loss_limit_usd'' 25)"
section \<open>The execution module (TradingService, trading\_service.py)\<close>

text \<open>The service holds the credentials of the settings and the signing account, which
  \<open>__init__\<close> derives from the private key (\<open>None\<close> when there is no key or the key is
  refused).\<close>

record trading_service =
  api_key :: string
  private_key :: string
  account :: "string option"

text \<open>\<open>TradingService.__init__\<close>; \<open>from_key\<close> is the answer of \<open>Account.from_key\<close>.\<close>

definition trading_service_init :: "settings \<Rightarrow> string option \<Rightarrow> trading_service" where
  "trading_service_init cfg from_key =
     \<lparr>api_key = POLYMARKET_API_KEY cfg, private_key = POLYMARKET_PRIVATE_KEY cfg,
      account = (if POLYMARKET_PRIVATE_KEY cfg \<noteq> [] then from_key else None)\<rparr>"

text \<open>The answer of the venue to \<open>POST /order\<close>: the status code, the text of the body and
  what \<open>response.json()\<close> makes of it: it raises (\<open>NotJson\<close>, with the text of the
  exception), it is an object (with its entry \<open>orderID\<close>, if any), or it is another
  JSON value, on which \<open>result.get\<close> raises (\<open>JsonOther\<close>, with the text of the
  exception).\<close>

datatype json_body = NotJson string | JsonObject "string option" | JsonOther string

record http_response =
  status_code :: int
  response_text :: string
  response_json :: json_body

text \<open>The dictionary that \<open>place_limit_order\<close> returns.\<close>

record order_reply =
  reply_order_id :: string
  reply_status :: string
  reply_exchange_order_id :: "string option"
  reply_error :: "message option"
  reply_message :: "string option"

text \<open>The row selected by \<open>order_id\<close> (unique in the table) is changed and committed.\<close>

definition update_order :: "store \<Rightarrow> string \<Rightarrow> (order_row \<Rightarrow> order_row) \<Rightarrow> store" where
  "update_order db oid f =
     db\<lparr>orders := map (\<lambda>ord. if order_id ord = oid then f ord else ord) (orders db)\<rparr>"

text \<open>The row that \<open>place_limit_order\<close> builds for a new order.\<close>

definition new_order_row ::
  "string \<Rightarrow> string \<Rightarrow> string \<Rightarrow> real \<Rightarrow> real \<Rightarrow> nat \<Rightarrow> nat option \<Rightarrow> order_row" where
  "new_order_row oid token_id side price size' market decision =
     \<lparr>order_id = oid, order_market_id = market, order_decision_id = decision,
      order_side = side, order_token_id = token_id, order_price = price,
      order_size = size', order_status = ''pending'', order_type = ''limit'',
      error_message = None\<rparr>"

text \<open>The foreign keys of the table \<open>orders\<close>: \<open>market_id\<close> refers to \<open>markets.id\<close> and
  \<open>decision_id\<close>, when it is not null, to \<open>decisions.id\<close>.\<close>

definition references_hold :: "store \<Rightarrow> nat \<Rightarrow> nat option \<Rightarrow> bool" where
  "references_hold db market decision =
     (market \<in> set (map market_id (markets db))
      \<and> (case decision of None \<Rightarrow> True
          | Some d \<Rightarrow> d \<in> set (map decision_id (decisions db))))"

text \<open>The first part of \<open>place_limit_order\<close>, before the \<open>try\<close>: the order is stored with
  status \<open>pending\<close> and an audit row is written.  The store refuses the row, and the
  commit raises, when the column \<open>order_id\<close>, which is unique, already holds the id, or
  when a foreign key does not hold.\<close>

definition store_pending_order ::
  "store \<Rightarrow> string \<Rightarrow> string \<Rightarrow> string \<Rightarrow> real \<Rightarrow> real \<Rightarrow> nat \<Rightarrow> nat option \<Rightarrow> store result" where
  "store_pending_order db oid token_id side price size' market decision =
     (if oid \<in> set (map order_id (orders db)) then Inl IntegrityError
      else if \<not> references_hold db market decision then Inl IntegrityError
      else
        let row = new_order_row oid token_id side price size' market decision;
            audit = \<lparr>audit_event_type = ''order_placed'',
                     audit_details = OrderPlaced oid token_id side price size',
                     audit_user_id = None\<rparr>
        in Inr (db\<lparr>orders := orders db @ [row], audit_log := audit_log db @ [audit]\<rparr>))"

text \<open>The handler \<open>except Exception as e\<close> of \<open>place_limit_order\<close>.\<close>

definition order_failed :: "store \<Rightarrow> string \<Rightarrow> error \<Rightarrow> store \<times> order_reply result" where
  "order_failed db oid e =
     (update_order db oid
        (\<lambda>ord. ord\<lparr>order_status := ''error'', error_message := Some (ExceptionText e)\<rparr>),
      Inr \<lparr>reply_order_id = oid, reply_status = ''error'', reply_exchange_order_id = None,
           reply_error = Some (ExceptionText e), reply_message = None\<rparr>)"

text \<open>The second part of \<open>place_limit_order\<close>, the \<open>try\<close> with its handler, on the store
  that holds the pending order.  \<open>signed\<close> is the answer of the signing of the payload by
  the account and \<open>posted\<close> the answer of \<open>client.post\<close>; either may raise.  The payload
  itself (with its nonce from the clock) leaves the process and is not modelled.\<close>

definition send_order ::
  "trading_service \<Rightarrow> store \<Rightarrow> string \<Rightarrow> string result \<Rightarrow> http_response result
     \<Rightarrow> store \<times> order_reply result" where
  "send_order svc db oid signed posted =
     (if api_key svc = [] \<or> private_key svc = [] then
        (db, Inr \<lparr>reply_order_id = oid, reply_status = ''simulated'',
                  reply_exchange_order_id = None, reply_error = None,
                  reply_message = Some ''API credentials not configured''\<rparr>)
      else if account svc = None then order_failed db oid AccountNotInitialized
      else
        case signed of
          Inl e \<Rightarrow> order_failed db oid e
        | Inr signature \<Rightarrow>
           (case posted of
              Inl e \<Rightarrow> order_failed db oid e
            | Inr response \<Rightarrow>
                if status_code response = 200 then
                  (case response_json response of
                     NotJson t \<Rightarrow> order_failed db oid (External t)
                   | JsonObject exchange_id \<Rightarrow>
                       (update_order db oid (\<lambda>ord. ord\<lparr>order_status := ''open''\<rparr>),
                        Inr \<lparr>reply_order_id = oid, reply_status = ''open'',
                             reply_exchange_order_id = exchange_id, reply_error = None,
                             reply_message = None\<rparr>)
                   | JsonOther t \<Rightarrow>
                       order_failed (update_order db oid (\<lambda>ord. ord\<lparr>order_status := ''open''\<rparr>))
                         oid (External t))
                else
                  (update_order db oid
                     (\<lambda>ord. ord\<lparr>order_status := ''rejected'',
                                error_message := Some (Plain (response_text response))\<rparr>),
                   Inr \<lparr>reply_order_id = oid, reply_status = ''rejected'',
                        reply_exchange_order_id = None,
                        reply_error = Some (Plain (response_text response)),
                        reply_message = None\<rparr>)))"

text \<open>\<open>place_limit_order(token_id, side, price, size, market_id, decision_id)\<close>; \<open>oid\<close>
  is the value of \<open>uuid.uuid4()\<close>.\<close>

definition place_limit_order ::
  "trading_service \<Rightarrow> store \<Rightarrow> string \<Rightarrow> string \<Rightarrow> real \<Rightarrow> real \<Rightarrow> nat \<Rightarrow> nat option
     \<Rightarrow> string \<Rightarrow> string result \<Rightarrow> http_response result \<Rightarrow> store \<times> order_reply result" where
  "place_limit_order svc db token_id side price size' market decision oid signed posted =
     (if price \<le> 0 \<or> price \<ge> 1 then (db, Inl (InvalidPrice price))
      else if size' \<le> 0 then (db, Inl (InvalidSize size'))
      else
        case store_pending_order db oid token_id side price size' market decision of
          Inl e \<Rightarrow> (db, Inl e)
        | Inr db1 \<Rightarrow> send_order svc db1 oid signed posted)"

subsection \<open>The order book (MarketService.fetch\_orderbook, market\_service.py)\<close>

record book_level =
  level_price :: real
  level_size :: real

record book_data =
  book_bids :: "book_level list"
  book_asks :: "book_level list"

record orderbook =
  ob_token_id :: string
  best_bid :: "real option"
  best_ask :: "real option"
  bid_depth :: real
  ask_depth :: real
  spread :: "real option"
  ob_bids :: "book_level list"
  ob_asks :: "book_level list"

text \<open>\<open>fetch_orderbook(token_id)\<close>; \<open>fetched\<close> is the decoded answer of \<open>GET /book\<close>, or
  the exception raised on the way (transport, status, decoding of the JSON or of a
  number), which the function turns into \<open>None\<close>.  A \<open>Decimal\<close> is falsy when it is 0.\<close>

definition fetch_orderbook :: "string \<Rightarrow> book_data result \<Rightarrow> orderbook option" where
  "fetch_orderbook token_id fetched =
     (case fetched of
        Inl e \<Rightarrow> None
      | Inr data \<Rightarrow>
          let bids = book_bids data;
              asks = book_asks data;
              bid = (case bids of [] \<Rightarrow> None | b # _ \<Rightarrow> Some (level_price b));
              ask = (case asks of [] \<Rightarrow> None | a # _ \<Rightarrow> Some (level_price a));
              bid_truthy = (bid \<noteq> None \<and> bid \<noteq> Some 0);
              ask_truthy = (ask \<noteq> None \<and> ask \<noteq> Some 0)
          in Some \<lparr>ob_token_id = token_id,
                   best_bid = (if bid_truthy then bid else None),
                   best_ask = (if ask_truthy then ask else None),
                   bid_depth = sum_list (map level_size (take 10 bids)),
                   ask_depth = sum_list (map level_size (take 10 asks)),
                   spread = (if bid_truthy \<and> ask_truthy then Some (the ask - the bid) else None),
                   ob_bids = take 10 bids,
                   ob_asks = take 10 asks\<rparr>)"

text \<open>\<open>check_liquidity(token_id, min_liquidity_usd)\<close>.\<close>

definition check_liquidity :: "string \<Rightarrow> real \<Rightarrow> book_data result \<Rightarrow> bool" where
  "check_liquidity token_id min_liquidity_usd fetched =
     (case fetch_orderbook token_id fetched of
        None \<Rightarrow> False
      | Some ob \<Rightarrow> bid_depth ob + ask_depth ob \<ge> min_liquidity_usd)"

subsection \<open>Marketable limit orders\<close>

text \<open>The default of the parameter \<open>slippage_bps\<close>.\<close>

definition default_slippage_bps :: int where
  "default_slippage_bps = 100"

text \<open>\<open>place_marketable_limit_order(token_id, side, size, market_id, decision_id,
  slippage_bps)\<close>; \<open>slippage = None\<close> is a call that leaves the parameter out.  A float
  is falsy when it is 0.\<close>

definition place_marketable_limit_order ::
  "trading_service \<Rightarrow> store \<Rightarrow> string \<Rightarrow> string \<Rightarrow> real \<Rightarrow> nat \<Rightarrow> nat option \<Rightarrow> int option
     \<Rightarrow> book_data result \<Rightarrow> string \<Rightarrow> string result \<Rightarrow> http_response result
     \<Rightarrow> store \<times> order_reply result" where
  "place_marketable_limit_order svc db token_id side size' market decision slippage fetched
       oid signed posted =
     (let slippage_bps = (case slippage of None \<Rightarrow> default_slippage_bps | Some b \<Rightarrow> b) in
      case fetch_orderbook token_id fetched of
        None \<Rightarrow> (db, Inl CouldNotFetchOrderbook)
      | Some ob \<Rightarrow>
          if side = ''BUY'' then
            (if best_ask ob = None \<or> best_ask ob = Some 0 then (db, Inl NoAsksInOrderbook)
             else
               let price = the (best_ask ob) + real_of_int slippage_bps / 10000;
                   price = min price 0.99
               in place_limit_order svc db token_id side price size' market decision
                    oid signed posted)
          else
            (if best_bid ob = None \<or> best_bid ob = Some 0 then (db, Inl NoBidsInOrderbook)
             else
               let price = the (best_bid ob) - real_of_int slippage_bps / 10000;
                   price = max price 0.01
               in place_limit_order svc db token_id side price size' market decision
                    oid signed posted))"

subsection \<open>Positions\<close>

text \<open>\<open>update_position(market_id, token_id, side, size_change, price)\<close> at clock \<open>now\<close>.
  The position found is changed and written back under its primary key; a new position
  gets a new key, and the store refuses it when \<open>market_id\<close> is not the id of a market
  (the foreign key of the table \<open>positions\<close>).\<close>

definition update_position ::
  "store \<Rightarrow> nat \<Rightarrow> string \<Rightarrow> string \<Rightarrow> real \<Rightarrow> real \<Rightarrow> datetime \<Rightarrow> store \<times> unit result" where
  "update_position db market token_id side size_change price now =
     (case scalar_one_or_none
             (filter (\<lambda>p. position_market_id p = market \<and> position_token_id p = token_id
                           \<and> position_status p = ''open'') (positions db)) of
        Inl e \<Rightarrow> (db, Inl e)
      | Inr (Some position) \<Rightarrow>
          let new_size = position_size position + size_change;
              position' =
                (if new_size \<le> 0 then
                   position\<lparr>position_status := ''closed'', closed_at := Some now,
                            position_size := 0\<rparr>
                 else
                   let total_value = position_size position * avg_entry_price position
                                       + size_change * price
                   in position\<lparr>avg_entry_price := total_value / new_size,
                               position_size := new_size\<rparr>)
          in (db\<lparr>positions := map (\<lambda>q. if position_id q = position_id position
                                         then position' else q) (positions db)\<rparr>, Inr ())
      | Inr None \<Rightarrow>
          let position = \<lparr>position_id = next_id (map position_id (positions db)),
                          position_market_id = market, position_token_id = token_id,
                          position_side = side, position_size = size_change,
                          avg_entry_price = price, position_status = ''open'',
                          opened_at = now, closed_at = None\<rparr>
          in if market \<notin> set (map market_id (markets db)) then (db, Inl IntegrityError)
             else (db\<lparr>positions := positions db @ [position]\<rparr>, Inr ()))"

text \<open>\<open>get_positions(status)\<close>.\<close>

definition get_positions :: "store \<Rightarrow> string \<Rightarrow> position_row list" where
  "get_positions db status = filter (\<lambda>p. position_status p = status) (positions db)"

section \<open>The signal generator (StrategyService, strategy\_service.py)\<close>

subsection \<open>Arrays\<close>

text \<open>The operations of numpy that the features use, on lists of reals.  \<open>lastn n xs\<close> is
  the slice \<open>xs[-n:]\<close> for \<open>n > 0\<close>: the last \<open>n\<close> elements, or all of them when there are
  fewer.  \<open>np_std\<close> is the standard deviation of the population.\<close>

definition lastn :: "nat \<Rightarrow> 'a list \<Rightarrow> 'a list" where
  "lastn n xs = drop (length xs - n) xs"

definition np_diff :: "real list \<Rightarrow> real list" where
  "np_diff xs = map (\<lambda>(a, b). b - a) (zip (butlast xs) (tl xs))"

definition np_mean :: "real list \<Rightarrow> real" where
  "np_mean xs = sum_list xs / real (length xs)"

definition np_std :: "real list \<Rightarrow> real" where
  "np_std xs = sqrt (np_mean (map (\<lambda>x. (x - np_mean xs)\<^sup>2) xs))"

definition np_max :: "real list \<Rightarrow> real" where
  "np_max xs = fold max xs (hd xs)"

definition np_min :: "real list \<Rightarrow> real" where
  "np_min xs = fold min xs (hd xs)"

text \<open>\<open>np.polyfit(x, y, 1)\<close> fits a line by least squares in floating point (a singular
  value decomposition of LAPACK), and the code tests the sign of the slope it returns.
  That slope is not computed here: a function of this type, from \<open>x\<close> and \<open>y\<close> to the
  slope returned, is a parameter of the feature calculation.\<close>

type_synonym polyfit = "real list \<Rightarrow> real list \<Rightarrow> real"

text \<open>The slope of the least squares line itself.  \<open>np.polyfit\<close> returns it up to the
  rounding of its computation, which is many orders of magnitude below the slopes of the
  two runs at the end of the definitions, where it stands for \<open>np.polyfit\<close>; it says
  nothing of the sign that \<open>np.polyfit\<close> returns where the exact slope is 0.\<close>

definition least_squares_slope :: polyfit where
  "least_squares_slope xs ys =
     sum_list (map (\<lambda>(x, y). (x - np_mean xs) * (y - np_mean ys)) (zip xs ys))
       / sum_list (map (\<lambda>x. (x - np_mean xs)\<^sup>2) xs)"

text \<open>\<open>str(n)\<close> of a natural number, for the keys \<open>f"momentum_{period}"\<close>.\<close>

fun str_nat :: "nat \<Rightarrow> string" where
  "str_nat n = (if n < 10 then [''0123456789'' ! n]
                else str_nat (n div 10) @ [''0123456789'' ! (n mod 10)])"

declare str_nat.simps [simp del]

subsection \<open>Features\<close>

text \<open>The configuration of \<open>StrategyService.__init__\<close>.\<close>

definition lookback_periods :: nat where
  "lookback_periods = 20"
definition momentum_periods :: "nat list" where
  "momentum_periods = [3, 5, 10]"
definition ma_periods :: "nat list" where
  "ma_periods = [5, 10, 20]"
definition rsi_period :: nat where
  "rsi_period = 14"
definition volatility_period :: nat where
  "volatility_period = 14"
definition zscore_period :: nat where
  "zscore_period = 20"

type_synonym features = "string \<rightharpoonup> real"

text \<open>\<open>_calculate_rsi(closes, period)\<close>.\<close>

definition calculate_rsi :: "real list \<Rightarrow> nat \<Rightarrow> real" where
  "calculate_rsi closes period =
     (if length closes < period + 1 then 50
      else
        let deltas = np_diff closes;
            gains = map (\<lambda>d. if d > 0 then d else 0) deltas;
            losses = map (\<lambda>d. if d < 0 then - d else 0) deltas;
            avg_gain = np_mean (lastn period gains);
            avg_loss = np_mean (lastn period losses)
        in if avg_loss = 0 then 100
           else let rs = avg_gain / avg_loss in 100 - (100 / (1 + rs)))"

text \<open>The blocks of \<open>_calculate_features\<close>, each adding its entries to the dictionary.
  \<open>closes[-k]\<close> is \<open>closes ! (length closes - k)\<close>; each block reads it under the guard
  on the length that the source has.\<close>

definition add_returns :: "real list \<Rightarrow> features \<Rightarrow> features" where
  "add_returns closes f =
     (let returns = map (\<lambda>(d, c). d / c) (zip (np_diff closes) (butlast closes))
      in f(''return_1'' \<mapsto> (if length returns > 0 then last returns else 0),
           ''return_3'' \<mapsto> (if length returns \<ge> 3 then sum_list (lastn 3 returns) else 0),
           ''return_5'' \<mapsto> (if length returns \<ge> 5 then sum_list (lastn 5 returns) else 0)))"

definition add_momentum :: "real list \<Rightarrow> nat \<Rightarrow> features \<Rightarrow> features" where
  "add_momentum closes period f =
     (if length closes > period then
        f(''momentum_'' @ str_nat period \<mapsto>
            (last closes - closes ! (length closes - period - 1))
              / closes ! (length closes - period - 1))
      else f)"

definition add_moving_average :: "real list \<Rightarrow> nat \<Rightarrow> features \<Rightarrow> features" where
  "add_moving_average closes period f =
     (if length closes \<ge> period then
        let ma = np_mean (lastn period closes)
        in f(''ma_'' @ str_nat period \<mapsto> ma,
             ''price_vs_ma_'' @ str_nat period \<mapsto> (last closes - ma) / ma)
      else f)"

definition add_crossovers :: "features \<Rightarrow> features" where
  "add_crossovers f =
     (let f1 = (if f ''ma_5'' \<noteq> None \<and> f ''ma_10'' \<noteq> None
                then f(''ma_5_10_cross'' \<mapsto> (if the (f ''ma_5'') > the (f ''ma_10'') then 1 else - 1))
                else f)
      in if f1 ''ma_5'' \<noteq> None \<and> f1 ''ma_20'' \<noteq> None
         then f1(''ma_5_20_cross'' \<mapsto> (if the (f1 ''ma_5'') > the (f1 ''ma_20'') then 1 else - 1))
         else f1)"

definition add_volatility :: "real list \<Rightarrow> features \<Rightarrow> features" where
  "add_volatility closes f =
     (let returns = map (\<lambda>(d, c). d / c) (zip (np_diff closes) (butlast closes))
      in if length returns \<ge> volatility_period
         then f(''volatility'' \<mapsto> np_std (lastn volatility_period returns))
         else f)"

definition add_zscore :: "real list \<Rightarrow> features \<Rightarrow> features" where
  "add_zscore closes f =
     (if length closes \<ge> zscore_period then
        let mean = np_mean (lastn zscore_period closes);
            std = np_std (lastn zscore_period closes)
        in if std > 0 then f(''zscore'' \<mapsto> (last closes - mean) / std) else f
      else f)"

definition add_volume_ratio :: "real list \<Rightarrow> features \<Rightarrow> features" where
  "add_volume_ratio volumes f =
     (if length volumes \<ge> 10 then
        let avg_volume = np_mean (lastn 10 volumes)
        in if avg_volume > 0 then f(''volume_ratio'' \<mapsto> last volumes / avg_volume) else f
      else f)"

definition add_trend_slope :: "polyfit \<Rightarrow> real list \<Rightarrow> features \<Rightarrow> features" where
  "add_trend_slope np_polyfit closes f =
     (if length closes \<ge> 10 then
        let slope = np_polyfit (map real [0..<10]) (lastn 10 closes)
        in f(''trend_slope'' \<mapsto> slope / closes ! (length closes - 10))
      else f)"

text \<open>\<open>_calculate_features(closes, highs, lows, volumes)\<close>, with the slope function
  that stands for \<open>np.polyfit\<close>.  The only reads that are not
  under a guard on the length are \<open>np.max\<close> and \<open>np.min\<close> of the recent highs and lows,
  which raise on an empty array, and \<open>closes[-1]\<close> of the range position.\<close>

definition calculate_features ::
  "polyfit \<Rightarrow> real list \<Rightarrow> real list \<Rightarrow> real list \<Rightarrow> real list \<Rightarrow> features result" where
  "calculate_features np_polyfit closes highs lows volumes =
     (let f1 = add_returns closes Map.empty;
          f2 = fold (add_momentum closes) momentum_periods f1;
          f3 = fold (add_moving_average closes) ma_periods f2;
          f4 = add_crossovers f3;
          f5 = f4(''rsi'' \<mapsto> calculate_rsi closes rsi_period);
          f6 = add_volatility closes f5;
          f7 = add_zscore closes f6
      in if highs = [] \<or> lows = [] then Inl ZeroSizeArray
         else
           let recent_high = np_max (lastn lookback_periods highs);
               recent_low = np_min (lastn lookback_periods lows)
           in if recent_high > recent_low \<and> closes = [] then Inl IndexError
              else
                let f8 = (if recent_high > recent_low
                          then f7(''range_position'' \<mapsto>
                                 (last closes - recent_low) / (recent_high - recent_low))
                          else f7);
                    f9 = add_volume_ratio volumes f8
                in Inr (add_trend_slope np_polyfit closes f9))"

subsection \<open>The signal\<close>

text \<open>The scoring of \<open>_generate_signal\<close>: the bullish score, the bearish score and the
  total weight, each block adding to them in the order of the source.\<close>

type_synonym scores = "real \<times> real \<times> real"

definition score_momentum :: "features \<Rightarrow> nat \<Rightarrow> scores \<Rightarrow> scores" where
  "score_momentum f period = (\<lambda>(bullish, bearish, total).
     case f (''momentum_'' @ str_nat period) of
       None \<Rightarrow> (bullish, bearish, total)
     | Some v \<Rightarrow>
         if v > 0.005 then (bullish + 2, bearish, total + 2)
         else if v < - 0.005 then (bullish, bearish + 2, total + 2)
         else (bullish, bearish, total + 2))"

definition score_cross :: "features \<Rightarrow> string \<Rightarrow> scores \<Rightarrow> scores" where
  "score_cross f k = (\<lambda>(bullish, bearish, total).
     case f k of
       None \<Rightarrow> (bullish, bearish, total)
     | Some v \<Rightarrow>
         if v > 0 then (bullish + 1.5, bearish, total + 1.5)
         else (bullish, bearish + 1.5, total + 1.5))"

definition score_rsi :: "features \<Rightarrow> scores \<Rightarrow> scores" where
  "score_rsi f = (\<lambda>(bullish, bearish, total).
     case f ''rsi'' of
       None \<Rightarrow> (bullish, bearish, total)
     | Some rsi \<Rightarrow>
         if rsi < 30 then (bullish + 1.5, bearish, total + 1.5)
         else if rsi > 70 then (bullish, bearish + 1.5, total + 1.5)
         else (bullish, bearish, total + 1.5))"

definition score_zscore :: "features \<Rightarrow> scores \<Rightarrow> scores" where
  "score_zscore f = (\<lambda>(bullish, bearish, total).
     case f ''zscore'' of
       None \<Rightarrow> (bullish, bearish, total)
     | Some zscore \<Rightarrow>
         if zscore < - 1.5 then (bullish + 1, bearish, total + 1)
         else if zscore > 1.5 then (bullish, bearish + 1, total + 1)
         else (bullish, bearish, total + 1))"

definition score_trend :: "features \<Rightarrow> scores \<Rightarrow> scores" where
  "score_trend f = (\<lambda>(bullish, bearish, total).
     case f ''trend_slope'' of
       None \<Rightarrow> (bullish, bearish, total)
     | Some v \<Rightarrow>
         if v > 0 then (bullish + 2, bearish, total + 2)
         else if v < 0 then (bullish, bearish + 2, total + 2)
         else (bullish, bearish, total + 2))"

definition signal_scores :: "features \<Rightarrow> scores" where
  "signal_scores f =
     score_trend f (score_zscore f (score_rsi f
       (score_cross f ''ma_5_20_cross'' (score_cross f ''ma_5_10_cross''
          (fold (score_momentum f) momentum_periods (0, 0, 0))))))"

text \<open>\<open>_generate_signal(features)\<close>: the signal and the confidence.\<close>

definition generate_signal :: "features \<Rightarrow> string \<times> real" where
  "generate_signal f =
     (case signal_scores f of (bullish_score, bearish_score, total_weight) \<Rightarrow>
        if total_weight = 0 then (''NEUTRAL'', 0)
        else
          let net_score = (bullish_score - bearish_score) / total_weight;
              confidence = \<bar>net_score\<bar>;
              (signal, confidence) =
                (if net_score > 0.3 then (''UP'', confidence)
                 else if net_score < - 0.3 then (''DOWN'', confidence)
                 else (''NEUTRAL'', 0))
          in (signal, min confidence 0.95))"

subsection \<open>Candles and decisions\<close>

text \<open>\<open>PriceService.get_candles(symbol, limit)\<close>: the \<open>limit\<close> latest 15 minute candles
  of the symbol, in ascending order of their opening time.\<close>

definition get_candles :: "store \<Rightarrow> string \<Rightarrow> nat \<Rightarrow> candle_row list" where
  "get_candles db symbol limit =
     lastn limit (sort_key candle_open_time
        (filter (\<lambda>c. candle_symbol c = symbol \<and> candle_timeframe c = ''15m'') (candles db)))"

text \<open>The row that \<open>_store_decision\<close> builds: the flag \<open>executed\<close> is false.\<close>

definition new_decision_row :: "store \<Rightarrow> string \<Rightarrow> string \<Rightarrow> real \<Rightarrow> features \<Rightarrow> decision_row" where
  "new_decision_row db asset signal confidence f =
     \<lparr>decision_id = next_id (map decision_id (decisions db)),
      decision_asset = asset, decision_direction = signal,
      decision_confidence = confidence, decision_features = f,
      signal_source = ''technical'', executed = False, execution_id = None\<rparr>"

text \<open>\<open>_store_decision\<close>: the store with the new row, and the id of the row.\<close>

definition store_decision :: "store \<Rightarrow> string \<Rightarrow> string \<Rightarrow> real \<Rightarrow> features \<Rightarrow> store \<times> nat" where
  "store_decision db asset signal confidence f =
     (let decision = new_decision_row db asset signal confidence f
      in (db\<lparr>decisions := decisions db @ [decision]\<rparr>, decision_id decision))"

text \<open>The dictionary that \<open>analyze_asset\<close> returns.\<close>

record analysis =
  analysis_asset :: string
  analysis_signal :: string
  analysis_confidence :: real
  analysis_reason :: "string option"
  analysis_features :: features
  analysis_last_price :: "real option"

text \<open>\<open>analyze_asset(asset)\<close>, with the slope function that stands for \<open>np.polyfit\<close>.\<close>

definition analyze_asset :: "polyfit \<Rightarrow> store \<Rightarrow> string \<Rightarrow> store \<times> analysis result" where
  "analyze_asset np_polyfit db asset =
     (let cs = get_candles db asset 50 in
      if length cs < lookback_periods then
        (db, Inr \<lparr>analysis_asset = asset, analysis_signal = ''NEUTRAL'',
                  analysis_confidence = 0, analysis_reason = Some ''Insufficient data'',
                  analysis_features = Map.empty, analysis_last_price = None\<rparr>)
      else
        case calculate_features np_polyfit (map candle_close cs) (map candle_high cs)
               (map candle_low cs) (map candle_volume cs) of
          Inl e \<Rightarrow> (db, Inl e)
        | Inr f \<Rightarrow>
            let (signal, confidence) = generate_signal f;
                (db', decision) = store_decision db asset signal confidence f
            in (db', Inr \<lparr>analysis_asset = asset, analysis_signal = signal,
                          analysis_confidence = confidence, analysis_reason = None,
                          analysis_features = f,
                          analysis_last_price = Some (last (map candle_close cs))\<rparr>))"

section \<open>The worker (TradingWorker, trading\_worker.py)\<close>

subsection \<open>Services the cycle calls\<close>

text \<open>The cache of the latest prices of \<open>PriceService\<close>: a dictionary from the symbol to
  the price and the time it was fetched.\<close>

record latest_price =
  latest_price_price :: real
  latest_price_timestamp :: datetime

type_synonym price_service = "(string \<times> latest_price) list"

text \<open>\<open>PriceService.is_data_stale(symbol, threshold_seconds)\<close> at clock \<open>now\<close>.  The
  timestamp was written by the service itself, so it can be read back.\<close>

definition is_data_stale :: "price_service \<Rightarrow> string \<Rightarrow> int \<Rightarrow> datetime \<Rightarrow> bool" where
  "is_data_stale latest_prices symbol threshold_seconds now =
     (case map_of latest_prices symbol of
        None \<Rightarrow> True
      | Some latest \<Rightarrow>
          total_seconds (now - latest_price_timestamp latest) > real_of_int threshold_seconds)"

text \<open>\<open>RiskManager.trip_breaker(name, reason)\<close>; \<open>now\<close> is the clock of the trip and
  \<open>t_set\<close> the one of \<open>set_bot_state\<close>.\<close>

definition trip_breaker :: "store \<Rightarrow> string \<Rightarrow> string \<Rightarrow> datetime \<Rightarrow> datetime \<Rightarrow> store \<times> unit result" where
  "trip_breaker db name reason now t_set =
     (case scalar_one_or_none (filter (\<lambda>b. breaker_name b = name) (circuit_breakers db)) of
        Inl e \<Rightarrow> (db, Inl e)
      | Inr found \<Rightarrow>
          let rows =
                (case found of
                   Some breaker \<Rightarrow>
                     map (\<lambda>b. if breaker_name b = name
                               then b\<lparr>is_tripped := True, trip_reason := Some reason,
                                      trip_count := trip_count b + 1, last_trip := Some now\<rparr>
                               else b) (circuit_breakers db)
                 | None \<Rightarrow>
                     circuit_breakers db @
                       [\<lparr>breaker_name = name, is_tripped = True, trip_reason = Some reason,
                         trip_count = 1, last_trip = Some now, last_reset = None\<rparr>]);
              audit = \<lparr>audit_event_type = ''circuit_breaker_tripped'',
                       audit_details = BreakerTripped name reason, audit_user_id = None\<rparr>;
              db1 = db\<lparr>circuit_breakers := rows, audit_log := audit_log db @ [audit]\<rparr>
          in if name \<in> set [''daily_loss_limit'', ''reconciliation_mismatch''] then
               (case set_bot_state db1 ''HALTED_CIRCUIT_BREAKER''
                       (Plain (''Circuit breaker: '' @ name)) ''system'' t_set of
                  Inl e \<Rightarrow> (db1, Inl e)
                | Inr db2 \<Rightarrow> (db2, Inr ()))
             else (db1, Inr ()))"

text \<open>\<open>MarketService.get_tradable_market(asset)\<close> at clock \<open>now\<close>: the active market of
  the asset that ends first among those ending after the buffer.\<close>

definition get_tradable_market :: "settings \<Rightarrow> store \<Rightarrow> string \<Rightarrow> datetime \<Rightarrow> market_row option" where
  "get_tradable_market cfg db asset now =
     (let min_end_time = now + MARKET_CLOSE_BUFFER_MINUTES cfg * 60000000;
          found = filter (\<lambda>m. market_asset m = asset \<and> market_active m
                              \<and> (case market_end_date m of None \<Rightarrow> False
                                  | Some t \<Rightarrow> t > min_end_time)) (markets db)
      in case sort_key (\<lambda>m. the (market_end_date m)) found of
           [] \<Rightarrow> None
         | m # _ \<Rightarrow> Some m)"

text \<open>\<open>round(x, 2)\<close> of Python: to the nearest hundredth, a tie going to the even one.\<close>

definition py_round2 :: "real \<Rightarrow> real" where
  "py_round2 x = real_of_int (round_half_even (x * 100)) / 100"

subsection \<open>The worker and one asset of a cycle\<close>

record trading_worker =
  worker_price_service :: price_service
  worker_trading_service :: trading_service
  worker_risk_manager :: risk_manager
  analysis_interval :: int
  last_analysis :: "(string \<times> datetime) list"
  worker_portfolio_value :: real

text \<open>\<open>TradingWorker.__init__\<close>, with the signing account that the key gives.\<close>

definition trading_worker_init :: "settings \<Rightarrow> string option \<Rightarrow> trading_worker" where
  "trading_worker_init cfg from_key =
     \<lparr>worker_price_service = [], worker_trading_service = trading_service_init cfg from_key,
      worker_risk_manager = risk_manager_init, analysis_interval = 300,
      last_analysis = [], worker_portfolio_value = 500\<rparr>"

text \<open>\<open>_calculate_position_size(confidence)\<close>.\<close>

definition calculate_position_size :: "settings \<Rightarrow> trading_worker \<Rightarrow> real \<Rightarrow> real" where
  "calculate_position_size cfg w confidence =
     (let base_pct = PORTFOLIO_TRADE_PCT cfg / 100;
          confidence_factor = 0.5 + (confidence * 0.5);
          size' = worker_portfolio_value w * base_pct * confidence_factor;
          size' = min size' (MAX_MARKET_USD cfg)
      in py_round2 size')"

text \<open>What the environment answers during one call of \<open>_process_asset\<close>: the readings of
  the clock, the slope function that stands for \<open>np.polyfit\<close>, the two order books
  fetched (for the liquidity check and for the price of the order), the value of
  \<open>uuid.uuid4()\<close>, the signature and the answer of the venue.\<close>

record cycle_io =
  io_clock_stale :: datetime
  io_clock_breaker :: datetime
  io_clock_state :: datetime
  io_clock_market :: datetime
  io_today :: int
  io_clock_config :: datetime
  io_clock_config_loaded :: datetime
  io_polyfit :: polyfit
  io_book_liquidity :: "book_data result"
  io_book_order :: "book_data result"
  io_uuid :: string
  io_signed :: "string result"
  io_posted :: "http_response result"

text \<open>The test \<open>should_analyze\<close> of \<open>_process_asset\<close>: the asset was never analysed, or
  the last analysis is at least \<open>analysis_interval\<close> seconds old.\<close>

definition should_analyze :: "trading_worker \<Rightarrow> string \<Rightarrow> datetime \<Rightarrow> bool" where
  "should_analyze w asset now =
     (case map_of (last_analysis w) asset of
        None \<Rightarrow> True
      | Some t \<Rightarrow> total_seconds (now - t) \<ge> real_of_int (analysis_interval w))"

text \<open>\<open>_process_asset(asset, now)\<close>: the worker and the store as the call leaves them,
  and \<open>Inr ()\<close> when it returns or the exception it raises.\<close>

definition process_asset ::
  "settings \<Rightarrow> trading_worker \<Rightarrow> store \<Rightarrow> string \<Rightarrow> datetime \<Rightarrow> cycle_io
     \<Rightarrow> trading_worker \<times> store \<times> unit result" where
  "process_asset cfg w db asset now io =
     (if \<not> should_analyze w asset now then (w, db, Inr ())
      else if is_data_stale (worker_price_service w) asset (STALE_DATA_THRESHOLD_SECONDS cfg)
                (io_clock_stale io) then
        (case trip_breaker db ''stale_data'' (''Stale data for '' @ asset)
                (io_clock_breaker io) (io_clock_state io) of
           (db1, r) \<Rightarrow> (w, db1, r))
      else
        case analyze_asset (io_polyfit io) db asset of
          (db1, Inl e) \<Rightarrow> (w, db1, Inl e)
        | (db1, Inr a) \<Rightarrow>
            let w1 = w\<lparr>last_analysis := AList.update asset now (last_analysis w)\<rparr> in
            if analysis_signal a = ''NEUTRAL'' \<or> analysis_confidence a < 0.5 then (w1, db1, Inr ())
            else
              case get_tradable_market cfg db1 asset (io_clock_market io) of
                None \<Rightarrow> (w1, db1, Inr ())
              | Some market \<Rightarrow>
                  let token = (if analysis_signal a = ''UP'' then yes_token_id market
                               else no_token_id market)
                  in if token = None \<or> token = Some [] then (w1, db1, Inr ())
                  else if \<not> check_liquidity (the token) (MIN_LIQUIDITY_USD cfg)
                             (io_book_liquidity io) then (w1, db1, Inr ())
                  else
                    let size_usd = calculate_position_size cfg w1 (analysis_confidence a) in
                    case check_position_risk (worker_risk_manager w1) db1 asset size_usd
                           (worker_portfolio_value w1) (io_today io) (io_clock_config io)
                           (io_clock_config_loaded io) of
                      (rm, Inl e) \<Rightarrow> (w1\<lparr>worker_risk_manager := rm\<rparr>, db1, Inl e)
                    | (rm, Inr (ok, risk)) \<Rightarrow>
                        let w2 = w1\<lparr>worker_risk_manager := rm\<rparr> in
                        if \<not> ok then (w2, db1, Inr ())
                        else
                          case place_marketable_limit_order (worker_trading_service w2) db1
                                 (the token) ''BUY'' size_usd (market_id market) None None
                                 (io_book_order io) (io_uuid io) (io_signed io) (io_posted io) of
                            (db2, Inl e) \<Rightarrow> (w2, db2, Inl e)
                          | (db2, Inr reply) \<Rightarrow> (w2, db2, Inr ()))"

section \<open>Two runs of the cycle, for the examples\<close>

text \<open>Twenty 15 minute candles of BTC with the given closes (open, high and low equal to
  the close), the first opening at the epoch.\<close>

definition scenario_candles :: "real list \<Rightarrow> candle_row list" where
  "scenario_candles closes =
     map (\<lambda>(i, c). \<lparr>candle_symbol = ''BTC'', candle_timeframe = ''15m'',
                     candle_open_time = int i * 900000000, candle_open = c,
                     candle_high = c, candle_low = c, candle_close = c,
                     candle_volume = 10\<rparr>)
         (zip [0..<length closes] closes)"

text \<open>A rally from 100 to 116, and a slow drift upwards from 1000 to 1003.\<close>

definition rally_closes :: "real list" where
  "rally_closes = [100, 101, 102, 103, 104, 104, 104, 105, 106, 106,
                   108, 108, 109, 109, 111, 112, 114, 115, 115, 116]"

definition drift_closes :: "real list" where
  "drift_closes = [1000, 1000, 1001, 1001, 1002, 1003, 1002, 1002, 1003, 1002,
                   1002, 1002, 1002, 1001, 1002, 1002, 1003, 1003, 1004, 1003]"

text \<open>A running bot with the candles, and one active BTC market that ends at 19200 s.\<close>

definition scenario_store :: "real list \<Rightarrow> store" where
  "scenario_store closes =
     empty_store
       \<lparr>bot_state := [\<lparr>bot_state_state = ''RUNNING'', bot_state_reason = Plain ''start'',
                       bot_state_updated_by = ''api'', bot_state_updated_at = 0\<rparr>],
        markets := [\<lparr>market_id = 1, market_condition_id = ''0xbtc'', market_asset = ''BTC'',
                     market_end_date = Some 19200000000, market_active = True,
                     yes_token_id = Some ''yes1'', no_token_id = Some ''no1'',
                     market_title = ''BTC up or down''\<rparr>],
        candles := scenario_candles closes\<rparr>"

text \<open>Settings with credentials, and a worker whose price of BTC is one second old at
  18000 s.\<close>

definition scenario_settings :: settings where
  "scenario_settings =
     default_settings\<lparr>POLYMARKET_API_KEY := ''key'', POLYMARKET_PRIVATE_KEY := ''0xabc''\<rparr>"

definition scenario_worker :: trading_worker where
  "scenario_worker =
     (trading_worker_init scenario_settings (Some ''0xfunder''))
       \<lparr>worker_price_service :=
          [(''BTC'', \<lparr>latest_price_price = 116, latest_price_timestamp = 17999000000\<rparr>)]\<rparr>"

text \<open>The environment: the clock at 18000 s, the least squares slope for \<open>np.polyfit\<close>,
  a book with 600 on each side and the best ask at 0.55, and a venue that accepts the
  order.\<close>

definition scenario_book :: book_data where
  "scenario_book = \<lparr>book_bids = [\<lparr>level_price = 0.53, level_size = 600\<rparr>],
                    book_asks = [\<lparr>level_price = 0.55, level_size = 600\<rparr>]\<rparr>"

definition scenario_io :: cycle_io where
  "scenario_io =
     \<lparr>io_clock_stale = 18000000000, io_clock_breaker = 18000000000,
      io_clock_state = 18000000000, io_clock_market = 18000000000, io_today = 0,
      io_clock_config = 18000000000, io_clock_config_loaded = 18000000000,
      io_polyfit = least_squares_slope,
      io_book_liquidity = Inr scenario_book, io_book_order = Inr scenario_book,
      io_uuid = ''id1'', io_signed = Inr ''sig'',
      io_posted = Inr \<lparr>status_code = 200, response_text = ''ok'',
                        response_json = JsonObject (Some ''ex1'')\<rparr>\<rparr>"

section \<open>Lemmas about the modelled functions\<close>

lemma round_half_even_ge_floor: "\<lfloor>t\<rfloor> \<le> round_half_even t"
  by (simp add: round_half_even_def)

lemma round_half_even_le_ceiling: "round_half_even t \<le> \<lceil>t\<rceil>"
proof (cases "t = real_of_int \<lfloor>t\<rfloor>")
  case True
  then have "round_half_even t = \<lfloor>t\<rfloor>" by (simp add: round_half_even_def)
  then show ?thesis by (simp add: floor_le_ceiling)
next
  case False
  then have "\<lceil>t\<rceil> = \<lfloor>t\<rfloor> + 1" by (simp add: ceiling_altdef)
  then show ?thesis by (simp add: round_half_even_def)
qed

lemma binade:
  assumes "0 < x"
  shows "2 powi \<lfloor>log 2 x\<rfloor> \<le> x" "x < 2 powi (\<lfloor>log 2 x\<rfloor> + 1)"
proof -
  have "(2::real) powr real_of_int k = 2 powi k" for k
    by (simp only: powr_real_of_int'[of 2] zero_le_numeral zero_neq_numeral numeral_neq_zero
          simp_thms)
  from this[of "\<lfloor>log 2 x\<rfloor>"] this[of "\<lfloor>log 2 x\<rfloor> + 1"]
    floor_log_eq_powr_iff[of x 2 "\<lfloor>log 2 x\<rfloor>"] assms
  show "2 powi \<lfloor>log 2 x\<rfloor> \<le> x" "x < 2 powi (\<lfloor>log 2 x\<rfloor> + 1)" by simp_all
qed

lemma floor_log2_eq:
  assumes "2 powi e \<le> x" "x < 2 powi (e + 1)"
  shows "\<lfloor>log 2 x\<rfloor> = e"
proof -
  have "0 < (2::real) powi e" by simp
  with assms(1) have pos: "0 < x" by linarith
  have "(2::real) powr real_of_int e = 2 powi e"
       "(2::real) powr real_of_int (e + 1) = 2 powi (e + 1)"
    by (simp_all only: powr_real_of_int'[of 2] zero_le_numeral zero_neq_numeral numeral_neq_zero
          simp_thms)
  with assms show ?thesis
    using floor_log_eq_powr_iff[of x 2 e] pos by simp
qed

text \<open>The double nearest to a number whose binade is known.\<close>

lemma float_round_binade:
  assumes "2 powi e \<le> \<bar>x\<bar>" "\<bar>x\<bar> < 2 powi (e + 1)"
  shows "float_round x = real_of_int (round_half_even (x / 2 powi (e - 52))) * 2 powi (e - 52)"
proof -
  have "0 < (2::real) powi e" by simp
  with assms(1) have "0 < \<bar>x\<bar>" by linarith
  then have "x \<noteq> 0" by simp
  then show ?thesis
    by (simp add: float_round_def floor_log2_eq[OF assms] Let_def)
qed

lemma float_round_0: "float_round 0 = 0"
  by (simp add: float_round_def)

lemma float_round_nonpos: "x \<le> 0 \<Longrightarrow> float_round x \<le> 0"
proof -
  assume x: "x \<le> 0"
  define u :: real where "u = 2 powi (\<lfloor>log 2 \<bar>x\<bar>\<rfloor> - 52)"
  have u: "0 < u" by (simp add: u_def)
  have "x / u \<le> 0" using x u by (simp add: divide_nonpos_pos)
  then have "\<lceil>x / u\<rceil> \<le> 0" by (simp add: ceiling_le_iff)
  with round_half_even_le_ceiling[of "x / u"] have "round_half_even (x / u) \<le> 0" by linarith
  then have "real_of_int (round_half_even (x / u)) * u \<le> 0"
    using u by (simp add: mult_le_0_iff)
  then show ?thesis by (simp add: float_round_def Let_def u_def[symmetric])
qed

text \<open>Rounding does not cross a double: a positive number below a double \<open>x\<close> is rounded
  to a double that is at most \<open>x\<close>.\<close>

lemma float_round_le_float:
  assumes y: "0 < y" and yx: "y \<le> x" and fx: "float_round x = x"
  shows "float_round y \<le> x"
proof -
  have x: "0 < x" using y yx by simp
  define ex where "ex = \<lfloor>log 2 x\<rfloor>"
  define ey where "ey = \<lfloor>log 2 y\<rfloor>"
  define ux :: real where "ux = 2 powi (ex - 52)"
  define uy :: real where "uy = 2 powi (ey - 52)"
  have ux: "0 < ux" and uy: "0 < uy" by (simp_all add: ux_def uy_def)
  have fy: "float_round y = real_of_int (round_half_even (y / uy)) * uy"
    using y by (simp add: float_round_def Let_def uy_def ey_def)
  have fx': "x = real_of_int (round_half_even (x / ux)) * ux"
    using x fx by (simp add: float_round_def Let_def ux_def ex_def)
  have le: "ey \<le> ex"
    unfolding ey_def ex_def using y yx by (intro floor_mono log_mono) simp_all
  show ?thesis
  proof (cases "ey = ex")
    case True
    then have same: "uy = ux" by (simp add: uy_def ux_def)
    define k where "k = round_half_even (x / ux)"
    have xk: "x / ux = real_of_int k" using fx' ux by (simp add: k_def field_simps)
    have "y / ux \<le> real_of_int k" using yx ux xk by (simp add: divide_right_mono flip: xk)
    then have "\<lceil>y / ux\<rceil> \<le> k" by (simp add: ceiling_le_iff)
    with round_half_even_le_ceiling[of "y / ux"] have "round_half_even (y / ux) \<le> k" by linarith
    then have "real_of_int (round_half_even (y / ux)) * ux \<le> real_of_int k * ux"
      using ux by simp
    also have "\<dots> = x" using xk ux by (simp add: field_simps)
    finally show ?thesis using fy same by simp
  next
    case False
    with le have lt: "ey + 1 \<le> ex" by simp
    have ylt: "y < 2 powi (ey + 1)" using binade(2)[OF y] by (simp add: ey_def)
    have split: "(2::real) powi (ey + 1) = 2 ^ 53 * uy"
    proof -
      have "(2::real) powi (ey + 1) = 2 powi (53 + (ey - 52))"
        by (rule arg_cong[where f = "\<lambda>k. 2 powi k"]) simp
      also have "\<dots> = 2 powi 53 * 2 powi (ey - 52)" by (subst power_int_add) simp_all
      finally show ?thesis by (simp add: uy_def)
    qed
    have "y < 2 ^ 53 * uy" using ylt unfolding split .
    then have "y / uy < 2 ^ 53" using uy by (simp add: pos_divide_less_eq)
    then have "y / uy \<le> real_of_int (2 ^ 53)" by simp
    then have "\<lceil>y / uy\<rceil> \<le> 2 ^ 53" by (simp only: ceiling_le_iff)
    with round_half_even_le_ceiling[of "y / uy"] have "round_half_even (y / uy) \<le> 2 ^ 53"
      by linarith
    then have "real_of_int (round_half_even (y / uy)) \<le> 2 ^ 53"
      by (metis of_int_le_iff of_int_numeral of_int_power)
    then have "real_of_int (round_half_even (y / uy)) * uy \<le> 2 ^ 53 * uy"
      using uy by simp
    also have "\<dots> = 2 powi (ey + 1)" by (simp add: split)
    also have "\<dots> \<le> 2 powi ex" using lt by (intro power_int_increasing) simp_all
    also have "\<dots> \<le> x" using binade(1)[OF x] by (simp add: ex_def)
    finally show ?thesis using fy by simp
  qed
qed

text \<open>The doubles of the examples: whole numbers, the literal \<open>0.8\<close> and the size 20.37.\<close>

lemma float_round_20: "float_round 20 = 20"
  by (subst float_round_binade[where e = 4]) (simp_all add: round_half_even_def)

lemma float_round_25: "float_round 25 = 25"
  by (subst float_round_binade[where e = 4]) (simp_all add: round_half_even_def)

lemma float_round_160: "float_round 160 = 160"
  by (subst float_round_binade[where e = 7]) (simp_all add: round_half_even_def)

lemma float_round_175: "float_round 175 = 175"
  by (subst float_round_binade[where e = 7]) (simp_all add: round_half_even_def)

lemma float_round_180: "float_round 180 = 180"
  by (subst float_round_binade[where e = 7]) (simp_all add: round_half_even_def)

lemma float_round_2500: "float_round 2500 = 2500"
  by (subst float_round_binade[where e = 11]) (simp_all add: round_half_even_def)

lemma float_round_17500: "float_round 17500 = 17500"
  by (subst float_round_binade[where e = 14]) (simp_all add: round_half_even_def)

lemma float_round_minus_25: "float_round (- 25) = - 25"
  by (subst float_round_binade[where e = 4]) (simp_all add: round_half_even_def)

lemmas float_round_whole = float_round_0 float_round_20 float_round_25 float_round_160
  float_round_175 float_round_180 float_round_2500 float_round_17500

lemma float_round_0_8: "float_round (4 / 5) = 3602879701896397 / 4503599627370496"
  by (subst float_round_binade[where e = "- 1"]) (simp_all add: round_half_even_def)

lemma float_round_20_37: "float_round (2037 / 100) = 5733645275596063 / 281474976710656"
  by (subst float_round_binade[where e = 4]) (simp_all add: round_half_even_def)

lemma get_daily_loss_returns:
  assumes "length (filter (\<lambda>d. sql_date (pnl_date d) = today) (daily_pnl db)) \<le> 1"
  shows "\<exists>loss. get_daily_loss db today = Inr loss \<and> 0 \<le> loss"
proof (cases "filter (\<lambda>d. sql_date (pnl_date d) = today) (daily_pnl db)")
  case Nil
  then show ?thesis by (simp add: get_daily_loss_def)
next
  case (Cons d ds)
  with assms have "ds = []" by simp
  with Cons show ?thesis by (simp add: get_daily_loss_def)
qed

lemma set_bot_state_halted:
  "\<exists>db'. set_bot_state db ''HALTED_DAILY_LOSS'' r u t = Inr db'
         \<and> get_bot_state db' = ''HALTED_DAILY_LOSS''"
  by (cases "bot_state db") (simp_all add: set_bot_state_def STATES_def get_bot_state_def Let_def)

lemma can_trade_not_running:
  "get_bot_state db \<noteq> ''RUNNING'' \<Longrightarrow>
   can_trade rm db today now loaded_at t_set
     = (rm, db, Inr (False, ''Bot state is '' @ get_bot_state db))"
  by (simp add: can_trade_def Let_def)

lemma can_trade_tripped:
  "get_bot_state db = ''RUNNING'' \<Longrightarrow> get_tripped_breakers db \<noteq> [] \<Longrightarrow>
   can_trade rm db today now loaded_at t_set
     = (rm, db, Inr (False, ''Circuit breakers tripped: '' @ join '', '' (get_tripped_breakers db)))"
  by (simp add: can_trade_def Let_def)

lemma can_trade_loss:
  "get_bot_state db = ''RUNNING'' \<Longrightarrow> get_tripped_breakers db = [] \<Longrightarrow>
   get_daily_loss db today = Inr loss \<Longrightarrow>
   limit = config_float (snd (load_config rm (config_table db) now loaded_at False))
             ''daily_loss_limit_usd'' 25 \<Longrightarrow>
   loss \<ge> limit \<Longrightarrow>
   \<exists>db'. can_trade rm db today now loaded_at t_set
     = (fst (load_config rm (config_table db) now loaded_at False), db',
        Inr (False, ''Daily loss limit reached''))
     \<and> get_bot_state db' = ''HALTED_DAILY_LOSS''"
  using set_bot_state_halted[of db "DailyLossMessage loss limit" "''system''" t_set]
  by (auto simp add: can_trade_def Let_def split: prod.splits)

lemma can_trade_allowed:
  "get_bot_state db = ''RUNNING'' \<Longrightarrow> get_tripped_breakers db = [] \<Longrightarrow>
   get_daily_loss db today = Inr loss \<Longrightarrow>
   limit = config_float (snd (load_config rm (config_table db) now loaded_at False))
             ''daily_loss_limit_usd'' 25 \<Longrightarrow>
   loss < limit \<Longrightarrow>
   can_trade rm db today now loaded_at t_set
     = (fst (load_config rm (config_table db) now loaded_at False), db,
        Inr (True, ''Trading allowed''))"
  by (auto simp add: can_trade_def Let_def split: prod.splits)

lemma get_total_crypto_exposure_sum:
  "get_total_crypto_exposure db
     = float_add (float_add (float_add 0 (get_asset_exposure db ''BTC''))
                    (get_asset_exposure db ''ETH'')) (get_asset_exposure db ''SOL'')"
  by (simp add: get_total_crypto_exposure_def)

text \<open>The test of the daily loss in the position check: the first comparison, at 80
  percent of the limit, never decides, whatever the rounding of the product.\<close>

lemma daily_loss_hit_iff:
  assumes "0 \<le> loss" and "float_round limit = limit"
  shows "(loss \<ge> float_mul limit (float_round 0.8) \<and> loss \<ge> limit) \<longleftrightarrow> loss \<ge> limit"
proof (cases "0 < limit")
  case True
  have c: "0 < float_round (4 / 5)" "float_round (4 / 5) \<le> 1" by (simp_all add: float_round_0_8)
  have "0 < limit * float_round (4 / 5)" using True c by simp
  moreover have "limit * float_round (4 / 5) \<le> limit" using True c by (simp add: mult_left_le)
  ultimately have "float_round (limit * float_round (4 / 5)) \<le> limit"
    using assms(2) by (rule float_round_le_float)
  then show ?thesis by (auto simp add: float_mul_def)
next
  case False
  have c: "0 < float_round (4 / 5)" by (simp add: float_round_0_8)
  have "limit * float_round (4 / 5) \<le> 0" using False c by (simp add: mult_le_0_iff)
  then have "float_round (limit * float_round (4 / 5)) \<le> 0" by (rule float_round_nonpos)
  with assms(1) show ?thesis by (auto simp add: float_mul_def)
qed

lemma check_position_risk_unfold:
  assumes "get_daily_loss db today = Inr loss"
    and "config = snd (load_config rm (config_table db) now loaded_at False)"
    and "max_trade_usd
           = float_div (float_mul portfolio_value (config_float config ''portfolio_trade_pct'' 5)) 100"
    and "new_total = float_add (get_total_crypto_exposure db) size_usd"
    and "max_correlated
           = float_div (float_mul portfolio_value
                          (config_float config ''correlation_max_basket_pct'' 35)) 100"
  shows "check_position_risk rm db asset size_usd portfolio_value today now loaded_at
     = (fst (load_config rm (config_table db) now loaded_at False),
        Inr (let c1 = \<not> size_usd > max_trade_usd;
                 c2 = \<not> size_usd > config_float config ''max_market_usd'' 100;
                 c3 = \<not> new_total > max_correlated;
                 c4 = \<not> int (get_open_position_count db) \<ge> config_int config ''max_open_positions'' 5;
                 c5 = \<not> (loss \<ge> float_mul (config_float config ''daily_loss_limit_usd'' 25)
                                     (float_round 0.8)
                          \<and> loss \<ge> config_float config ''daily_loss_limit_usd'' 25)
             in (c1 \<and> c2 \<and> c3 \<and> c4 \<and> c5,
                 \<lparr>passed = c1 \<and> c2 \<and> c3 \<and> c4 \<and> c5,
                  checks = \<lparr>max_trade_size = c1, max_market_exposure = c2,
                            correlation_limit = c3, max_positions = c4, daily_loss = c5\<rparr>,
                  reasons =
                    (if c1 then [] else [TradeSizeAboveMax size_usd max_trade_usd
                        (config_float config ''portfolio_trade_pct'' 5)])
                    @ (if c2 then [] else [TradeSizeAboveMarketMax size_usd
                        (config_float config ''max_market_usd'' 100)])
                    @ (if c3 then [] else [CryptoExposureAboveMax new_total max_correlated])
                    @ (if c4 then [] else [OpenPositionsAtMax (get_open_position_count db)
                        (config_int config ''max_open_positions'' 5)])
                    @ (if c5 then [] else [DailyLossAtLimit loss
                        (config_float config ''daily_loss_limit_usd'' 25)]),
                  result_size_usd = size_usd,
                  result_portfolio_value = portfolio_value\<rparr>)))"
  using assms by (simp add: check_position_risk_def Let_def split: prod.splits)
lemma update_order_fresh:
  assumes "oid \<notin> set (map order_id rows)" and "order_id row = oid"
  shows "map (\<lambda>ord. if order_id ord = oid then f ord else ord) (rows @ [row]) = rows @ [f row]"
proof -
  from assms(1) have "map (\<lambda>ord. if order_id ord = oid then f ord else ord) rows = rows"
    by (induction rows) auto
  with assms(2) show ?thesis by simp
qed

lemma orders_update_order:
  assumes "oid \<notin> set (map order_id rows)" and "orders db1 = rows @ [row]"
    and "order_id row = oid"
  shows "orders (update_order db1 oid f) = rows @ [f row]"
  using update_order_fresh[OF assms(1,3), of f] assms(2) by (simp add: update_order_def)

lemma update_order_other_tables:
  "decisions (update_order db oid f) = decisions db
   \<and> positions (update_order db oid f) = positions db
   \<and> markets (update_order db oid f) = markets db"
  by (simp add: update_order_def)

lemma store_pending_order_fresh:
  assumes "oid \<notin> set (map order_id (orders db))" and "references_hold db m d"
  shows "\<exists>db1. store_pending_order db oid tok side price size' m d = Inr db1
           \<and> orders db1 = orders db @ [new_order_row oid tok side price size' m d]
           \<and> decisions db1 = decisions db"
  using assms by (simp add: store_pending_order_def Let_def)

lemma store_pending_order_refused:
  assumes "oid \<in> set (map order_id (orders db)) \<or> \<not> references_hold db m d"
  shows "store_pending_order db oid tok side price size' m d = Inl IntegrityError"
  using assms by (auto simp add: store_pending_order_def Let_def)

lemma store_pending_order_Inr:
  assumes "store_pending_order db oid tok side price size' m d = Inr db1"
  shows "oid \<notin> set (map order_id (orders db))
           \<and> orders db1 = orders db @ [new_order_row oid tok side price size' m d]
           \<and> decisions db1 = decisions db
           \<and> references_hold db m d"
  using assms by (auto simp add: store_pending_order_def Let_def split: if_splits)

lemma place_limit_order_valid:
  assumes "0 < price" "price < 1" "0 < size'"
    and "store_pending_order db oid tok side price size' m d = Inr db1"
  shows "place_limit_order svc db tok side price size' m d oid signed posted
           = send_order svc db1 oid signed posted"
  using assms by (simp add: place_limit_order_def)

lemma send_order_simulated:
  assumes "api_key svc = [] \<or> private_key svc = []"
  shows "send_order svc db1 oid signed posted
     = (db1, Inr \<lparr>reply_order_id = oid, reply_status = ''simulated'',
                  reply_exchange_order_id = None, reply_error = None,
                  reply_message = Some ''API credentials not configured''\<rparr>)"
  using assms by (auto simp add: send_order_def)

lemma send_order_open:
  assumes "oid \<notin> set (map order_id rows)" and "orders db1 = rows @ [row]"
    and "order_id row = oid"
    and "api_key svc \<noteq> []" "private_key svc \<noteq> []" "account svc \<noteq> None"
    and "signed = Inr sg" "posted = Inr resp" "status_code resp = 200"
    and "response_json resp = JsonObject x"
  shows "orders (fst (send_order svc db1 oid signed posted))
           = rows @ [row\<lparr>order_status := ''open''\<rparr>]
       \<and> (\<exists>reply. snd (send_order svc db1 oid signed posted) = Inr reply
             \<and> reply_status reply = ''open'' \<and> reply_order_id reply = oid)"
  using assms(4-) orders_update_order[OF assms(1-3)] by (auto simp add: send_order_def)

lemma send_order_rejected:
  assumes "oid \<notin> set (map order_id rows)" and "orders db1 = rows @ [row]"
    and "order_id row = oid"
    and "api_key svc \<noteq> []" "private_key svc \<noteq> []" "account svc \<noteq> None"
    and "signed = Inr sg" "posted = Inr resp" "status_code resp \<noteq> 200"
  shows "orders (fst (send_order svc db1 oid signed posted))
           = rows @ [row\<lparr>order_status := ''rejected'',
                         error_message := Some (Plain (response_text resp))\<rparr>]
       \<and> (\<exists>reply. snd (send_order svc db1 oid signed posted) = Inr reply
             \<and> reply_status reply = ''rejected''
             \<and> reply_error reply = Some (Plain (response_text resp)))"
  using assms(4-) orders_update_order[OF assms(1-3)] by (auto simp add: send_order_def)

lemma order_failed_row:
  assumes "oid \<notin> set (map order_id rows)" and "orders db1 = rows @ [row]"
    and "order_id row = oid"
  shows "orders (fst (order_failed db1 oid e))
           = rows @ [row\<lparr>order_status := ''error'', error_message := Some (ExceptionText e)\<rparr>]
       \<and> (\<exists>reply. snd (order_failed db1 oid e) = Inr reply
             \<and> reply_status reply = ''error''
             \<and> reply_error reply = Some (ExceptionText e))
       \<and> decisions (fst (order_failed db1 oid e)) = decisions db1"
  using orders_update_order[OF assms] by (simp add: order_failed_def update_order_other_tables)

lemma send_order_transport_error:
  assumes "oid \<notin> set (map order_id rows)" and "orders db1 = rows @ [row]"
    and "order_id row = oid"
    and "api_key svc \<noteq> []" "private_key svc \<noteq> []" "account svc \<noteq> None"
    and "signed = Inr sg" "posted = Inl e"
  shows "orders (fst (send_order svc db1 oid signed posted))
           = rows @ [row\<lparr>order_status := ''error'', error_message := Some (ExceptionText e)\<rparr>]
       \<and> (\<exists>reply. snd (send_order svc db1 oid signed posted) = Inr reply
             \<and> reply_status reply = ''error''
             \<and> reply_error reply = Some (ExceptionText e))"
  using assms(4-) order_failed_row[OF assms(1-3), of e] by (auto simp add: send_order_def)

lemma send_order_row:
  assumes "oid \<notin> set (map order_id rows)" and "orders db1 = rows @ [row]"
    and "order_id row = oid"
  shows "\<exists>st msg reply. orders (fst (send_order svc db1 oid signed posted))
            = rows @ [row\<lparr>order_status := st, error_message := msg\<rparr>]
         \<and> snd (send_order svc db1 oid signed posted) = Inr reply
         \<and> decisions (fst (send_order svc db1 oid signed posted)) = decisions db1"
proof -
  let ?opened = "update_order db1 oid (\<lambda>ord. ord\<lparr>order_status := ''open''\<rparr>)"
  have opened: "orders ?opened = rows @ [row\<lparr>order_status := ''open''\<rparr>]"
    by (rule orders_update_order[OF assms])
  have oid': "order_id (row\<lparr>order_status := ''open''\<rparr>) = oid"
    using assms(3) by simp
  note failed = order_failed_row[OF assms]
  note failed_open = order_failed_row[OF assms(1) opened oid']
  note upd = orders_update_order[OF assms]
  show ?thesis
  proof (cases "api_key svc = [] \<or> private_key svc = []")
    case True
    from send_order_simulated[OF True, of db1 oid signed posted] assms(2) show ?thesis
      by (auto intro!: exI[of _ "order_status row"] exI[of _ "error_message row"])
  next
    case creds: False
    show ?thesis
    proof (cases "account svc = None")
      case True
      with creds failed[of AccountNotInitialized] show ?thesis
        by (auto simp add: send_order_def)
    next
      case acct: False
      show ?thesis
      proof (cases signed)
        case (Inl e)
        with creds acct failed[of e] show ?thesis by (auto simp add: send_order_def)
      next
        case sg: (Inr s)
        show ?thesis
        proof (cases posted)
          case (Inl e)
          with creds acct sg failed[of e] show ?thesis by (auto simp add: send_order_def)
        next
          case resp: (Inr r)
          show ?thesis
          proof (cases "status_code r = 200")
            case False
            with creds acct sg resp upd show ?thesis
              by (auto simp add: send_order_def update_order_other_tables)
          next
            case ok: True
            show ?thesis
            proof (cases "response_json r")
              case (NotJson t)
              with creds acct sg resp ok failed[of "External t"] show ?thesis
                by (auto simp add: send_order_def)
            next
              case (JsonObject x)
              with creds acct sg resp ok opened show ?thesis
                by (auto simp add: send_order_def update_order_other_tables
                      intro!: exI[of _ "''open''"] exI[of _ "error_message row"])
            next
              case (JsonOther t)
              with creds acct sg resp ok failed_open[of "External t"] show ?thesis
                by (auto simp add: send_order_def update_order_other_tables)
            qed
          qed
        qed
      qed
    qed
  qed
qed

lemma new_order_row_fields:
  "order_id (new_order_row oid tok side price size' m d) = oid
   \<and> order_status (new_order_row oid tok side price size' m d) = ''pending''
   \<and> order_price (new_order_row oid tok side price size' m d) = price
   \<and> order_side (new_order_row oid tok side price size' m d) = side
   \<and> order_decision_id (new_order_row oid tok side price size' m d) = d"
  by (simp add: new_order_row_def)

lemma place_limit_order_Inr:
  assumes "snd (place_limit_order svc db tok side price size' m d oid signed posted) = Inr reply"
  shows "0 < price \<and> price < 1 \<and> 0 < size'
       \<and> (\<exists>st msg. orders (fst (place_limit_order svc db tok side price size' m d oid signed posted))
             = orders db @ [(new_order_row oid tok side price size' m d)
                              \<lparr>order_status := st, error_message := msg\<rparr>])
       \<and> decisions (fst (place_limit_order svc db tok side price size' m d oid signed posted))
             = decisions db"
proof -
  from assms have valid: "0 < price" "price < 1" "0 < size'"
    by (auto simp add: place_limit_order_def split: if_splits)
  from assms valid obtain db1
    where db1: "store_pending_order db oid tok side price size' m d = Inr db1"
    by (cases "store_pending_order db oid tok side price size' m d")
       (auto simp add: place_limit_order_def)
  note stored = store_pending_order_Inr[OF db1]
  from stored have fresh: "oid \<notin> set (map order_id (orders db))"
    and rows: "orders db1 = orders db @ [new_order_row oid tok side price size' m d]"
    and dec: "decisions db1 = decisions db" by simp_all
  have oid: "order_id (new_order_row oid tok side price size' m d) = oid"
    by (simp add: new_order_row_def)
  from send_order_row[OF fresh rows oid, of svc signed posted]
       place_limit_order_valid[OF valid db1, of svc signed posted] valid dec
  show ?thesis by auto
qed

lemma place_limit_order_Inl:
  assumes "snd (place_limit_order svc db tok side price size' m d oid signed posted) = Inl e"
  shows "fst (place_limit_order svc db tok side price size' m d oid signed posted) = db"
proof (cases "0 < price \<and> price < 1 \<and> 0 < size'")
  case False
  then show ?thesis by (auto simp add: place_limit_order_def)
next
  case True
  then have valid: "0 < price" "price < 1" "0 < size'" by simp_all
  show ?thesis
  proof (cases "store_pending_order db oid tok side price size' m d")
    case (Inl e')
    with valid show ?thesis by (simp add: place_limit_order_def)
  next
    case (Inr db1)
    note stored = store_pending_order_Inr[OF Inr]
    from stored have fresh: "oid \<notin> set (map order_id (orders db))"
      and rows: "orders db1 = orders db @ [new_order_row oid tok side price size' m d]"
      by simp_all
    have oid: "order_id (new_order_row oid tok side price size' m d) = oid"
      by (simp add: new_order_row_def)
    from send_order_row[OF fresh rows oid, of svc signed posted]
         place_limit_order_valid[OF valid Inr, of svc signed posted] assms
    show ?thesis by auto
  qed
qed

lemma fetch_orderbook_best_ask:
  "fetch_orderbook tok (Inr data) = Some ob \<Longrightarrow>
   best_ask ob = (case book_asks data of [] \<Rightarrow> None
                  | a # _ \<Rightarrow> if level_price a = 0 then None else Some (level_price a))"
  by (auto simp add: fetch_orderbook_def Let_def split: list.splits)

lemma fetch_orderbook_best_bid:
  "fetch_orderbook tok (Inr data) = Some ob \<Longrightarrow>
   best_bid ob = (case book_bids data of [] \<Rightarrow> None
                  | b # _ \<Rightarrow> if level_price b = 0 then None else Some (level_price b))"
  by (auto simp add: fetch_orderbook_def Let_def split: list.splits)

lemma fetch_orderbook_Some: "\<exists>ob. fetch_orderbook tok (Inr data) = Some ob"
  by (simp add: fetch_orderbook_def Let_def)

lemma marketable_no_book:
  "place_marketable_limit_order svc db tok side size' m d slippage (Inl e) oid signed posted
     = (db, Inl CouldNotFetchOrderbook)"
  by (simp add: place_marketable_limit_order_def fetch_orderbook_def)

lemma marketable_buy:
  assumes "bps = (case slippage of None \<Rightarrow> 100 | Some b \<Rightarrow> b)"
  shows "place_marketable_limit_order svc db tok ''BUY'' size' m d slippage (Inr data)
           oid signed posted
     = (case book_asks data of
          [] \<Rightarrow> (db, Inl NoAsksInOrderbook)
        | a # _ \<Rightarrow>
            if level_price a = 0 then (db, Inl NoAsksInOrderbook)
            else place_limit_order svc db tok ''BUY''
                   (min (level_price a + real_of_int bps / 10000) 0.99) size' m d
                   oid signed posted)"
proof -
  obtain ob where ob: "fetch_orderbook tok (Inr data) = Some ob"
    using fetch_orderbook_Some by blast
  note ask = fetch_orderbook_best_ask[OF ob]
  show ?thesis
    using ob ask assms
    by (auto simp add: place_marketable_limit_order_def default_slippage_bps_def Let_def
             split: list.splits option.splits)
qed

lemma marketable_sell:
  assumes "bps = (case slippage of None \<Rightarrow> 100 | Some b \<Rightarrow> b)" and "side \<noteq> ''BUY''"
  shows "place_marketable_limit_order svc db tok side size' m d slippage (Inr data)
           oid signed posted
     = (case book_bids data of
          [] \<Rightarrow> (db, Inl NoBidsInOrderbook)
        | b # _ \<Rightarrow>
            if level_price b = 0 then (db, Inl NoBidsInOrderbook)
            else place_limit_order svc db tok side
                   (max (level_price b - real_of_int bps / 10000) 0.01) size' m d
                   oid signed posted)"
proof -
  obtain ob where ob: "fetch_orderbook tok (Inr data) = Some ob"
    using fetch_orderbook_Some by blast
  note bid = fetch_orderbook_best_bid[OF ob]
  show ?thesis
    using ob bid assms
    by (auto simp add: place_marketable_limit_order_def default_slippage_bps_def Let_def
             split: list.splits option.splits)
qed

lemma str_nat_periods:
  "str_nat 3 = ''3''" "str_nat 5 = ''5''" "str_nat 10 = ''10''" "str_nat 20 = ''20''"
  by (simp_all add: str_nat.simps)

lemma generate_signal_unfold:
  assumes "signal_scores f = (bullish, bearish, total_weight)" and "total_weight \<noteq> 0"
    and "net = (bullish - bearish) / total_weight"
  shows "generate_signal f =
           (if net > 0.3 then (''UP'', min \<bar>net\<bar> 0.95)
            else if net < - 0.3 then (''DOWN'', min \<bar>net\<bar> 0.95)
            else (''NEUTRAL'', 0))"
  using assms by (simp add: generate_signal_def Let_def)

lemma generate_signal_no_weight:
  assumes "signal_scores f = (bullish, bearish, 0)"
  shows "generate_signal f = (''NEUTRAL'', 0)"
  using assms by (simp add: generate_signal_def)

lemma analyze_asset_insufficient:
  assumes "length (get_candles db asset 50) < 20"
  shows "analyze_asset np_polyfit db asset
           = (db, Inr \<lparr>analysis_asset = asset, analysis_signal = ''NEUTRAL'',
                  analysis_confidence = 0, analysis_reason = Some ''Insufficient data'',
                  analysis_features = Map.empty, analysis_last_price = None\<rparr>)"
  using assms by (simp add: analyze_asset_def lookback_periods_def Let_def)

lemma get_candles_length:
  "length (get_candles db symbol limit)
     = min limit (length (filter (\<lambda>c. candle_symbol c = symbol \<and> candle_timeframe c = ''15m'')
                            (candles db)))"
  by (simp add: get_candles_def lastn_def)

lemma add_returns_apply:
  "k \<noteq> ''return_1'' \<Longrightarrow> k \<noteq> ''return_3'' \<Longrightarrow> k \<noteq> ''return_5'' \<Longrightarrow>
   add_returns closes f k = f k"
  by (simp add: add_returns_def Let_def)

lemma add_momentum_apply:
  "add_momentum closes p f k =
     (if length closes > p \<and> k = ''momentum_'' @ str_nat p
      then Some ((last closes - closes ! (length closes - p - 1))
                   / closes ! (length closes - p - 1))
      else f k)"
  by (simp add: add_momentum_def)

lemma add_moving_average_apply:
  "add_moving_average closes p f k =
     (if length closes \<ge> p \<and> k = ''price_vs_ma_'' @ str_nat p
      then Some ((last closes - np_mean (lastn p closes)) / np_mean (lastn p closes))
      else if length closes \<ge> p \<and> k = ''ma_'' @ str_nat p
      then Some (np_mean (lastn p closes))
      else f k)"
  by (simp add: add_moving_average_def Let_def)

lemma add_crossovers_5_10:
  "f ''ma_5'' = Some a \<Longrightarrow> f ''ma_10'' = Some b \<Longrightarrow>
   add_crossovers f ''ma_5_10_cross'' = Some (if a > b then 1 else - 1)"
  by (simp add: add_crossovers_def Let_def)

lemma add_crossovers_5_20:
  "f ''ma_5'' = Some a \<Longrightarrow> f ''ma_20'' = Some b \<Longrightarrow>
   add_crossovers f ''ma_5_20_cross'' = Some (if a > b then 1 else - 1)"
  by (simp add: add_crossovers_def Let_def)

lemma add_crossovers_apply:
  "k \<noteq> ''ma_5_10_cross'' \<Longrightarrow> k \<noteq> ''ma_5_20_cross'' \<Longrightarrow> add_crossovers f k = f k"
  by (simp add: add_crossovers_def Let_def)

lemma add_volatility_apply: "k \<noteq> ''volatility'' \<Longrightarrow> add_volatility closes f k = f k"
  by (simp add: add_volatility_def Let_def)

lemma add_zscore_apply: "k \<noteq> ''zscore'' \<Longrightarrow> add_zscore closes f k = f k"
  by (simp add: add_zscore_def Let_def)

lemma add_zscore_zscore:
  "length closes \<ge> 20 \<Longrightarrow> f ''zscore'' = None \<Longrightarrow>
   add_zscore closes f ''zscore''
     = (if np_std (lastn 20 closes) > 0
        then Some ((last closes - np_mean (lastn 20 closes)) / np_std (lastn 20 closes))
        else None)"
  by (simp add: add_zscore_def zscore_period_def Let_def)

lemma add_volume_ratio_apply: "k \<noteq> ''volume_ratio'' \<Longrightarrow> add_volume_ratio volumes f k = f k"
  by (simp add: add_volume_ratio_def Let_def)

lemma add_trend_slope_apply: "k \<noteq> ''trend_slope'' \<Longrightarrow> add_trend_slope np_polyfit closes f k = f k"
  by (simp add: add_trend_slope_def Let_def)

lemma add_trend_slope_slope:
  "length closes \<ge> 10 \<Longrightarrow>
   add_trend_slope np_polyfit closes f ''trend_slope''
     = Some (np_polyfit (map real [0..<10]) (lastn 10 closes)
               / closes ! (length closes - 10))"
  by (simp add: add_trend_slope_def Let_def)

lemma calculate_features_scored:
  assumes "length closes \<ge> 20" "highs \<noteq> []" "lows \<noteq> []"
  shows "\<exists>f. calculate_features np_polyfit closes highs lows volumes = Inr f
     \<and> f ''momentum_3'' = Some ((last closes - closes ! (length closes - 4))
                                / closes ! (length closes - 4))
     \<and> f ''momentum_5'' = Some ((last closes - closes ! (length closes - 6))
                                / closes ! (length closes - 6))
     \<and> f ''momentum_10'' = Some ((last closes - closes ! (length closes - 11))
                                / closes ! (length closes - 11))
     \<and> f ''ma_5_10_cross''
          = Some (if np_mean (lastn 5 closes) > np_mean (lastn 10 closes) then 1 else - 1)
     \<and> f ''ma_5_20_cross''
          = Some (if np_mean (lastn 5 closes) > np_mean (lastn 20 closes) then 1 else - 1)
     \<and> f ''rsi'' = Some (calculate_rsi closes 14)
     \<and> f ''zscore''
          = (if np_std (lastn 20 closes) > 0
             then Some ((last closes - np_mean (lastn 20 closes)) / np_std (lastn 20 closes))
             else None)
     \<and> f ''trend_slope''
          = Some (np_polyfit (map real [0..<10]) (lastn 10 closes)
                    / closes ! (length closes - 10))"
proof -
  from assms(1) have ne: "closes \<noteq> []" by auto
  have len: "3 < length closes" "5 < length closes" "10 < length closes"
    "5 \<le> length closes" "10 \<le> length closes" "20 \<le> length closes"
    using assms(1) by simp_all
  have idx: "length closes - 3 - 1 = length closes - 4"
    "length closes - 5 - 1 = length closes - 6"
    "length closes - 10 - 1 = length closes - 11" by simp_all
  define f1 where "f1 = add_returns closes Map.empty"
  define f2 where "f2 = fold (add_momentum closes) momentum_periods f1"
  define f3 where "f3 = fold (add_moving_average closes) ma_periods f2"
  define f4 where "f4 = add_crossovers f3"
  define f5 where "f5 = f4(''rsi'' \<mapsto> calculate_rsi closes rsi_period)"
  define f6 where "f6 = add_volatility closes f5"
  define f7 where "f7 = add_zscore closes f6"
  define hi where "hi = np_max (lastn lookback_periods highs)"
  define lo where "lo = np_min (lastn lookback_periods lows)"
  define f8 where "f8 = (if hi > lo then f7(''range_position'' \<mapsto> (last closes - lo) / (hi - lo))
                          else f7)"
  define f9 where "f9 = add_volume_ratio volumes f8"
  define F where "F = add_trend_slope np_polyfit closes f9"
  have res: "calculate_features np_polyfit closes highs lows volumes = Inr F"
    using ne assms(2,3)
    unfolding calculate_features_def F_def f9_def f8_def hi_def lo_def f7_def f6_def f5_def
      f4_def f3_def f2_def f1_def Let_def
    by simp
  have f1: "f1 k = None"
    if "k \<noteq> ''return_1''" "k \<noteq> ''return_3''" "k \<noteq> ''return_5''" for k
    unfolding f1_def using that by (simp add: add_returns_apply)
  have f2: "f2 ''momentum_3'' = Some ((last closes - closes ! (length closes - 4))
                                / closes ! (length closes - 4))"
    "f2 ''momentum_5'' = Some ((last closes - closes ! (length closes - 6))
                                / closes ! (length closes - 6))"
    "f2 ''momentum_10'' = Some ((last closes - closes ! (length closes - 11))
                                / closes ! (length closes - 11))"
    "f2 ''ma_5'' = None" "f2 ''ma_10'' = None" "f2 ''ma_20'' = None"
    "f2 ''zscore'' = None"
    unfolding f2_def momentum_periods_def using len
    by (simp_all add: add_momentum_apply str_nat_periods idx f1)
  have f3: "f3 ''momentum_3'' = f2 ''momentum_3''" "f3 ''momentum_5'' = f2 ''momentum_5''"
    "f3 ''momentum_10'' = f2 ''momentum_10''"
    "f3 ''ma_5'' = Some (np_mean (lastn 5 closes))"
    "f3 ''ma_10'' = Some (np_mean (lastn 10 closes))"
    "f3 ''ma_20'' = Some (np_mean (lastn 20 closes))"
    "f3 ''zscore'' = None"
    unfolding f3_def ma_periods_def using len
    by (simp_all add: add_moving_average_apply str_nat_periods f2)
  have f4: "f4 ''momentum_3'' = f2 ''momentum_3''" "f4 ''momentum_5'' = f2 ''momentum_5''"
    "f4 ''momentum_10'' = f2 ''momentum_10''"
    "f4 ''ma_5_10_cross''
          = Some (if np_mean (lastn 5 closes) > np_mean (lastn 10 closes) then 1 else - 1)"
    "f4 ''ma_5_20_cross''
          = Some (if np_mean (lastn 5 closes) > np_mean (lastn 20 closes) then 1 else - 1)"
    "f4 ''zscore'' = None"
    unfolding f4_def
    by (simp_all add: add_crossovers_apply add_crossovers_5_10[where f = f3, OF f3(4,5)]
          add_crossovers_5_20[where f = f3, OF f3(4,6)] f3)
  have f6: "f6 ''momentum_3'' = f2 ''momentum_3''" "f6 ''momentum_5'' = f2 ''momentum_5''"
    "f6 ''momentum_10'' = f2 ''momentum_10''"
    "f6 ''ma_5_10_cross'' = f4 ''ma_5_10_cross''"
    "f6 ''ma_5_20_cross'' = f4 ''ma_5_20_cross''"
    "f6 ''rsi'' = Some (calculate_rsi closes 14)"
    "f6 ''zscore'' = None"
    unfolding f6_def f5_def by (simp_all add: add_volatility_apply f4 rsi_period_def)
  have f7: "f7 ''momentum_3'' = f2 ''momentum_3''" "f7 ''momentum_5'' = f2 ''momentum_5''"
    "f7 ''momentum_10'' = f2 ''momentum_10''"
    "f7 ''ma_5_10_cross'' = f4 ''ma_5_10_cross''"
    "f7 ''ma_5_20_cross'' = f4 ''ma_5_20_cross''"
    "f7 ''rsi'' = Some (calculate_rsi closes 14)"
    "f7 ''zscore''
          = (if np_std (lastn 20 closes) > 0
             then Some ((last closes - np_mean (lastn 20 closes)) / np_std (lastn 20 closes))
             else None)"
    unfolding f7_def
    by (simp_all add: add_zscore_apply add_zscore_zscore[where f = f6, OF len(6) f6(7)] f6)
  have F: "F ''momentum_3'' = f7 ''momentum_3''" "F ''momentum_5'' = f7 ''momentum_5''"
    "F ''momentum_10'' = f7 ''momentum_10''"
    "F ''ma_5_10_cross'' = f7 ''ma_5_10_cross''"
    "F ''ma_5_20_cross'' = f7 ''ma_5_20_cross''"
    "F ''rsi'' = f7 ''rsi''"
    "F ''zscore'' = f7 ''zscore''"
    "F ''trend_slope'' = Some (np_polyfit (map real [0..<10]) (lastn 10 closes)
                    / closes ! (length closes - 10))"
    unfolding F_def f9_def f8_def
    by (simp_all add: add_trend_slope_apply add_trend_slope_slope[OF len(5)]
          add_volume_ratio_apply)
  show ?thesis
    by (rule exI[of _ F]) (simp add: res F f7 f4 f2)
qed

lemma trip_breaker_tables:
  "orders (fst (trip_breaker db name reason t1 t2)) = orders db
   \<and> decisions (fst (trip_breaker db name reason t1 t2)) = decisions db"
  by (auto simp add: trip_breaker_def set_bot_state_def Let_def
        split: sum.splits option.splits if_splits)

lemma generate_signal_names:
  "fst (generate_signal f) = ''UP'' \<or> fst (generate_signal f) = ''DOWN''
   \<or> fst (generate_signal f) = ''NEUTRAL''"
  by (auto simp add: generate_signal_def Let_def split: prod.splits)

lemma store_decision_row:
  "\<exists>dec. fst (store_decision db asset signal confidence f)
            = db\<lparr>decisions := decisions db @ [dec]\<rparr>
        \<and> decision_direction dec = signal \<and> decision_confidence dec = confidence
        \<and> decision_asset dec = asset \<and> \<not> executed dec"
  by (rule exI[of _ "new_decision_row db asset signal confidence f"])
     (simp add: store_decision_def new_decision_row_def Let_def)

lemma analyze_asset_orders: "orders (fst (analyze_asset np_polyfit db asset)) = orders db"
  by (auto simp add: analyze_asset_def store_decision_def new_decision_row_def Let_def
        split: sum.splits prod.splits)

lemma analyze_asset_decisions:
  "\<exists>new. decisions (fst (analyze_asset np_polyfit db asset)) = decisions db @ new \<and> length new \<le> 1
         \<and> (\<forall>dec \<in> set new. \<not> executed dec)"
  by (auto simp add: analyze_asset_def store_decision_def new_decision_row_def Let_def
        split: sum.splits prod.splits)

lemma analyze_asset_signal:
  assumes "analyze_asset np_polyfit db asset = (db1, Inr a)" and "analysis_signal a \<noteq> ''NEUTRAL''"
  shows "(analysis_signal a = ''UP'' \<or> analysis_signal a = ''DOWN'')
       \<and> orders db1 = orders db
       \<and> (\<exists>dec. decisions db1 = decisions db @ [dec]
              \<and> decision_direction dec = analysis_signal a
              \<and> decision_confidence dec = analysis_confidence a
              \<and> decision_asset dec = asset \<and> \<not> executed dec)"
proof -
  let ?cs = "get_candles db asset 50"
  from assms have enough: "\<not> length ?cs < lookback_periods"
    by (auto simp add: analyze_asset_def Let_def)
  with assms(1) obtain f where
    f: "calculate_features np_polyfit (map candle_close ?cs) (map candle_high ?cs)
               (map candle_low ?cs) (map candle_volume ?cs) = Inr f"
    by (cases "calculate_features np_polyfit (map candle_close ?cs) (map candle_high ?cs)
               (map candle_low ?cs) (map candle_volume ?cs)")
       (auto simp add: analyze_asset_def Let_def)
  obtain signal confidence where g: "generate_signal f = (signal, confidence)"
    by (cases "generate_signal f") auto
  from assms(1) enough f g
  have db1: "db1 = fst (store_decision db asset signal confidence f)"
    and sig: "analysis_signal a = signal" and conf: "analysis_confidence a = confidence"
    by (auto simp add: analyze_asset_def Let_def split: prod.splits)
  from generate_signal_names[of f] g assms(2) sig
  have names: "analysis_signal a = ''UP'' \<or> analysis_signal a = ''DOWN''" by auto
  from store_decision_row[of db asset signal confidence f] db1 sig conf
  have "orders db1 = orders db
       \<and> (\<exists>dec. decisions db1 = decisions db @ [dec]
              \<and> decision_direction dec = analysis_signal a
              \<and> decision_confidence dec = analysis_confidence a
              \<and> decision_asset dec = asset \<and> \<not> executed dec)"
    by auto
  with names show ?thesis by simp
qed

lemma marketable_buy_tables:
  "\<exists>added. orders (fst (place_marketable_limit_order svc db tok ''BUY'' size' m d slippage
                          fetched oid signed posted)) = orders db @ added
     \<and> length added \<le> 1
     \<and> (\<forall>ord \<in> set added. order_decision_id ord = d)
     \<and> decisions (fst (place_marketable_limit_order svc db tok ''BUY'' size' m d slippage
                          fetched oid signed posted)) = decisions db"
proof -
  have limit: "\<exists>added. orders (fst (place_limit_order svc db tok ''BUY'' price size' m d
                          oid signed posted)) = orders db @ added
     \<and> length added \<le> 1
     \<and> (\<forall>ord \<in> set added. order_decision_id ord = d)
     \<and> decisions (fst (place_limit_order svc db tok ''BUY'' price size' m d
                          oid signed posted)) = decisions db" for price
  proof (cases "snd (place_limit_order svc db tok ''BUY'' price size' m d oid signed posted)")
    case (Inl e)
    from place_limit_order_Inl[OF Inl] show ?thesis by simp
  next
    case (Inr reply)
    from place_limit_order_Inr[OF Inr] show ?thesis
      by (auto simp add: new_order_row_def)
  qed
  show ?thesis
  proof (cases fetched)
    case (Inl e)
    then show ?thesis by (simp add: marketable_no_book)
  next
    case (Inr data)
    define bps where "bps = (case slippage of None \<Rightarrow> (100::int) | Some b \<Rightarrow> b)"
    show ?thesis
      unfolding Inr marketable_buy[OF bps_def]
      using limit by (auto split: list.splits)
  qed
qed

lemma process_asset_orders_changed:
  assumes "process_asset cfg w db asset now io = (w', db', out)"
    and "orders db' \<noteq> orders db"
  shows "\<exists>a. snd (analyze_asset (io_polyfit io) db asset) = Inr a
           \<and> analysis_signal a \<noteq> ''NEUTRAL'' \<and> \<not> analysis_confidence a < 0.5"
proof -
  note trip = trip_breaker_tables[of db "''stale_data''" "''Stale data for '' @ asset"
                "io_clock_breaker io" "io_clock_state io"]
  note an = analyze_asset_orders[of "io_polyfit io" db asset]
  show ?thesis
    using assms trip an
    by (auto simp add: process_asset_def Let_def
          split: if_splits prod.splits sum.splits option.splits)
qed

lemma process_asset_weak_signal:
  assumes "should_analyze w asset now"
    and "\<not> is_data_stale (worker_price_service w) asset (STALE_DATA_THRESHOLD_SECONDS cfg)
             (io_clock_stale io)"
    and "analyze_asset (io_polyfit io) db asset = (db1, Inr a)"
    and "analysis_confidence a < 0.5"
  shows "process_asset cfg w db asset now io
           = (w\<lparr>last_analysis := AList.update asset now (last_analysis w)\<rparr>, db1, Inr ())"
  using assms by (simp add: process_asset_def Let_def)

lemma process_asset_tables:
  assumes "process_asset cfg w db asset now io = (w', db', out)"
  shows "\<exists>new added. decisions db' = decisions db @ new \<and> length new \<le> 1
           \<and> (\<forall>dec \<in> set new. \<not> executed dec)
           \<and> orders db' = orders db @ added \<and> length added \<le> 1
           \<and> (\<forall>ord \<in> set added. order_decision_id ord = None)"
proof -
  define Q where "Q = (\<lambda>s :: store. \<exists>new added. decisions s = decisions db @ new \<and> length new \<le> 1
           \<and> (\<forall>dec \<in> set new. \<not> executed dec)
           \<and> orders s = orders db @ added \<and> length added \<le> 1
           \<and> (\<forall>ord \<in> set added. order_decision_id ord = None))"
  have same: "Q db"
    unfolding Q_def by (rule exI[of _ "[]"], rule exI[of _ "[]"]) simp
  have trip: "Q (fst (trip_breaker db ''stale_data'' (''Stale data for '' @ asset)
                      (io_clock_breaker io) (io_clock_state io)))"
    unfolding Q_def
    by (rule exI[of _ "[]"], rule exI[of _ "[]"]) (simp add: trip_breaker_tables)
  from analyze_asset_decisions[of "io_polyfit io" db asset] obtain new
    where new: "decisions (fst (analyze_asset (io_polyfit io) db asset)) = decisions db @ new"
      "length new \<le> 1" "\<forall>dec \<in> set new. \<not> executed dec" by blast
  have an: "Q (fst (analyze_asset (io_polyfit io) db asset))"
    unfolding Q_def
    by (rule exI[of _ new], rule exI[of _ "[]"]) (use new in \<open>simp add: analyze_asset_orders\<close>)
  have placed: "Q (fst (place_marketable_limit_order svc (fst (analyze_asset (io_polyfit io) db asset)) tok
                          ''BUY'' sz mk None None fetched oid signed posted))"
    for svc tok sz mk fetched oid signed posted
  proof -
    from marketable_buy_tables[of svc "fst (analyze_asset (io_polyfit io) db asset)" tok sz mk None None
           fetched oid signed posted]
    obtain added where added:
      "orders (fst (place_marketable_limit_order svc (fst (analyze_asset (io_polyfit io) db asset)) tok
                          ''BUY'' sz mk None None fetched oid signed posted))
         = orders (fst (analyze_asset (io_polyfit io) db asset)) @ added"
      "length added \<le> 1" "\<forall>ord \<in> set added. order_decision_id ord = None"
      "decisions (fst (place_marketable_limit_order svc (fst (analyze_asset (io_polyfit io) db asset)) tok
                          ''BUY'' sz mk None None fetched oid signed posted))
         = decisions (fst (analyze_asset (io_polyfit io) db asset))"
      by blast
    show ?thesis
      unfolding Q_def
      by (rule exI[of _ new], rule exI[of _ added])
         (use new added in \<open>simp add: analyze_asset_orders\<close>)
  qed
  have placed': "Q s"
    if "place_marketable_limit_order svc (fst (analyze_asset (io_polyfit io) db asset)) tok
                          ''BUY'' sz mk None None fetched oid signed posted = (s, r)"
    for svc tok sz mk fetched oid signed posted s r
    using placed[of svc tok sz mk fetched oid signed posted] that by simp
  have "Q db'"
    using assms same trip an
    by (auto simp add: process_asset_def Let_def intro: placed'
          split: if_splits prod.splits sum.splits option.splits)
  then show ?thesis unfolding Q_def .
qed

lemma scenario_candles_read:
  "get_candles (scenario_store rally_closes) ''BTC'' 50 = scenario_candles rally_closes"
  "get_candles (scenario_store drift_closes) ''BTC'' 50 = scenario_candles drift_closes"
  by (simp_all add: get_candles_def scenario_store_def empty_store_def scenario_candles_def
        rally_closes_def drift_closes_def lastn_def)

lemma scenario_candles_columns:
  "map candle_close (scenario_candles rally_closes) = rally_closes"
  "map candle_high (scenario_candles rally_closes) = rally_closes"
  "map candle_low (scenario_candles rally_closes) = rally_closes"
  "map candle_close (scenario_candles drift_closes) = drift_closes"
  "map candle_high (scenario_candles drift_closes) = drift_closes"
  "map candle_low (scenario_candles drift_closes) = drift_closes"
  "length (scenario_candles rally_closes) = 20"
  "length (scenario_candles drift_closes) = 20"
  by (simp_all add: scenario_candles_def rally_closes_def drift_closes_def)

lemma rally_std: "np_std (lastn 20 rally_closes) = 24 / 5"
proof -
  have mean: "np_mean (lastn 20 rally_closes) = 538 / 5"
    by (simp add: np_mean_def lastn_def rally_closes_def)
  have var: "np_mean (map (\<lambda>x. (x - 538 / 5)\<^sup>2) (lastn 20 rally_closes)) = 576 / 25"
    by (simp add: np_mean_def lastn_def rally_closes_def power2_eq_square)
  have root: "sqrt (576 / 25) = 24 / 5"
    by (rule real_sqrt_unique) (simp_all add: power2_eq_square)
  show ?thesis unfolding np_std_def mean var by (rule root)
qed

lemma drift_std: "np_std (lastn 20 drift_closes) = 1"
proof -
  have mean: "np_mean (lastn 20 drift_closes) = 1002"
    by (simp add: np_mean_def lastn_def drift_closes_def)
  have var: "np_mean (map (\<lambda>x. (x - 1002)\<^sup>2) (lastn 20 drift_closes)) = 1"
    by (simp add: np_mean_def lastn_def drift_closes_def power2_eq_square)
  show ?thesis unfolding np_std_def mean var by simp
qed

lemma rally_rsi: "calculate_rsi rally_closes 14 = 100"
  by (simp add: calculate_rsi_def rally_closes_def np_diff_def np_mean_def lastn_def Let_def)

lemma drift_rsi: "calculate_rsi drift_closes 14 = 50"
  by (simp add: calculate_rsi_def drift_closes_def np_diff_def np_mean_def lastn_def Let_def)

lemma upt_10: "map real [0..<10] = [0, 1, 2, 3, 4, 5, 6, 7, 8, 9]"
  by (simp add: upt_rec)

lemma rally_slope: "least_squares_slope (map real [0..<10]) (lastn 10 rally_closes) = 167 / 165"
  unfolding upt_10
  by (simp add: least_squares_slope_def np_mean_def lastn_def rally_closes_def power2_eq_square)

lemma drift_slope: "least_squares_slope (map real [0..<10]) (lastn 10 drift_closes) = 34 / 165"
  unfolding upt_10
  by (simp add: least_squares_slope_def np_mean_def lastn_def drift_closes_def power2_eq_square)

lemma rally_signal:
  "\<exists>f. calculate_features least_squares_slope rally_closes rally_closes rally_closes volumes = Inr f
       \<and> generate_signal f = (''UP'', 17 / 27)"
proof -
  have len: "length rally_closes \<ge> 20" "rally_closes \<noteq> []"
    by (simp_all add: rally_closes_def)
  from calculate_features_scored[OF len(1) len(2) len(2), of least_squares_slope volumes]
  obtain f where f: "calculate_features least_squares_slope rally_closes rally_closes rally_closes volumes = Inr f"
    and m3: "f ''momentum_3'' = Some ((last rally_closes - rally_closes ! (length rally_closes - 4))
                                / rally_closes ! (length rally_closes - 4))"
    and m5: "f ''momentum_5'' = Some ((last rally_closes - rally_closes ! (length rally_closes - 6))
                                / rally_closes ! (length rally_closes - 6))"
    and m10: "f ''momentum_10'' = Some ((last rally_closes - rally_closes ! (length rally_closes - 11))
                                / rally_closes ! (length rally_closes - 11))"
    and c10: "f ''ma_5_10_cross''
          = Some (if np_mean (lastn 5 rally_closes) > np_mean (lastn 10 rally_closes) then 1 else - 1)"
    and c20: "f ''ma_5_20_cross''
          = Some (if np_mean (lastn 5 rally_closes) > np_mean (lastn 20 rally_closes) then 1 else - 1)"
    and rsi: "f ''rsi'' = Some (calculate_rsi rally_closes 14)"
    and z: "f ''zscore''
          = (if np_std (lastn 20 rally_closes) > 0
             then Some ((last rally_closes - np_mean (lastn 20 rally_closes))
                          / np_std (lastn 20 rally_closes))
             else None)"
    and t: "f ''trend_slope''
          = Some (least_squares_slope (map real [0..<10]) (lastn 10 rally_closes)
                    / rally_closes ! (length rally_closes - 10))"
    by blast
  have m3': "f ''momentum_3'' = Some (2 / 114)"
    unfolding m3 by (simp add: rally_closes_def)
  have m5': "f ''momentum_5'' = Some (5 / 111)"
    unfolding m5 by (simp add: rally_closes_def)
  have m10': "f ''momentum_10'' = Some (10 / 106)"
    unfolding m10 by (simp add: rally_closes_def)
  have c10': "f ''ma_5_10_cross'' = Some 1"
    unfolding c10 by (simp add: rally_closes_def np_mean_def lastn_def)
  have c20': "f ''ma_5_20_cross'' = Some 1"
    unfolding c20 by (simp add: rally_closes_def np_mean_def lastn_def)
  have rsi': "f ''rsi'' = Some 100"
    unfolding rsi rally_rsi ..
  have mean: "np_mean (lastn 20 rally_closes) = 538 / 5"
    by (simp add: np_mean_def lastn_def rally_closes_def)
  have z': "f ''zscore'' = Some (7 / 4)"
    unfolding z rally_std mean by (simp add: rally_closes_def)
  have t': "f ''trend_slope'' = Some (167 / 165 / 108)"
    unfolding t rally_slope by (simp add: rally_closes_def)
  have scores: "signal_scores f = (11, 5 / 2, 27 / 2)"
    by (simp add: signal_scores_def momentum_periods_def score_momentum_def score_cross_def
          score_rsi_def score_zscore_def score_trend_def str_nat_periods
          m3' m5' m10' c10' c20' rsi' z' t')
  have "generate_signal f = (''UP'', 17 / 27)"
    by (simp add: generate_signal_def scores Let_def)
  with f show ?thesis by blast
qed

lemma drift_signal:
  "\<exists>f. calculate_features least_squares_slope drift_closes drift_closes drift_closes volumes
         = Inr f
       \<and> generate_signal f = (''UP'', 10 / 27)"
proof -
  have len: "length drift_closes \<ge> 20" "drift_closes \<noteq> []"
    by (simp_all add: drift_closes_def)
  from calculate_features_scored[OF len(1) len(2) len(2), of least_squares_slope volumes]
  obtain f where f: "calculate_features least_squares_slope drift_closes drift_closes
                       drift_closes volumes = Inr f"
    and m3: "f ''momentum_3'' = Some ((last drift_closes - drift_closes ! (length drift_closes - 4))
                                / drift_closes ! (length drift_closes - 4))"
    and m5: "f ''momentum_5'' = Some ((last drift_closes - drift_closes ! (length drift_closes - 6))
                                / drift_closes ! (length drift_closes - 6))"
    and m10: "f ''momentum_10'' = Some ((last drift_closes - drift_closes ! (length drift_closes - 11))
                                / drift_closes ! (length drift_closes - 11))"
    and c10: "f ''ma_5_10_cross''
          = Some (if np_mean (lastn 5 drift_closes) > np_mean (lastn 10 drift_closes) then 1 else - 1)"
    and c20: "f ''ma_5_20_cross''
          = Some (if np_mean (lastn 5 drift_closes) > np_mean (lastn 20 drift_closes) then 1 else - 1)"
    and rsi: "f ''rsi'' = Some (calculate_rsi drift_closes 14)"
    and z: "f ''zscore''
          = (if np_std (lastn 20 drift_closes) > 0
             then Some ((last drift_closes - np_mean (lastn 20 drift_closes))
                          / np_std (lastn 20 drift_closes))
             else None)"
    and t: "f ''trend_slope''
          = Some (least_squares_slope (map real [0..<10]) (lastn 10 drift_closes)
                    / drift_closes ! (length drift_closes - 10))"
    by blast
  have m3': "f ''momentum_3'' = Some 0"
    unfolding m3 by (simp add: drift_closes_def)
  have m5': "f ''momentum_5'' = Some (1 / 1002)"
    unfolding m5 by (simp add: drift_closes_def)
  have m10': "f ''momentum_10'' = Some (1 / 1002)"
    unfolding m10 by (simp add: drift_closes_def)
  have c10': "f ''ma_5_10_cross'' = Some 1"
    unfolding c10 by (simp add: drift_closes_def np_mean_def lastn_def)
  have c20': "f ''ma_5_20_cross'' = Some 1"
    unfolding c20 by (simp add: drift_closes_def np_mean_def lastn_def)
  have rsi': "f ''rsi'' = Some 50"
    unfolding rsi drift_rsi ..
  have mean: "np_mean (lastn 20 drift_closes) = 1002"
    by (simp add: np_mean_def lastn_def drift_closes_def)
  have z': "f ''zscore'' = Some 1"
    unfolding z drift_std mean by (simp add: drift_closes_def)
  have t': "f ''trend_slope'' = Some (34 / 165 / 1002)"
    unfolding t drift_slope by (simp add: drift_closes_def)
  have scores: "signal_scores f = (5, 0, 27 / 2)"
    by (simp add: signal_scores_def momentum_periods_def score_momentum_def score_cross_def
          score_rsi_def score_zscore_def score_trend_def str_nat_periods
          m3' m5' m10' c10' c20' rsi' z' t')
  have "generate_signal f = (''UP'', 10 / 27)"
    by (simp add: generate_signal_def scores Let_def)
  with f show ?thesis by blast
qed
lemma rally_analysis:
  "\<exists>f a. analyze_asset least_squares_slope (scenario_store rally_closes) ''BTC''
            = ((scenario_store rally_closes)
                 \<lparr>decisions := [new_decision_row (scenario_store rally_closes) ''BTC''
                                  ''UP'' (17 / 27) f]\<rparr>, Inr a)
         \<and> analysis_signal a = ''UP'' \<and> analysis_confidence a = 17 / 27"
proof -
  from rally_signal[of "map candle_volume (scenario_candles rally_closes)"]
  obtain f where f: "calculate_features least_squares_slope rally_closes rally_closes rally_closes
                       (map candle_volume (scenario_candles rally_closes)) = Inr f"
    and g: "generate_signal f = (''UP'', 17 / 27)" by blast
  have none: "decisions (scenario_store rally_closes) = []"
    by (simp add: scenario_store_def empty_store_def)
  show ?thesis
    by (rule exI[of _ f])
       (simp add: analyze_asset_def scenario_candles_read scenario_candles_columns
          lookback_periods_def f g store_decision_def none Let_def)
qed

lemma drift_analysis:
  "\<exists>f a. analyze_asset least_squares_slope (scenario_store drift_closes) ''BTC''
            = ((scenario_store drift_closes)
                 \<lparr>decisions := [new_decision_row (scenario_store drift_closes) ''BTC''
                                  ''UP'' (10 / 27) f]\<rparr>, Inr a)
         \<and> analysis_signal a = ''UP'' \<and> analysis_confidence a = 10 / 27"
proof -
  from drift_signal[of "map candle_volume (scenario_candles drift_closes)"]
  obtain f where f: "calculate_features least_squares_slope drift_closes drift_closes drift_closes
                       (map candle_volume (scenario_candles drift_closes)) = Inr f"
    and g: "generate_signal f = (''UP'', 10 / 27)" by blast
  have none: "decisions (scenario_store drift_closes) = []"
    by (simp add: scenario_store_def empty_store_def)
  show ?thesis
    by (rule exI[of _ f])
       (simp add: analyze_asset_def scenario_candles_read scenario_candles_columns
          lookback_periods_def f g store_decision_def none Let_def)
qed

lemma scenario_polyfit: "io_polyfit scenario_io = least_squares_slope"
  by (simp add: scenario_io_def)

lemma scenario_fresh:
  "should_analyze scenario_worker ''BTC'' 18000000000"
  "\<not> is_data_stale (worker_price_service scenario_worker) ''BTC''
       (STALE_DATA_THRESHOLD_SECONDS scenario_settings) (io_clock_stale scenario_io)"
  by (simp_all add: should_analyze_def is_data_stale_def scenario_worker_def
        trading_worker_init_def scenario_settings_def default_settings_def scenario_io_def
        total_seconds_def)

lemma rally_cycle:
  "\<exists>w' db'. process_asset scenario_settings scenario_worker (scenario_store rally_closes)
               ''BTC'' 18000000000 scenario_io = (w', db', Inr ())
     \<and> map decision_direction (decisions db') = [''UP'']
     \<and> map decision_confidence (decisions db') = [17 / 27]
     \<and> map executed (decisions db') = [False]
     \<and> map order_status (orders db') = [''open'']
     \<and> map order_price (orders db') = [14 / 25]
     \<and> map order_decision_id (orders db') = [None]"
proof -
  from rally_analysis obtain f a where
    an: "analyze_asset least_squares_slope (scenario_store rally_closes) ''BTC''
            = ((scenario_store rally_closes)
                 \<lparr>decisions := [new_decision_row (scenario_store rally_closes) ''BTC''
                                  ''UP'' (17 / 27) f]\<rparr>, Inr a)"
    and sig: "analysis_signal a = ''UP''" and conf: "analysis_confidence a = 17 / 27"
    by blast
  define db1 where "db1 = (scenario_store rally_closes)
                 \<lparr>decisions := [new_decision_row (scenario_store rally_closes) ''BTC''
                                  ''UP'' (17 / 27) f]\<rparr>"
  define w1 where "w1 = scenario_worker\<lparr>last_analysis :=
                          AList.update ''BTC'' 18000000000 (last_analysis scenario_worker)\<rparr>"
  have market: "get_tradable_market scenario_settings db1 ''BTC'' (io_clock_market scenario_io)
     = Some \<lparr>market_id = 1, market_condition_id = ''0xbtc'', market_asset = ''BTC'',
                     market_end_date = Some 19200000000, market_active = True,
                     yes_token_id = Some ''yes1'', no_token_id = Some ''no1'',
                     market_title = ''BTC up or down''\<rparr>"
    by (simp add: get_tradable_market_def db1_def scenario_store_def empty_store_def
          scenario_settings_def default_settings_def scenario_io_def Let_def)
  have liq: "check_liquidity ''yes1'' (MIN_LIQUIDITY_USD scenario_settings)
               (io_book_liquidity scenario_io)"
    by (simp add: check_liquidity_def fetch_orderbook_def scenario_io_def scenario_book_def
          scenario_settings_def default_settings_def Let_def)
  have sz: "calculate_position_size scenario_settings w1 (17 / 27) = (2037 / 100)"
    by (simp add: calculate_position_size_def w1_def scenario_worker_def trading_worker_init_def
          scenario_settings_def default_settings_def py_round2_def round_half_even_def Let_def)
  have risk: "\<exists>rm res. check_position_risk (worker_risk_manager w1) db1 ''BTC'' (2037 / 100)
                 (worker_portfolio_value w1) (io_today scenario_io)
                 (io_clock_config scenario_io) (io_clock_config_loaded scenario_io)
               = (rm, Inr (True, res))"
    by (simp add: check_position_risk_def load_config_def get_daily_loss_def
          get_total_crypto_exposure_def get_asset_exposure_def sum_exposure_def
          float_add_def float_mul_def float_div_def float_round_whole float_round_20_37
          get_open_position_count_def
          config_float_def config_int_def py_int_def
          w1_def db1_def scenario_worker_def trading_worker_init_def risk_manager_init_def
          scenario_store_def empty_store_def scenario_io_def Let_def)
  then obtain rm res where risk': "check_position_risk (worker_risk_manager w1) db1 ''BTC'' (2037 / 100)
                 (worker_portfolio_value w1) (io_today scenario_io)
                 (io_clock_config scenario_io) (io_clock_config_loaded scenario_io)
               = (rm, Inr (True, res))" by (elim exE)
  have svc: "worker_trading_service (w1\<lparr>worker_risk_manager := rm\<rparr>)
               = \<lparr>api_key = ''key'', private_key = ''0xabc'', account = Some ''0xfunder''\<rparr>"
    by (simp add: w1_def scenario_worker_def trading_worker_init_def trading_service_init_def
          scenario_settings_def default_settings_def)
  have placed: "\<exists>db2 reply. place_marketable_limit_order
                   \<lparr>api_key = ''key'', private_key = ''0xabc'', account = Some ''0xfunder''\<rparr>
                   db1 ''yes1'' ''BUY'' (2037 / 100) (Suc 0) None None
                   (io_book_order scenario_io) (io_uuid scenario_io) (io_signed scenario_io)
                   (io_posted scenario_io) = (db2, Inr reply)
       \<and> decisions db2 = decisions db1
       \<and> map order_status (orders db2) = [''open'']
       \<and> map order_price (orders db2) = [14 / 25]
       \<and> map order_decision_id (orders db2) = [None]"
    unfolding scenario_io_def cycle_io.simps
      marketable_buy[where slippage = None and bps = 100, simplified]
    by (simp add: place_limit_order_def store_pending_order_def references_hold_def
          send_order_def update_order_def
          new_order_row_def scenario_book_def db1_def scenario_store_def
          empty_store_def Let_def)
  then obtain db2 reply where placed': "place_marketable_limit_order
                   \<lparr>api_key = ''key'', private_key = ''0xabc'', account = Some ''0xfunder''\<rparr>
                   db1 ''yes1'' ''BUY'' (2037 / 100) (Suc 0) None None
                   (io_book_order scenario_io) (io_uuid scenario_io) (io_signed scenario_io)
                   (io_posted scenario_io) = (db2, Inr reply)"
    and dec2: "decisions db2 = decisions db1"
    and ord2: "map order_status (orders db2) = [''open'']"
       "map order_price (orders db2) = [14 / 25]"
       "map order_decision_id (orders db2) = [None]" by (elim exE conjE)
  have dec1: "map decision_direction (decisions db1) = [''UP'']"
    "map decision_confidence (decisions db1) = [17 / 27]"
    "map executed (decisions db1) = [False]"
    by (simp_all add: db1_def new_decision_row_def)
  have run: "process_asset scenario_settings scenario_worker (scenario_store rally_closes)
               ''BTC'' 18000000000 scenario_io
             = (w1\<lparr>worker_risk_manager := rm\<rparr>, db2, Inr ())"
    by (simp add: process_asset_def Let_def scenario_fresh scenario_polyfit an[folded db1_def]
          sig conf
          w1_def[symmetric] market liq sz risk' svc placed')
  show ?thesis
    using run dec1 dec2 ord2 by simp
qed

lemma drift_cycle:
  "\<exists>w' db'. process_asset scenario_settings scenario_worker (scenario_store drift_closes)
               ''BTC'' 18000000000 scenario_io = (w', db', Inr ())
     \<and> map decision_direction (decisions db') = [''UP'']
     \<and> map decision_confidence (decisions db') = [10 / 27]
     \<and> map executed (decisions db') = [False]
     \<and> orders db' = []"
proof -
  from drift_analysis obtain f a where
    an: "analyze_asset least_squares_slope (scenario_store drift_closes) ''BTC''
            = ((scenario_store drift_closes)
                 \<lparr>decisions := [new_decision_row (scenario_store drift_closes) ''BTC''
                                  ''UP'' (10 / 27) f]\<rparr>, Inr a)"
    and sig: "analysis_signal a = ''UP''" and conf: "analysis_confidence a = 10 / 27"
    by blast
  have weak: "analysis_confidence a < 0.5" unfolding conf by simp
  note run = process_asset_weak_signal[OF scenario_fresh an[folded scenario_polyfit] weak]
  show ?thesis
    unfolding run
    by (simp add: new_decision_row_def scenario_store_def empty_store_def)
qed

section \<open>The claims\<close>

subsection \<open>Fills on an open position\<close>

text \<open>
  C1.  The claim has a fill with \<open>size_change \<le> 0\<close> decrease the size of the position
  and leave its average entry price unchanged.  In \<open>update_position\<close> the branch that
  keeps the position open, under the comment \<open># Update average price\<close>, applies the
  weighted average of an entry to every fill, exits included.  The market 1 holds an
  open position of 10 shares at 0.40; a partial exit of 9 shares at 0.90
  (\<open>size_change = -9\<close>) leaves 1 share, still open, at an average entry price of
  \<open>(10 * 0.40 - 9 * 0.90) / 1 = -4.1\<close>, where the claim has 0.40.
\<close>

theorem update_position_exit_changes_average:
  "update_position
     (empty_store
        \<lparr>markets := [\<lparr>market_id = 1, market_condition_id = ''0xbtc'', market_asset = ''BTC'',
                      market_end_date = Some 900000000, market_active = True,
                      yes_token_id = Some ''yes1'', no_token_id = Some ''no1'',
                      market_title = ''BTC up or down''\<rparr>],
         positions := [\<lparr>position_id = 1, position_market_id = 1,
                        position_token_id = ''yes1'', position_side = ''YES'',
                        position_size = 10, avg_entry_price = 0.4,
                        position_status = ''open'', opened_at = 0, closed_at = None\<rparr>]\<rparr>)
     1 ''yes1'' ''YES'' (- 9) 0.9 5
   = (empty_store
        \<lparr>markets := [\<lparr>market_id = 1, market_condition_id = ''0xbtc'', market_asset = ''BTC'',
                      market_end_date = Some 900000000, market_active = True,
                      yes_token_id = Some ''yes1'', no_token_id = Some ''no1'',
                      market_title = ''BTC up or down''\<rparr>],
         positions := [\<lparr>position_id = 1, position_market_id = 1,
                        position_token_id = ''yes1'', position_side = ''YES'',
                        position_size = 1, avg_entry_price = - 4.1,
                        position_status = ''open'', opened_at = 0, closed_at = None\<rparr>]\<rparr>,
      Inr ())"
  by (simp add: update_position_def empty_store_def Let_def)

subsection \<open>The position check of the risk gate\<close>

text \<open>
  C2.  As stated, the claim sums the exposure over all configured assets and compares
  exact sums and products with the limits.  The code sums over BTC, ETH and SOL,
  whatever assets are configured, and it compares floats.
  \<^item> With \<open>TRADING_ASSETS = ["BTC"]\<close> and an open ETH position of 400 shares at 0.40, a BTC
    order of 20 USD on a portfolio of 500 meets the condition of the claim (the
    exposure of the configured assets is 0) and is denied by the code, which counts
    the 160 USD of ETH: 180 exceeds the cap of 175.
  \<^item> With the default assets, open positions of 213.99 shares at 0.50 in BTC and of
    124.09 shares at 0.50 in ETH (exposures 106.995 and 62.045) and an order of the
    size that the float 5.96 is, the exact total is below 175 and the condition of the
    claim is met; the sum of the floats is 175.00000000000003, and the code denies.
\<close>

theorem check_position_risk_differs_from_claim:
  "spec_position_check (default_settings\<lparr>TRADING_ASSETS := [''BTC'']\<rparr>) []
     (empty_store
        \<lparr>markets := [\<lparr>market_id = 1, market_condition_id = ''0xeth'', market_asset = ''ETH'',
                      market_end_date = Some 900000000, market_active = True,
                      yes_token_id = Some ''yes1'', no_token_id = Some ''no1'',
                      market_title = ''ETH up or down''\<rparr>],
         positions := [\<lparr>position_id = 1, position_market_id = 1,
                        position_token_id = ''yes1'', position_side = ''YES'',
                        position_size = 400, avg_entry_price = 0.4,
                        position_status = ''open'', opened_at = 0, closed_at = None\<rparr>]\<rparr>)
     20 500 0
   \<and> snd (check_position_risk risk_manager_init
        (empty_store
           \<lparr>markets := [\<lparr>market_id = 1, market_condition_id = ''0xeth'', market_asset = ''ETH'',
                         market_end_date = Some 900000000, market_active = True,
                         yes_token_id = Some ''yes1'', no_token_id = Some ''no1'',
                         market_title = ''ETH up or down''\<rparr>],
            positions := [\<lparr>position_id = 1, position_market_id = 1,
                           position_token_id = ''yes1'', position_side = ''YES'',
                           position_size = 400, avg_entry_price = 0.4,
                           position_status = ''open'', opened_at = 0, closed_at = None\<rparr>]\<rparr>)
        ''BTC'' 20 500 0 10 11)
     = Inr (False,
         \<lparr>passed = False,
          checks = \<lparr>max_trade_size = True, max_market_exposure = True,
                    correlation_limit = False, max_positions = True, daily_loss = True\<rparr>,
          reasons = [CryptoExposureAboveMax 180 175],
          result_size_usd = 20, result_portfolio_value = 500\<rparr>)
   \<and> spec_position_check default_settings []
     (empty_store
        \<lparr>markets := [\<lparr>market_id = 1, market_condition_id = ''0xbtc'', market_asset = ''BTC'',
                      market_end_date = Some 900000000, market_active = True,
                      yes_token_id = Some ''yes1'', no_token_id = Some ''no1'',
                      market_title = ''BTC up or down''\<rparr>,
                     \<lparr>market_id = 2, market_condition_id = ''0xeth'', market_asset = ''ETH'',
                      market_end_date = Some 900000000, market_active = True,
                      yes_token_id = Some ''yes2'', no_token_id = Some ''no2'',
                      market_title = ''ETH up or down''\<rparr>],
         positions := [\<lparr>position_id = 1, position_market_id = 1,
                        position_token_id = ''yes1'', position_side = ''YES'',
                        position_size = 213.99, avg_entry_price = 0.5,
                        position_status = ''open'', opened_at = 0, closed_at = None\<rparr>,
                       \<lparr>position_id = 2, position_market_id = 2,
                        position_token_id = ''yes2'', position_side = ''YES'',
                        position_size = 124.09, avg_entry_price = 0.5,
                        position_status = ''open'', opened_at = 0, closed_at = None\<rparr>]\<rparr>)
     (float_round 5.96) 500 0
   \<and> snd (check_position_risk risk_manager_init
        (empty_store
           \<lparr>markets := [\<lparr>market_id = 1, market_condition_id = ''0xbtc'', market_asset = ''BTC'',
                         market_end_date = Some 900000000, market_active = True,
                         yes_token_id = Some ''yes1'', no_token_id = Some ''no1'',
                         market_title = ''BTC up or down''\<rparr>,
                        \<lparr>market_id = 2, market_condition_id = ''0xeth'', market_asset = ''ETH'',
                         market_end_date = Some 900000000, market_active = True,
                         yes_token_id = Some ''yes2'', no_token_id = Some ''no2'',
                         market_title = ''ETH up or down''\<rparr>],
            positions := [\<lparr>position_id = 1, position_market_id = 1,
                           position_token_id = ''yes1'', position_side = ''YES'',
                           position_size = 213.99, avg_entry_price = 0.5,
                           position_status = ''open'', opened_at = 0, closed_at = None\<rparr>,
                          \<lparr>position_id = 2, position_market_id = 2,
                           position_token_id = ''yes2'', position_side = ''YES'',
                           position_size = 124.09, avg_entry_price = 0.5,
                           position_status = ''open'', opened_at = 0, closed_at = None\<rparr>]\<rparr>)
        ''SOL'' (float_round 5.96) 500 0 10 11)
     = Inr (False,
         \<lparr>passed = False,
          checks = \<lparr>max_trade_size = True, max_market_exposure = True,
                    correlation_limit = False, max_positions = True, daily_loss = True\<rparr>,
          reasons = [CryptoExposureAboveMax (6157265115545601 / 35184372088832) 175],
          result_size_usd = float_round 5.96, result_portfolio_value = 500\<rparr>)
   \<and> (175 :: real) < 6157265115545601 / 35184372088832"
proof -
  let ?eth = "empty_store
        \<lparr>markets := [\<lparr>market_id = 1, market_condition_id = ''0xeth'', market_asset = ''ETH'',
                      market_end_date = Some 900000000, market_active = True,
                      yes_token_id = Some ''yes1'', no_token_id = Some ''no1'',
                      market_title = ''ETH up or down''\<rparr>],
         positions := [\<lparr>position_id = 1, position_market_id = 1,
                        position_token_id = ''yes1'', position_side = ''YES'',
                        position_size = 400, avg_entry_price = 0.4,
                        position_status = ''open'', opened_at = 0, closed_at = None\<rparr>]\<rparr>"
  let ?two = "empty_store
        \<lparr>markets := [\<lparr>market_id = 1, market_condition_id = ''0xbtc'', market_asset = ''BTC'',
                      market_end_date = Some 900000000, market_active = True,
                      yes_token_id = Some ''yes1'', no_token_id = Some ''no1'',
                      market_title = ''BTC up or down''\<rparr>,
                     \<lparr>market_id = 2, market_condition_id = ''0xeth'', market_asset = ''ETH'',
                      market_end_date = Some 900000000, market_active = True,
                      yes_token_id = Some ''yes2'', no_token_id = Some ''no2'',
                      market_title = ''ETH up or down''\<rparr>],
         positions := [\<lparr>position_id = 1, position_market_id = 1,
                        position_token_id = ''yes1'', position_side = ''YES'',
                        position_size = 213.99, avg_entry_price = 0.5,
                        position_status = ''open'', opened_at = 0, closed_at = None\<rparr>,
                       \<lparr>position_id = 2, position_market_id = 2,
                        position_token_id = ''yes2'', position_side = ''YES'',
                        position_size = 124.09, avg_entry_price = 0.5,
                        position_status = ''open'', opened_at = 0, closed_at = None\<rparr>]\<rparr>"
  have size': "float_round 5.96 = 6710363444782039 / 1125899906842624"
    by (subst float_round_binade[where e = 2]) (simp_all add: round_half_even_def)
  have spec1: "spec_position_check (default_settings\<lparr>TRADING_ASSETS := [''BTC'']\<rparr>) [] ?eth
                 20 500 0"
    by (simp add: spec_position_check_def default_settings_def config_float_def config_int_def
          py_int_def sum_exposure_def get_open_position_count_def empty_store_def)
  have loss1: "get_daily_loss ?eth 0 = Inr 0"
    by (simp add: get_daily_loss_def empty_store_def)
  have cfg1: "[] = snd (load_config risk_manager_init (config_table ?eth) 10 11 False)"
    by (simp add: empty_store_def load_config_def risk_manager_init_def)
  have trade: "(25::real) = float_div (float_mul 500 (config_float [] ''portfolio_trade_pct'' 5)) 100"
    by (simp add: config_float_def float_div_def float_mul_def float_round_whole)
  have cap: "(175::real)
      = float_div (float_mul 500 (config_float [] ''correlation_max_basket_pct'' 35)) 100"
    by (simp add: config_float_def float_div_def float_mul_def float_round_whole)
  have total1: "(180::real) = float_add (get_total_crypto_exposure ?eth) 20"
    by (simp add: get_total_crypto_exposure_def get_asset_exposure_def sum_exposure_def
          empty_store_def float_add_def float_round_whole)
  have code1: "snd (check_position_risk risk_manager_init ?eth ''BTC'' 20 500 0 10 11)
     = Inr (False,
         \<lparr>passed = False,
          checks = \<lparr>max_trade_size = True, max_market_exposure = True,
                    correlation_limit = False, max_positions = True, daily_loss = True\<rparr>,
          reasons = [CryptoExposureAboveMax 180 175],
          result_size_usd = 20, result_portfolio_value = 500\<rparr>)"
    unfolding check_position_risk_unfold[OF loss1 cfg1 trade total1 cap]
    by (simp add: config_float_def config_int_def py_int_def get_open_position_count_def
          empty_store_def)
  have spec2: "spec_position_check default_settings [] ?two
                 (6710363444782039 / 1125899906842624) 500 0"
    by (simp add: spec_position_check_def default_settings_def config_float_def config_int_def
          py_int_def sum_exposure_def get_open_position_count_def empty_store_def)
  have loss2: "get_daily_loss ?two 0 = Inr 0"
    by (simp add: get_daily_loss_def empty_store_def)
  have cfg2: "[] = snd (load_config risk_manager_init (config_table ?two) 10 11 False)"
    by (simp add: empty_store_def load_config_def risk_manager_init_def)
  have btc: "get_asset_exposure ?two ''BTC'' = 941137972911145 / 8796093022208"
  proof -
    have a: "sum_exposure ?two ''BTC'' = 21399 / 200"
      by (simp add: sum_exposure_def empty_store_def)
    have b: "float_round (21399 / 200) = 941137972911145 / 8796093022208"
      by (subst float_round_binade[where e = 6]) (simp_all add: round_half_even_def)
    show ?thesis unfolding get_asset_exposure_def a b ..
  qed
  have eth: "get_asset_exposure ?two ''ETH'' = 4366028732503163 / 70368744177664"
  proof -
    have a: "sum_exposure ?two ''ETH'' = 12409 / 200"
      by (simp add: sum_exposure_def empty_store_def)
    have b: "float_round (12409 / 200) = 4366028732503163 / 70368744177664"
      by (subst float_round_binade[where e = 5]) (simp_all add: round_half_even_def)
    show ?thesis unfolding get_asset_exposure_def a b ..
  qed
  have sol: "get_asset_exposure ?two ''SOL'' = 0"
    by (simp add: get_asset_exposure_def sum_exposure_def empty_store_def float_round_0)
  have s1: "float_add 0 (941137972911145 / 8796093022208) = 941137972911145 / 8796093022208"
    unfolding float_add_def
    by (subst float_round_binade[where e = 6]) (simp_all add: round_half_even_def)
  have s2: "float_add (941137972911145 / 8796093022208) (4366028732503163 / 70368744177664)
              = 2973783128948081 / 17592186044416"
    unfolding float_add_def
    by (subst float_round_binade[where e = 7]) (simp_all add: round_half_even_def)
  have s3: "float_add (2973783128948081 / 17592186044416) 0 = 2973783128948081 / 17592186044416"
    unfolding float_add_def
    by (subst float_round_binade[where e = 7]) (simp_all add: round_half_even_def)
  have s4: "float_add (2973783128948081 / 17592186044416) (6710363444782039 / 1125899906842624)
              = 6157265115545601 / 35184372088832"
    unfolding float_add_def
    by (subst float_round_binade[where e = 7]) (simp_all add: round_half_even_def)
  have total2: "(6157265115545601 / 35184372088832 :: real)
      = float_add (get_total_crypto_exposure ?two) (6710363444782039 / 1125899906842624)"
    unfolding get_total_crypto_exposure_sum btc eth sol s1 s2 s3 s4 ..
  have code2: "snd (check_position_risk risk_manager_init ?two ''SOL''
                      (6710363444782039 / 1125899906842624) 500 0 10 11)
     = Inr (False,
         \<lparr>passed = False,
          checks = \<lparr>max_trade_size = True, max_market_exposure = True,
                    correlation_limit = False, max_positions = True, daily_loss = True\<rparr>,
          reasons = [CryptoExposureAboveMax (6157265115545601 / 35184372088832) 175],
          result_size_usd = 6710363444782039 / 1125899906842624,
          result_portfolio_value = 500\<rparr>)"
    unfolding check_position_risk_unfold[OF loss2 cfg2 trade total2 cap]
    by (simp add: config_float_def config_int_def py_int_def get_open_position_count_def
          empty_store_def)
  have above: "(175 :: real) < 6157265115545601 / 35184372088832" by simp
  from spec1 code1 spec2 code2 above show ?thesis unfolding size' by (intro conjI)
qed

text \<open>
  C2, amended.  For every candidate order (asset, size in USD, portfolio value) the
  position check of the risk gate passes iff the size is at most
  \<open>portfolio_value * portfolio_trade_pct / 100\<close>, the size is at most \<open>max_market_usd\<close>,
  the exposure of BTC, of ETH and of SOL (for each the sum of size times average entry
  price over its open positions, whatever assets are configured) plus the size is at
  most \<open>portfolio_value * correlation_max_basket_pct / 100\<close>, the number of open
  positions is strictly below \<open>max_open_positions\<close>, and the realised loss of today is
  strictly below \<open>daily_loss_limit_usd\<close>; the sums, products and quotients are those of
  floats, each exposure converted to a float, added to 0 in the order BTC, ETH, SOL,
  then the size, and each operation rounded to the nearest double.  When the cap of
  the basket is exceeded the check named \<open>correlation_limit\<close> is false and the reasons
  hold the text of the crypto exposure with the new total and the cap.  (The limits
  are the floats of the configuration as \<open>load_config\<close> returns it, with the defaults of
  the code; the table holds at most one row of daily PnL for today.)
\<close>

theorem check_position_risk_passed_iff:
  assumes "length (filter (\<lambda>d. sql_date (pnl_date d) = today) (daily_pnl db)) \<le> 1"
    and "config = snd (load_config rm (config_table db) now loaded_at False)"
    and "daily_limit = config_float config ''daily_loss_limit_usd'' 25"
    and "float_round daily_limit = daily_limit"
    and "max_trade_usd
           = float_div (float_mul portfolio_value (config_float config ''portfolio_trade_pct'' 5)) 100"
    and "new_total
           = float_add (float_add (float_add (float_add 0 (get_asset_exposure db ''BTC''))
                                     (get_asset_exposure db ''ETH''))
                          (get_asset_exposure db ''SOL'')) size_usd"
    and "max_correlated
           = float_div (float_mul portfolio_value
                          (config_float config ''correlation_max_basket_pct'' 35)) 100"
  shows "\<exists>rm' ok res loss.
      check_position_risk rm db asset size_usd portfolio_value today now loaded_at
        = (rm', Inr (ok, res))
    \<and> get_daily_loss db today = Inr loss
    \<and> passed res = ok
    \<and> (ok \<longleftrightarrow>
          size_usd \<le> max_trade_usd
        \<and> size_usd \<le> config_float config ''max_market_usd'' 100
        \<and> new_total \<le> max_correlated
        \<and> int (get_open_position_count db) < config_int config ''max_open_positions'' 5
        \<and> loss < daily_limit)
    \<and> (new_total > max_correlated \<longrightarrow>
          \<not> correlation_limit (checks res)
        \<and> CryptoExposureAboveMax new_total max_correlated \<in> set (reasons res))"
proof -
  from get_daily_loss_returns[OF assms(1)]
  obtain loss where loss: "get_daily_loss db today = Inr loss" and pos: "0 \<le> loss" by blast
  note hit = daily_loss_hit_iff[OF pos assms(4)]
  have total: "new_total = float_add (get_total_crypto_exposure db) size_usd"
    unfolding assms(6) get_total_crypto_exposure_sum ..
  show ?thesis
    unfolding check_position_risk_unfold[OF loss assms(2) assms(5) total assms(7)] Let_def
    using loss hit assms(3) by (auto simp: not_less not_le)
qed

text \<open>The correlation cap: portfolio 500, cap 35 percent, an open BTC position of 400
  shares at 0.40 (exposure 160 USD); a candidate SOL order of 20 USD is denied, since
  180 exceeds 175.\<close>

theorem check_position_risk_passed_iff_witness:
  "\<exists>rm' res. check_position_risk risk_manager_init
       (empty_store\<lparr>markets := [\<lparr>market_id = 1, market_condition_id = ''0xbtc'',
                       market_asset = ''BTC'', market_end_date = Some 900000000,
                       market_active = True, yes_token_id = Some ''yes1'',
                       no_token_id = Some ''no1'', market_title = ''BTC up or down''\<rparr>],
                    positions := [\<lparr>position_id = 1, position_market_id = 1,
                       position_token_id = ''yes1'', position_side = ''YES'',
                       position_size = 400, avg_entry_price = 0.4,
                       position_status = ''open'', opened_at = 0, closed_at = None\<rparr>]\<rparr>)
       ''SOL'' 20 500 0 10 11
     = (rm', Inr (False, res))
     \<and> \<not> correlation_limit (checks res)
     \<and> CryptoExposureAboveMax 180 175 \<in> set (reasons res)"
proof -
  let ?db = "empty_store\<lparr>markets := [\<lparr>market_id = 1, market_condition_id = ''0xbtc'',
                       market_asset = ''BTC'', market_end_date = Some 900000000,
                       market_active = True, yes_token_id = Some ''yes1'',
                       no_token_id = Some ''no1'', market_title = ''BTC up or down''\<rparr>],
                    positions := [\<lparr>position_id = 1, position_market_id = 1,
                       position_token_id = ''yes1'', position_side = ''YES'',
                       position_size = 400, avg_entry_price = 0.4,
                       position_status = ''open'', opened_at = 0, closed_at = None\<rparr>]\<rparr>"
  have rows: "length (filter (\<lambda>d. sql_date (pnl_date d) = 0) (daily_pnl ?db)) \<le> 1"
    by (simp add: empty_store_def)
  have cfg: "[] = snd (load_config risk_manager_init (config_table ?db) 10 11 False)"
    by (simp add: empty_store_def load_config_def risk_manager_init_def)
  have limit: "(25::real) = config_float [] ''daily_loss_limit_usd'' 25"
    by (simp add: config_float_def)
  have trade: "(25::real) = float_div (float_mul 500 (config_float [] ''portfolio_trade_pct'' 5)) 100"
    by (simp add: config_float_def float_div_def float_mul_def float_round_whole)
  have cap: "(175::real)
      = float_div (float_mul 500 (config_float [] ''correlation_max_basket_pct'' 35)) 100"
    by (simp add: config_float_def float_div_def float_mul_def float_round_whole)
  have total: "(180::real)
      = float_add (float_add (float_add (float_add 0 (get_asset_exposure ?db ''BTC''))
                                (get_asset_exposure ?db ''ETH''))
                     (get_asset_exposure ?db ''SOL'')) 20"
    by (simp add: get_asset_exposure_def sum_exposure_def empty_store_def float_add_def
          float_round_whole)
  from check_position_risk_passed_iff[OF rows cfg limit float_round_25 trade total cap,
         of "''SOL''"]
  show ?thesis by auto
qed

subsection \<open>The layers of can\_trade\<close>

text \<open>
  C3.  \<open>can_trade()\<close> returns true iff the bot state is RUNNING, no circuit breaker is
  tripped and the realised loss of today is strictly below \<open>daily_loss_limit_usd\<close>.  The
  layers are evaluated in that order and the first one that fails gives the reason; when
  the state is RUNNING, no breaker is tripped and the loss has reached the limit, the bot
  state becomes HALTED\_DAILY\_LOSS and trading is denied.  (The table holds at most one
  row of daily PnL for today, so that the query of the loss returns.)
\<close>

theorem can_trade_layers:
  assumes "length (filter (\<lambda>d. sql_date (pnl_date d) = today) (daily_pnl db)) \<le> 1"
    and "limit = config_float (snd (load_config rm (config_table db) now loaded_at False))
                   ''daily_loss_limit_usd'' 25"
  shows "\<exists>rm' db' allowed reason loss.
      can_trade rm db today now loaded_at t_set = (rm', db', Inr (allowed, reason))
    \<and> get_daily_loss db today = Inr loss
    \<and> (allowed \<longleftrightarrow>
         get_bot_state db = ''RUNNING'' \<and> get_tripped_breakers db = [] \<and> loss < limit)
    \<and> (get_bot_state db \<noteq> ''RUNNING'' \<longrightarrow>
         reason = ''Bot state is '' @ get_bot_state db \<and> db' = db)
    \<and> (get_bot_state db = ''RUNNING'' \<and> get_tripped_breakers db \<noteq> [] \<longrightarrow>
         reason = ''Circuit breakers tripped: '' @ join '', '' (get_tripped_breakers db)
         \<and> db' = db)
    \<and> (get_bot_state db = ''RUNNING'' \<and> get_tripped_breakers db = [] \<and> loss \<ge> limit \<longrightarrow>
         reason = ''Daily loss limit reached'' \<and> get_bot_state db' = ''HALTED_DAILY_LOSS'')
    \<and> (allowed \<longrightarrow> reason = ''Trading allowed'' \<and> db' = db)"
proof -
  from get_daily_loss_returns[OF assms(1)]
  obtain loss where loss: "get_daily_loss db today = Inr loss" by blast
  consider (stopped) "get_bot_state db \<noteq> ''RUNNING''"
    | (tripped) "get_bot_state db = ''RUNNING''" "get_tripped_breakers db \<noteq> []"
    | (halted) "get_bot_state db = ''RUNNING''" "get_tripped_breakers db = []" "loss \<ge> limit"
    | (allowed) "get_bot_state db = ''RUNNING''" "get_tripped_breakers db = []" "loss < limit"
    by fastforce
  then show ?thesis
  proof cases
    case stopped
    from can_trade_not_running[OF stopped, of rm today now loaded_at t_set] loss stopped
    show ?thesis by auto
  next
    case tripped
    from can_trade_tripped[OF tripped, of rm today now loaded_at t_set] loss tripped
    show ?thesis by auto
  next
    case halted
    from can_trade_loss[OF halted(1,2) loss assms(2) halted(3), of t_set]
    obtain db' where "can_trade rm db today now loaded_at t_set
        = (fst (load_config rm (config_table db) now loaded_at False), db',
           Inr (False, ''Daily loss limit reached''))"
      and "get_bot_state db' = ''HALTED_DAILY_LOSS''" by blast
    with loss halted show ?thesis by auto
  next
    case allowed
    from can_trade_allowed[OF allowed(1,2) loss assms(2) allowed(3), of t_set] loss allowed
    show ?thesis by auto
  qed
qed

text \<open>The daily loss halt: the limit is 25 and the realised PnL of today is -25.\<close>

theorem can_trade_layers_witness:
  "\<exists>rm' db'. can_trade risk_manager_init
       (empty_store\<lparr>bot_state := [\<lparr>bot_state_state = ''RUNNING'', bot_state_reason = Plain [],
                                   bot_state_updated_by = ''api'', bot_state_updated_at = 0\<rparr>],
                     daily_pnl := [\<lparr>pnl_date = 0, realized_pnl = -25, fees_paid = 0,
                                   trade_count = 1, win_count = 0, loss_count = 1\<rparr>],
                     config_table := [(''daily_loss_limit_usd'', 25)]\<rparr>) 0 10 11 12
     = (rm', db', Inr (False, ''Daily loss limit reached''))
     \<and> get_bot_state db' = ''HALTED_DAILY_LOSS''"
proof -
  let ?db = "empty_store\<lparr>bot_state := [\<lparr>bot_state_state = ''RUNNING'', bot_state_reason = Plain [],
                                   bot_state_updated_by = ''api'', bot_state_updated_at = 0\<rparr>],
                     daily_pnl := [\<lparr>pnl_date = 0, realized_pnl = -25, fees_paid = 0,
                                   trade_count = 1, win_count = 0, loss_count = 1\<rparr>],
                     config_table := [(''daily_loss_limit_usd'', 25)]\<rparr>"
  have rows: "length (filter (\<lambda>d. sql_date (pnl_date d) = 0) (daily_pnl ?db)) \<le> 1"
    by (simp add: empty_store_def)
  have lim: "(25::real) = config_float (snd (load_config risk_manager_init (config_table ?db) 10 11 False))
                   ''daily_loss_limit_usd'' 25"
    by (simp add: empty_store_def load_config_def risk_manager_init_def config_float_def)
  have running: "get_bot_state ?db = ''RUNNING''"
    by (simp add: empty_store_def get_bot_state_def)
  have breakers: "get_tripped_breakers ?db = []"
    by (simp add: empty_store_def get_tripped_breakers_def)
  have loss: "get_daily_loss ?db 0 = Inr 25"
    by (simp add: empty_store_def get_daily_loss_def sql_date_def float_round_minus_25)
  from can_trade_layers[OF rows lim, of 12] running breakers loss
  show ?thesis by auto
qed

subsection \<open>The life cycle of a submitted order\<close>

text \<open>
  C4.  As stated, the claim has an order row stored for every submission with a price
  in (0,1) and a size above 0, and the stored status become \<open>open\<close> on every 2xx answer
  of the venue.  The code compares the status code with 200: on a store that holds
  the market 1, an answer 201 to an order for that market leaves the order \<open>rejected\<close>,
  with the text of the answer as its error message.  And the table of orders refers to
  the table of markets: on a store without markets the same order is refused by the
  store, the call raises and nothing is stored.
\<close>

theorem place_limit_order_201_is_rejected:
  "map order_status (orders (fst (place_limit_order
        \<lparr>api_key = ''key'', private_key = ''0xabc'', account = Some ''0xfunder''\<rparr>
        (empty_store
        \<lparr>markets := [\<lparr>market_id = 1, market_condition_id = ''0xbtc'', market_asset = ''BTC'',
                      market_end_date = Some 900000000, market_active = True,
                      yes_token_id = Some ''yes1'', no_token_id = Some ''no1'',
                      market_title = ''BTC up or down''\<rparr>]\<rparr>)
        ''yes1'' ''BUY'' 0.5 10 1 None ''id1'' (Inr ''sig'')
        (Inr \<lparr>status_code = 201, response_text = ''created'',
              response_json = JsonObject (Some ''ex1'')\<rparr>)))) = [''rejected'']
   \<and> map error_message (orders (fst (place_limit_order
        \<lparr>api_key = ''key'', private_key = ''0xabc'', account = Some ''0xfunder''\<rparr>
        (empty_store
        \<lparr>markets := [\<lparr>market_id = 1, market_condition_id = ''0xbtc'', market_asset = ''BTC'',
                      market_end_date = Some 900000000, market_active = True,
                      yes_token_id = Some ''yes1'', no_token_id = Some ''no1'',
                      market_title = ''BTC up or down''\<rparr>]\<rparr>)
        ''yes1'' ''BUY'' 0.5 10 1 None ''id1'' (Inr ''sig'')
        (Inr \<lparr>status_code = 201, response_text = ''created'',
              response_json = JsonObject (Some ''ex1'')\<rparr>)))) = [Some (Plain ''created'')]
   \<and> ''rejected'' \<noteq> ''open'' \<and> (200::int) \<le> 201 \<and> (201::int) < 300
   \<and> place_limit_order
        \<lparr>api_key = ''key'', private_key = ''0xabc'', account = Some ''0xfunder''\<rparr>
        empty_store ''yes1'' ''BUY'' 0.5 10 1 None ''id1'' (Inr ''sig'')
        (Inr \<lparr>status_code = 200, response_text = ''ok'',
              response_json = JsonObject (Some ''ex1'')\<rparr>)
      = (empty_store, Inl IntegrityError)"
  by (simp add: place_limit_order_def store_pending_order_def references_hold_def
        send_order_def update_order_def empty_store_def new_order_row_def Let_def)

text \<open>
  C4, amended.  For every order submission with price in (0,1) and size above 0, for a
  market, and a decision if one is given, that the store holds: an Order row with a
  fresh local id and status \<open>pending\<close> is persisted before any network call (the id is
  the value of \<open>uuid4\<close>; the column is unique, so the row persisted has an id that no
  other order has, and a repeated id makes the commit raise with nothing stored and
  nothing sent).  Without credentials the call returns status \<open>simulated\<close> with no
  network call, and the store stays as it is then.  With credentials and a signed
  payload, the persisted status becomes \<open>open\<close> when the venue answers with status code
  200 and a JSON object, \<open>rejected\<close> with the text of the answer persisted as the error
  message on every other status code (every 4xx, and 201, among them), and \<open>error\<close>
  with the text of the exception persisted on a transport failure.  A price outside
  (0,1) or a size of 0 or less raises at once and nothing is persisted; nor is an
  order whose market or decision the store does not hold.
\<close>

theorem place_limit_order_lifecycle:
  assumes "R = place_limit_order svc db tok side price size' m d oid signed posted"
    and "P = new_order_row oid tok side price size' m d"
  shows
   "(price \<le> 0 \<or> price \<ge> 1 \<longrightarrow> R = (db, Inl (InvalidPrice price)))
  \<and> (0 < price \<and> price < 1 \<and> size' \<le> 0 \<longrightarrow> R = (db, Inl (InvalidSize size')))
  \<and> (0 < price \<and> price < 1 \<and> 0 < size' \<and> \<not> references_hold db m d \<longrightarrow>
       R = (db, Inl IntegrityError))
  \<and> (0 < price \<and> price < 1 \<and> 0 < size' \<and> references_hold db m d \<longrightarrow>
       (oid \<in> set (map order_id (orders db)) \<and> R = (db, Inl IntegrityError))
     \<or> (oid \<notin> set (map order_id (orders db))
     \<and> order_id P = oid \<and> order_status P = ''pending''
     \<and> (\<exists>db1. store_pending_order db oid tok side price size' m d = Inr db1
            \<and> orders db1 = orders db @ [P]
            \<and> R = send_order svc db1 oid signed posted
            \<and> (api_key svc = [] \<or> private_key svc = [] \<longrightarrow>
                 fst R = db1
               \<and> (\<exists>reply. snd R = Inr reply \<and> reply_status reply = ''simulated'')))
     \<and> (\<forall>sg resp. api_key svc \<noteq> [] \<and> private_key svc \<noteq> [] \<and> account svc \<noteq> None
            \<and> signed = Inr sg \<and> posted = Inr resp \<longrightarrow>
            (status_code resp = 200 \<and> (\<exists>x. response_json resp = JsonObject x) \<longrightarrow>
               orders (fst R) = orders db @ [P\<lparr>order_status := ''open''\<rparr>]
             \<and> (\<exists>reply. snd R = Inr reply \<and> reply_status reply = ''open''))
          \<and> (status_code resp \<noteq> 200 \<longrightarrow>
               orders (fst R) = orders db @ [P\<lparr>order_status := ''rejected'',
                                  error_message := Some (Plain (response_text resp))\<rparr>]
             \<and> (\<exists>reply. snd R = Inr reply \<and> reply_status reply = ''rejected''
                    \<and> reply_error reply = Some (Plain (response_text resp)))))
     \<and> (\<forall>sg e. api_key svc \<noteq> [] \<and> private_key svc \<noteq> [] \<and> account svc \<noteq> None
            \<and> signed = Inr sg \<and> posted = Inl e \<longrightarrow>
            orders (fst R) = orders db @ [P\<lparr>order_status := ''error'',
                                  error_message := Some (ExceptionText e)\<rparr>]
          \<and> (\<exists>reply. snd R = Inr reply \<and> reply_status reply = ''error''
                 \<and> reply_error reply = Some (ExceptionText e)))))"
proof -
  have invalid_price: "price \<le> 0 \<or> price \<ge> 1 \<longrightarrow> R = (db, Inl (InvalidPrice price))"
    using assms(1) by (simp add: place_limit_order_def)
  have invalid_size: "0 < price \<and> price < 1 \<and> size' \<le> 0 \<longrightarrow> R = (db, Inl (InvalidSize size'))"
    using assms(1) by (simp add: place_limit_order_def)
  have refused: "R = (db, Inl IntegrityError)"
    if ok: "0 < price" "price < 1" "0 < size'"
      and no: "oid \<in> set (map order_id (orders db)) \<or> \<not> references_hold db m d"
    using assms(1) ok store_pending_order_refused[OF no, of tok side price size']
    by (simp add: place_limit_order_def)
  have valid: "order_id P = oid \<and> order_status P = ''pending''
     \<and> (\<exists>db1. store_pending_order db oid tok side price size' m d = Inr db1
            \<and> orders db1 = orders db @ [P]
            \<and> R = send_order svc db1 oid signed posted
            \<and> (api_key svc = [] \<or> private_key svc = [] \<longrightarrow>
                 fst R = db1
               \<and> (\<exists>reply. snd R = Inr reply \<and> reply_status reply = ''simulated'')))
     \<and> (\<forall>sg resp. api_key svc \<noteq> [] \<and> private_key svc \<noteq> [] \<and> account svc \<noteq> None
            \<and> signed = Inr sg \<and> posted = Inr resp \<longrightarrow>
            (status_code resp = 200 \<and> (\<exists>x. response_json resp = JsonObject x) \<longrightarrow>
               orders (fst R) = orders db @ [P\<lparr>order_status := ''open''\<rparr>]
             \<and> (\<exists>reply. snd R = Inr reply \<and> reply_status reply = ''open''))
          \<and> (status_code resp \<noteq> 200 \<longrightarrow>
               orders (fst R) = orders db @ [P\<lparr>order_status := ''rejected'',
                                  error_message := Some (Plain (response_text resp))\<rparr>]
             \<and> (\<exists>reply. snd R = Inr reply \<and> reply_status reply = ''rejected''
                    \<and> reply_error reply = Some (Plain (response_text resp)))))
     \<and> (\<forall>sg e. api_key svc \<noteq> [] \<and> private_key svc \<noteq> [] \<and> account svc \<noteq> None
            \<and> signed = Inr sg \<and> posted = Inl e \<longrightarrow>
            orders (fst R) = orders db @ [P\<lparr>order_status := ''error'',
                                  error_message := Some (ExceptionText e)\<rparr>]
          \<and> (\<exists>reply. snd R = Inr reply \<and> reply_status reply = ''error''
                 \<and> reply_error reply = Some (ExceptionText e)))"
    if ok: "0 < price" "price < 1" "0 < size'" and fresh: "oid \<notin> set (map order_id (orders db))"
      and refs: "references_hold db m d"
  proof -
    from store_pending_order_fresh[OF fresh refs, of tok side price size'] assms(2)
    obtain db1 where db1: "store_pending_order db oid tok side price size' m d = Inr db1"
      and rows: "orders db1 = orders db @ [P]" by blast
    have R: "R = send_order svc db1 oid signed posted"
      using place_limit_order_valid[OF ok db1] assms(1) by simp
    have P: "order_id P = oid" "order_status P = ''pending''"
      using assms(2) by (simp_all add: new_order_row_def)
    have sim: "api_key svc = [] \<or> private_key svc = [] \<longrightarrow>
                 fst R = db1
               \<and> (\<exists>reply. snd R = Inr reply \<and> reply_status reply = ''simulated'')"
      using send_order_simulated[of svc db1 oid signed posted] R by auto
    have opened: "orders (fst R) = orders db @ [P\<lparr>order_status := ''open''\<rparr>]
             \<and> (\<exists>reply. snd R = Inr reply \<and> reply_status reply = ''open'')"
      if "api_key svc \<noteq> []" "private_key svc \<noteq> []" "account svc \<noteq> None"
         "signed = Inr sg" "posted = Inr resp" "status_code resp = 200"
         "response_json resp = JsonObject x" for sg resp x
      using send_order_open[OF fresh rows P(1) that] R by auto
    have rejected: "orders (fst R) = orders db @ [P\<lparr>order_status := ''rejected'',
                                  error_message := Some (Plain (response_text resp))\<rparr>]
             \<and> (\<exists>reply. snd R = Inr reply \<and> reply_status reply = ''rejected''
                    \<and> reply_error reply = Some (Plain (response_text resp)))"
      if "api_key svc \<noteq> []" "private_key svc \<noteq> []" "account svc \<noteq> None"
         "signed = Inr sg" "posted = Inr resp" "status_code resp \<noteq> 200" for sg resp
      using send_order_rejected[OF fresh rows P(1) that] R by auto
    have failed: "orders (fst R) = orders db @ [P\<lparr>order_status := ''error'',
                                  error_message := Some (ExceptionText e)\<rparr>]
          \<and> (\<exists>reply. snd R = Inr reply \<and> reply_status reply = ''error''
                 \<and> reply_error reply = Some (ExceptionText e))"
      if "api_key svc \<noteq> []" "private_key svc \<noteq> []" "account svc \<noteq> None"
         "signed = Inr sg" "posted = Inl e" for sg e
      using send_order_transport_error[OF fresh rows P(1) that] R by auto
    from P db1 rows R sim opened rejected failed show ?thesis by blast
  qed
  from invalid_price invalid_size refused valid show ?thesis by blast
qed

text \<open>A service with credentials, a store that holds the market 1, a signed payload
  and the answer 200 with an order id: the order is stored as \<open>open\<close>.  A price of 1
  raises and nothing is stored.\<close>

theorem place_limit_order_lifecycle_witness:
  "map order_status (orders (fst (place_limit_order
        \<lparr>api_key = ''key'', private_key = ''0xabc'', account = Some ''0xfunder''\<rparr>
        (empty_store
        \<lparr>markets := [\<lparr>market_id = 1, market_condition_id = ''0xbtc'', market_asset = ''BTC'',
                      market_end_date = Some 900000000, market_active = True,
                      yes_token_id = Some ''yes1'', no_token_id = Some ''no1'',
                      market_title = ''BTC up or down''\<rparr>]\<rparr>)
        ''yes1'' ''BUY'' 0.5 10 1 None ''id1'' (Inr ''sig'')
        (Inr \<lparr>status_code = 200, response_text = ''ok'',
              response_json = JsonObject (Some ''ex1'')\<rparr>)))) = [''open'']
   \<and> place_limit_order
        \<lparr>api_key = ''key'', private_key = ''0xabc'', account = Some ''0xfunder''\<rparr>
        (empty_store
        \<lparr>markets := [\<lparr>market_id = 1, market_condition_id = ''0xbtc'', market_asset = ''BTC'',
                      market_end_date = Some 900000000, market_active = True,
                      yes_token_id = Some ''yes1'', no_token_id = Some ''no1'',
                      market_title = ''BTC up or down''\<rparr>]\<rparr>)
        ''yes1'' ''BUY'' 1 10 1 None ''id1'' (Inr ''sig'')
        (Inr \<lparr>status_code = 200, response_text = ''ok'',
              response_json = JsonObject (Some ''ex1'')\<rparr>)
      = (empty_store
         \<lparr>markets := [\<lparr>market_id = 1, market_condition_id = ''0xbtc'', market_asset = ''BTC'',
                       market_end_date = Some 900000000, market_active = True,
                       yes_token_id = Some ''yes1'', no_token_id = Some ''no1'',
                       market_title = ''BTC up or down''\<rparr>]\<rparr>,
         Inl (InvalidPrice 1))"
proof -
  let ?svc = "\<lparr>api_key = ''key'', private_key = ''0xabc'', account = Some ''0xfunder''\<rparr>"
  let ?db = "empty_store
        \<lparr>markets := [\<lparr>market_id = 1, market_condition_id = ''0xbtc'', market_asset = ''BTC'',
                      market_end_date = Some 900000000, market_active = True,
                      yes_token_id = Some ''yes1'', no_token_id = Some ''no1'',
                      market_title = ''BTC up or down''\<rparr>]\<rparr>"
  let ?resp = "\<lparr>status_code = 200, response_text = ''ok'',
              response_json = JsonObject (Some ''ex1'')\<rparr>"
  have refs: "references_hold ?db 1 None"
    by (simp add: references_hold_def empty_store_def)
  have fresh: "''id1'' \<notin> set (map order_id (orders ?db))"
    by (simp add: empty_store_def)
  from place_limit_order_lifecycle[where svc = ?svc and db = ?db and tok = "''yes1''"
         and side = "''BUY''" and price = "0.5" and size' = 10 and m = 1 and d = None
         and oid = "''id1''" and signed = "Inr ''sig''" and posted = "Inr ?resp", OF refl refl]
       refs fresh
  have "orders (fst (place_limit_order ?svc ?db ''yes1'' ''BUY'' 0.5 10 1 None ''id1''
                 (Inr ''sig'') (Inr ?resp)))
        = orders ?db @ [(new_order_row ''id1'' ''yes1'' ''BUY'' 0.5 10 1 None)
                                  \<lparr>order_status := ''open''\<rparr>]"
    by simp
  then have first: "map order_status (orders (fst (place_limit_order ?svc ?db ''yes1''
                 ''BUY'' 0.5 10 1 None ''id1'' (Inr ''sig'') (Inr ?resp)))) = [''open'']"
    by (simp add: empty_store_def)
  from place_limit_order_lifecycle[where svc = ?svc and db = ?db and tok = "''yes1''"
         and side = "''BUY''" and price = 1 and size' = 10 and m = 1 and d = None
         and oid = "''id1''" and signed = "Inr ''sig''" and posted = "Inr ?resp", OF refl refl]
  have second: "place_limit_order ?svc ?db ''yes1'' ''BUY'' 1 10 1 None ''id1''
                 (Inr ''sig'') (Inr ?resp) = (?db, Inl (InvalidPrice 1))"
    by simp
  from first second show ?thesis by simp
qed

subsection \<open>Exit prices\<close>



subsection \<open>Marketable limit orders\<close>

text \<open>
  C6.  A marketable limit order is built from the order book fetched for its token: a BUY
  is priced at the best ask plus \<open>slippage_bps/10000\<close> and capped at 0.99, a SELL at the
  best bid minus \<open>slippage_bps/10000\<close> and floored at 0.01; the slippage is 100 basis
  points when the caller gives none; the order that is stored carries that price; and
  when the side of the book that is needed is empty (or the book cannot be fetched) the
  call raises and the store is unchanged, so no order is persisted.
\<close>

theorem marketable_limit_order_price:
  assumes "bps = (case slippage of None \<Rightarrow> 100 | Some b \<Rightarrow> b)"
    and "R = place_marketable_limit_order svc db tok side size' m d slippage (Inr data)
               oid signed posted"
  shows
   "(side = ''BUY'' \<and> book_asks data = [] \<longrightarrow> R = (db, Inl NoAsksInOrderbook))
  \<and> (side = ''SELL'' \<and> book_bids data = [] \<longrightarrow> R = (db, Inl NoBidsInOrderbook))
  \<and> place_marketable_limit_order svc db tok side size' m d slippage (Inl e) oid signed posted
       = (db, Inl CouldNotFetchOrderbook)
  \<and> (\<forall>a rest. side = ''BUY'' \<and> book_asks data = a # rest \<and> level_price a \<noteq> 0 \<longrightarrow>
        R = place_limit_order svc db tok side
              (min (level_price a + real_of_int bps / 10000) 0.99) size' m d oid signed posted
      \<and> (\<forall>reply. snd R = Inr reply \<longrightarrow>
            length (orders (fst R)) = Suc (length (orders db))
          \<and> order_price (last (orders (fst R)))
              = min (level_price a + real_of_int bps / 10000) 0.99
          \<and> order_side (last (orders (fst R))) = ''BUY''))
  \<and> (\<forall>b rest. side = ''SELL'' \<and> book_bids data = b # rest \<and> level_price b \<noteq> 0 \<longrightarrow>
        R = place_limit_order svc db tok side
              (max (level_price b - real_of_int bps / 10000) 0.01) size' m d oid signed posted
      \<and> (\<forall>reply. snd R = Inr reply \<longrightarrow>
            length (orders (fst R)) = Suc (length (orders db))
          \<and> order_price (last (orders (fst R)))
              = max (level_price b - real_of_int bps / 10000) 0.01
          \<and> order_side (last (orders (fst R))) = ''SELL''))"
proof -
  have stored: "length (orders (fst (place_limit_order svc db tok side price size' m d
                    oid signed posted))) = Suc (length (orders db))
      \<and> order_price (last (orders (fst (place_limit_order svc db tok side price size' m d
                    oid signed posted)))) = price
      \<and> order_side (last (orders (fst (place_limit_order svc db tok side price size' m d
                    oid signed posted)))) = side"
    if "snd (place_limit_order svc db tok side price size' m d oid signed posted) = Inr reply"
    for price reply
    using place_limit_order_Inr[OF that] by (auto simp add: new_order_row_def)
  have buy: "side = ''BUY'' \<Longrightarrow> R = (case book_asks data of
          [] \<Rightarrow> (db, Inl NoAsksInOrderbook)
        | a # _ \<Rightarrow>
            if level_price a = 0 then (db, Inl NoAsksInOrderbook)
            else place_limit_order svc db tok ''BUY''
                   (min (level_price a + real_of_int bps / 10000) 0.99) size' m d
                   oid signed posted)"
    using marketable_buy[OF assms(1)] assms(2) by simp
  have sell: "side = ''SELL'' \<Longrightarrow> R = (case book_bids data of
          [] \<Rightarrow> (db, Inl NoBidsInOrderbook)
        | b # _ \<Rightarrow>
            if level_price b = 0 then (db, Inl NoBidsInOrderbook)
            else place_limit_order svc db tok side
                   (max (level_price b - real_of_int bps / 10000) 0.01) size' m d
                   oid signed posted)"
    using marketable_sell[OF assms(1), of side] assms(2) by simp
  have c1: "side = ''BUY'' \<and> book_asks data = [] \<longrightarrow> R = (db, Inl NoAsksInOrderbook)"
    using buy by simp
  have c2: "side = ''SELL'' \<and> book_bids data = [] \<longrightarrow> R = (db, Inl NoBidsInOrderbook)"
    using sell by simp
  note c3 = marketable_no_book[of svc db tok side size' m d slippage e oid signed posted]
  have c4: "\<forall>a rest. side = ''BUY'' \<and> book_asks data = a # rest \<and> level_price a \<noteq> 0 \<longrightarrow>
        R = place_limit_order svc db tok side
              (min (level_price a + real_of_int bps / 10000) 0.99) size' m d oid signed posted
      \<and> (\<forall>reply. snd R = Inr reply \<longrightarrow>
            length (orders (fst R)) = Suc (length (orders db))
          \<and> order_price (last (orders (fst R)))
              = min (level_price a + real_of_int bps / 10000) 0.99
          \<and> order_side (last (orders (fst R))) = ''BUY'')"
  proof (intro allI impI, elim conjE)
    fix a rest
    assume s: "side = ''BUY''" and asks: "book_asks data = a # rest" and nz: "level_price a \<noteq> 0"
    from buy[OF s] asks nz s
    have R: "R = place_limit_order svc db tok side
              (min (level_price a + real_of_int bps / 10000) 0.99) size' m d oid signed posted"
      by simp
    show "R = place_limit_order svc db tok side
              (min (level_price a + real_of_int bps / 10000) 0.99) size' m d oid signed posted
      \<and> (\<forall>reply. snd R = Inr reply \<longrightarrow>
            length (orders (fst R)) = Suc (length (orders db))
          \<and> order_price (last (orders (fst R)))
              = min (level_price a + real_of_int bps / 10000) 0.99
          \<and> order_side (last (orders (fst R))) = ''BUY'')"
      using R stored[of "min (level_price a + real_of_int bps / 10000) 0.99"] s by metis
  qed
  have c5: "\<forall>b rest. side = ''SELL'' \<and> book_bids data = b # rest \<and> level_price b \<noteq> 0 \<longrightarrow>
        R = place_limit_order svc db tok side
              (max (level_price b - real_of_int bps / 10000) 0.01) size' m d oid signed posted
      \<and> (\<forall>reply. snd R = Inr reply \<longrightarrow>
            length (orders (fst R)) = Suc (length (orders db))
          \<and> order_price (last (orders (fst R)))
              = max (level_price b - real_of_int bps / 10000) 0.01
          \<and> order_side (last (orders (fst R))) = ''SELL'')"
  proof (intro allI impI, elim conjE)
    fix b rest
    assume s: "side = ''SELL''" and bids: "book_bids data = b # rest" and nz: "level_price b \<noteq> 0"
    from sell[OF s] bids nz
    have R: "R = place_limit_order svc db tok side
              (max (level_price b - real_of_int bps / 10000) 0.01) size' m d oid signed posted"
      by simp
    show "R = place_limit_order svc db tok side
              (max (level_price b - real_of_int bps / 10000) 0.01) size' m d oid signed posted
      \<and> (\<forall>reply. snd R = Inr reply \<longrightarrow>
            length (orders (fst R)) = Suc (length (orders db))
          \<and> order_price (last (orders (fst R)))
              = max (level_price b - real_of_int bps / 10000) 0.01
          \<and> order_side (last (orders (fst R))) = ''SELL'')"
      using R stored[of "max (level_price b - real_of_int bps / 10000) 0.01"] s by metis
  qed
  from c1 c2 c3 c4 c5 show ?thesis by blast
qed

text \<open>A BUY of 10 shares for the market 1, which the store holds, with the default
  slippage on a book whose best ask is 0.55, by a service without credentials: the
  order is stored at 0.56.  With no ask in the book the call raises and nothing is
  stored.\<close>

theorem marketable_limit_order_price_witness:
  "map order_price (orders (fst (place_marketable_limit_order
        (trading_service_init default_settings None)
        (empty_store
        \<lparr>markets := [\<lparr>market_id = 1, market_condition_id = ''0xbtc'', market_asset = ''BTC'',
                      market_end_date = Some 900000000, market_active = True,
                      yes_token_id = Some ''yes1'', no_token_id = Some ''no1'',
                      market_title = ''BTC up or down''\<rparr>]\<rparr>)
        ''yes1'' ''BUY'' 10 1 None None
        (Inr \<lparr>book_bids = [\<lparr>level_price = 0.53, level_size = 300\<rparr>],
              book_asks = [\<lparr>level_price = 0.55, level_size = 300\<rparr>]\<rparr>)
        ''id1'' (Inr ''sig'') (Inl (External ''unreachable''))))) = [0.56]
   \<and> place_marketable_limit_order
        (trading_service_init default_settings None)
        (empty_store
        \<lparr>markets := [\<lparr>market_id = 1, market_condition_id = ''0xbtc'', market_asset = ''BTC'',
                      market_end_date = Some 900000000, market_active = True,
                      yes_token_id = Some ''yes1'', no_token_id = Some ''no1'',
                      market_title = ''BTC up or down''\<rparr>]\<rparr>)
        ''yes1'' ''BUY'' 10 1 None None
        (Inr \<lparr>book_bids = [\<lparr>level_price = 0.53, level_size = 300\<rparr>], book_asks = []\<rparr>)
        ''id1'' (Inr ''sig'') (Inl (External ''unreachable''))
      = (empty_store
         \<lparr>markets := [\<lparr>market_id = 1, market_condition_id = ''0xbtc'', market_asset = ''BTC'',
                       market_end_date = Some 900000000, market_active = True,
                       yes_token_id = Some ''yes1'', no_token_id = Some ''no1'',
                       market_title = ''BTC up or down''\<rparr>]\<rparr>,
         Inl NoAsksInOrderbook)"
proof -
  let ?svc = "trading_service_init default_settings None"
  let ?db = "empty_store
        \<lparr>markets := [\<lparr>market_id = 1, market_condition_id = ''0xbtc'', market_asset = ''BTC'',
                      market_end_date = Some 900000000, market_active = True,
                      yes_token_id = Some ''yes1'', no_token_id = Some ''no1'',
                      market_title = ''BTC up or down''\<rparr>]\<rparr>"
  let ?data = "\<lparr>book_bids = [\<lparr>level_price = 0.53, level_size = 300\<rparr>],
              book_asks = [\<lparr>level_price = 0.55, level_size = 300\<rparr>]\<rparr>"
  let ?nodata = "\<lparr>book_bids = [\<lparr>level_price = 0.53, level_size = 300\<rparr>],
              book_asks = ([] :: book_level list)\<rparr>"
  have bps: "(100::int) = (case (None :: int option) of None \<Rightarrow> 100 | Some b \<Rightarrow> b)" by simp
  from marketable_limit_order_price[where svc = ?svc and db = ?db and tok = "''yes1''"
         and side = "''BUY''" and size' = 10 and m = 1 and d = None and data = ?data
         and oid = "''id1''" and signed = "Inr ''sig''"
         and posted = "Inl (External ''unreachable'')", OF bps refl]
  have "place_marketable_limit_order ?svc ?db ''yes1'' ''BUY'' 10 1 None None (Inr ?data)
          ''id1'' (Inr ''sig'') (Inl (External ''unreachable''))
        = place_limit_order ?svc ?db ''yes1'' ''BUY'' (min (0.55 + real_of_int 100 / 10000) 0.99)
            10 1 None ''id1'' (Inr ''sig'') (Inl (External ''unreachable''))"
    by simp
  then have first: "map order_price (orders (fst (place_marketable_limit_order ?svc ?db
          ''yes1'' ''BUY'' 10 1 None None (Inr ?data)
          ''id1'' (Inr ''sig'') (Inl (External ''unreachable''))))) = [0.56]"
    by (simp add: place_limit_order_def store_pending_order_def references_hold_def
          send_order_def trading_service_init_def default_settings_def empty_store_def
          new_order_row_def Let_def)
  from marketable_limit_order_price[where svc = ?svc and db = ?db and tok = "''yes1''"
         and side = "''BUY''" and size' = 10 and m = 1 and d = None and data = ?nodata
         and oid = "''id1''" and signed = "Inr ''sig''"
         and posted = "Inl (External ''unreachable'')", OF bps refl]
  have second: "place_marketable_limit_order ?svc ?db ''yes1'' ''BUY'' 10 1 None None
          (Inr ?nodata) ''id1'' (Inr ''sig'') (Inl (External ''unreachable''))
        = (?db, Inl NoAsksInOrderbook)"
    by simp
  from first second show ?thesis by simp
qed

subsection \<open>Direction and confidence of the signal\<close>

text \<open>
  C7.  For every feature map, with the bullish score, the bearish score and the total
  weight of its scoring and \<open>net = (bullish - bearish) / total_weight\<close>: the direction is
  UP iff \<open>net > 0.3\<close>, DOWN iff \<open>net < -0.3\<close> and NEUTRAL otherwise, with confidence 0 when
  it is NEUTRAL and \<open>min(|net|, 0.95)\<close> when it is UP or DOWN (a feature map that scores
  no weight at all gives NEUTRAL with confidence 0); and the analysis of an asset with
  fewer than 20 candles of 15 minutes in the store returns NEUTRAL with confidence 0, and
  leaves the store as it is (no feature is calculated then, so whatever \<open>np.polyfit\<close>
  would return).
\<close>

theorem generate_signal_direction_and_confidence:
  assumes "signal_scores f = (bullish, bearish, total_weight)"
    and "net = (bullish - bearish) / total_weight"
  shows "(total_weight \<noteq> 0 \<longrightarrow>
            (fst (generate_signal f) = ''UP'' \<longleftrightarrow> net > 0.3)
          \<and> (fst (generate_signal f) = ''DOWN'' \<longleftrightarrow> net < - 0.3)
          \<and> (fst (generate_signal f) = ''NEUTRAL'' \<longleftrightarrow> \<not> net > 0.3 \<and> \<not> net < - 0.3)
          \<and> (fst (generate_signal f) = ''NEUTRAL'' \<longrightarrow> snd (generate_signal f) = 0)
          \<and> (fst (generate_signal f) \<noteq> ''NEUTRAL'' \<longrightarrow>
                snd (generate_signal f) = min \<bar>net\<bar> 0.95))
       \<and> (total_weight = 0 \<longrightarrow> generate_signal f = (''NEUTRAL'', 0))
       \<and> (length (filter (\<lambda>c. candle_symbol c = asset \<and> candle_timeframe c = ''15m'')
                         (candles db)) < 20 \<longrightarrow>
            (\<exists>a. analyze_asset np_polyfit db asset = (db, Inr a)
                \<and> analysis_signal a = ''NEUTRAL'' \<and> analysis_confidence a = 0))"
proof -
  have scored: "(fst (generate_signal f) = ''UP'' \<longleftrightarrow> net > 0.3)
          \<and> (fst (generate_signal f) = ''DOWN'' \<longleftrightarrow> net < - 0.3)
          \<and> (fst (generate_signal f) = ''NEUTRAL'' \<longleftrightarrow> \<not> net > 0.3 \<and> \<not> net < - 0.3)
          \<and> (fst (generate_signal f) = ''NEUTRAL'' \<longrightarrow> snd (generate_signal f) = 0)
          \<and> (fst (generate_signal f) \<noteq> ''NEUTRAL'' \<longrightarrow>
                snd (generate_signal f) = min \<bar>net\<bar> 0.95)"
    if "total_weight \<noteq> 0"
    unfolding generate_signal_unfold[OF assms(1) that assms(2)] by auto
  have unscored: "total_weight = 0 \<longrightarrow> generate_signal f = (''NEUTRAL'', 0)"
    using generate_signal_no_weight[of f bullish bearish] assms(1) by auto
  have few: "length (filter (\<lambda>c. candle_symbol c = asset \<and> candle_timeframe c = ''15m'')
                         (candles db)) < 20 \<longrightarrow>
            (\<exists>a. analyze_asset np_polyfit db asset = (db, Inr a)
                \<and> analysis_signal a = ''NEUTRAL'' \<and> analysis_confidence a = 0)"
    using analyze_asset_insufficient[of db asset np_polyfit] get_candles_length[of db asset 50] by auto
  from scored unscored few show ?thesis by blast
qed

text \<open>A bullish 3 period momentum and a neutral RSI: bullish 2 of a total weight 3.5, so
  the signal is UP with confidence 4/7.  A store without candles gives NEUTRAL.\<close>

theorem generate_signal_direction_and_confidence_witness:
  "generate_signal [''momentum_3'' \<mapsto> 0.01, ''rsi'' \<mapsto> 50] = (''UP'', 4 / 7)
   \<and> (\<exists>a. analyze_asset least_squares_slope empty_store ''BTC'' = (empty_store, Inr a)
         \<and> analysis_signal a = ''NEUTRAL'' \<and> analysis_confidence a = 0)"
proof -
  let ?f = "[''momentum_3'' \<mapsto> (0.01::real), ''rsi'' \<mapsto> 50]"
  have scores: "signal_scores ?f = (2, 0, 3.5)"
    by (simp add: signal_scores_def momentum_periods_def score_momentum_def score_cross_def
          score_rsi_def score_zscore_def score_trend_def str_nat_periods)
  have net: "(4 / 7 :: real) = (2 - 0) / 3.5" by simp
  have few: "length (filter (\<lambda>c. candle_symbol c = ''BTC'' \<and> candle_timeframe c = ''15m'')
                         (candles empty_store)) < 20"
    by (simp add: empty_store_def)
  from generate_signal_direction_and_confidence[OF scores net, where db = empty_store
         and asset = "''BTC''" and np_polyfit = least_squares_slope] few
  have up: "fst (generate_signal ?f) = ''UP''"
    and conf: "fst (generate_signal ?f) \<noteq> ''NEUTRAL'' \<longrightarrow>
                snd (generate_signal ?f) = min \<bar>4 / 7\<bar> 0.95"
    and neutral: "\<exists>a. analyze_asset least_squares_slope empty_store ''BTC'' = (empty_store, Inr a)
         \<and> analysis_signal a = ''NEUTRAL'' \<and> analysis_confidence a = 0"
    by simp_all
  from up conf have "snd (generate_signal ?f) = 4 / 7" by simp
  with up have "generate_signal ?f = (''UP'', 4 / 7)" by (simp add: prod_eq_iff)
  with neutral show ?thesis by simp
qed

subsection \<open>The executed flag of a decision\<close>

text \<open>
  C8.  As stated, the claim has the flag \<open>executed\<close> of a decision go from false to true
  at the moment an order linked to that decision is submitted.  In the cycle on the rally
  the decision UP is written, the order is submitted and stored as \<open>open\<close>, and after
  the cycle the flag of the decision is still false and the order has no decision
  reference.
\<close>

theorem decision_unexecuted_after_order_submitted:
  "map executed (decisions (fst (snd (process_asset scenario_settings scenario_worker
       (scenario_store rally_closes) ''BTC'' 18000000000 scenario_io)))) = [False]
   \<and> map order_status (orders (fst (snd (process_asset scenario_settings scenario_worker
       (scenario_store rally_closes) ''BTC'' 18000000000 scenario_io)))) = [''open'']
   \<and> map order_decision_id (orders (fst (snd (process_asset scenario_settings
       scenario_worker (scenario_store rally_closes) ''BTC'' 18000000000 scenario_io))))
       = [None]"
proof -
  from rally_cycle obtain w' db' where
    run: "process_asset scenario_settings scenario_worker (scenario_store rally_closes)
               ''BTC'' 18000000000 scenario_io = (w', db', Inr ())"
    and "map decision_direction (decisions db') = [''UP'']"
    and "map decision_confidence (decisions db') = [17 / 27]"
    and facts: "map executed (decisions db') = [False]"
      "map order_status (orders db') = [''open'']"
    and "map order_price (orders db') = [14 / 25]"
    and facts': "map order_decision_id (orders db') = [None]"
    by (elim exE conjE)
  show ?thesis unfolding run using facts facts' by simp
qed

text \<open>
  C8, amended.  Every Decision row is written with \<open>executed = false\<close>, and a per-asset
  trading cycle of the worker never changes the flag: after the cycle the decisions
  stored before it are unchanged, at most one decision has been added, with
  \<open>executed = false\<close>, and an order that the cycle has added to the table of orders has
  no decision reference.  (So no decision that the pipeline writes ever has
  \<open>executed = true\<close>, with or without an order.)
\<close>

theorem process_asset_never_marks_decisions_executed:
  assumes "process_asset cfg w db asset now io = (w', db', out)"
  shows "\<not> executed (new_decision_row db asset signal confidence f)
       \<and> (\<exists>new added. decisions db' = decisions db @ new \<and> length new \<le> 1
              \<and> (\<forall>dec \<in> set new. \<not> executed dec)
              \<and> orders db' = orders db @ added \<and> length added \<le> 1
              \<and> (\<forall>ord \<in> set added. order_decision_id ord = None))"
  using process_asset_tables[OF assms] by (simp add: new_decision_row_def)

text \<open>The cycle on the slow drift: one decision is added, not executed.\<close>

theorem process_asset_never_marks_decisions_executed_witness:
  "\<exists>new added.
      decisions (fst (snd (process_asset scenario_settings scenario_worker
          (scenario_store drift_closes) ''BTC'' 18000000000 scenario_io)))
        = decisions (scenario_store drift_closes) @ new
    \<and> length new \<le> 1 \<and> list_all (\<lambda>dec. \<not> executed dec) new
    \<and> orders (fst (snd (process_asset scenario_settings scenario_worker
          (scenario_store drift_closes) ''BTC'' 18000000000 scenario_io)))
        = orders (scenario_store drift_closes) @ added
    \<and> length added \<le> 1 \<and> list_all (\<lambda>ord. order_decision_id ord = None) added"
proof -
  obtain w2 db2 out2 where
    run2: "process_asset scenario_settings scenario_worker (scenario_store drift_closes)
               ''BTC'' 18000000000 scenario_io = (w2, db2, out2)"
    by (metis prod_cases3)
  from process_asset_never_marks_decisions_executed[OF run2]
  show ?thesis unfolding run2 by (simp add: list_all_iff)
qed

subsection \<open>The age of the configuration cache\<close>

text \<open>
  C9.  The claim is that \<open>load_config\<close> without \<open>force\<close> returns the cached configuration
  only when it was loaded at most 60 seconds ago, and reads the store again whenever the
  cache is older, however much older.  The code compares the \<open>seconds\<close> component of the
  age with 60, and that component starts again at 0 after every whole day: a cache loaded
  one day and 30 seconds ago (86430 seconds) is returned as it is, although the store
  holds another value by then.
\<close>

theorem load_config_returns_cache_older_than_a_day:
  "snd (load_config \<lparr>config_cache = [(''max_open_positions'', 5)], last_config_load = Some 0\<rparr>
          [(''max_open_positions'', 3)] 86430000000 86430000001 False)
     = [(''max_open_positions'', 5)]
   \<and> total_seconds (86430000000 - 0) > 60"
  by (simp add: load_config_def timedelta_seconds_def total_seconds_def)

subsection \<open>Orders only on a strong signal\<close>

text \<open>
  C10.  In every per-asset trading cycle of the worker an entry order is submitted (the
  table of orders changes) only when the analysis gave a signal UP or DOWN with a
  confidence of at least 0.5; and when the analysis gives UP or DOWN with a confidence
  below 0.5, the decision is still recorded, yet the cycle returns without any order,
  whatever the markets, the order books, the risk checks and the venue would answer.
\<close>

theorem process_asset_trades_only_on_strong_signal:
  assumes "process_asset cfg w db asset now io = (w', db', out)"
  shows "(orders db' \<noteq> orders db \<longrightarrow>
            (\<exists>a. snd (analyze_asset (io_polyfit io) db asset) = Inr a
                \<and> (analysis_signal a = ''UP'' \<or> analysis_signal a = ''DOWN'')
                \<and> analysis_confidence a \<ge> 0.5))
       \<and> (\<forall>db1 a. should_analyze w asset now
              \<and> \<not> is_data_stale (worker_price_service w) asset
                     (STALE_DATA_THRESHOLD_SECONDS cfg) (io_clock_stale io)
              \<and> analyze_asset (io_polyfit io) db asset = (db1, Inr a)
              \<and> (analysis_signal a = ''UP'' \<or> analysis_signal a = ''DOWN'')
              \<and> analysis_confidence a < 0.5 \<longrightarrow>
              out = Inr () \<and> db' = db1 \<and> orders db' = orders db
            \<and> (\<exists>dec. decisions db' = decisions db @ [dec]
                   \<and> decision_asset dec = asset
                   \<and> decision_direction dec = analysis_signal a
                   \<and> decision_confidence dec = analysis_confidence a
                   \<and> \<not> executed dec))"
proof -
  have strong: "\<exists>a. snd (analyze_asset (io_polyfit io) db asset) = Inr a
                \<and> (analysis_signal a = ''UP'' \<or> analysis_signal a = ''DOWN'')
                \<and> analysis_confidence a \<ge> 0.5"
    if changed: "orders db' \<noteq> orders db"
  proof -
    from process_asset_orders_changed[OF assms changed]
    obtain a where a: "snd (analyze_asset (io_polyfit io) db asset) = Inr a"
      and sig: "analysis_signal a \<noteq> ''NEUTRAL''" and conf: "\<not> analysis_confidence a < 0.5"
      by blast
    from a have "analyze_asset (io_polyfit io) db asset = (fst (analyze_asset (io_polyfit io) db asset), Inr a)"
      by (simp add: prod_eq_iff)
    from analyze_asset_signal[OF this sig] conf a show ?thesis by auto
  qed
  have weak: "out = Inr () \<and> db' = db1 \<and> orders db' = orders db
            \<and> (\<exists>dec. decisions db' = decisions db @ [dec]
                   \<and> decision_asset dec = asset
                   \<and> decision_direction dec = analysis_signal a
                   \<and> decision_confidence dec = analysis_confidence a
                   \<and> \<not> executed dec)"
    if "should_analyze w asset now"
      and "\<not> is_data_stale (worker_price_service w) asset
                     (STALE_DATA_THRESHOLD_SECONDS cfg) (io_clock_stale io)"
      and an: "analyze_asset (io_polyfit io) db asset = (db1, Inr a)"
      and sig: "analysis_signal a = ''UP'' \<or> analysis_signal a = ''DOWN''"
      and conf: "analysis_confidence a < 0.5"
    for db1 a
  proof -
    from process_asset_weak_signal[OF that(1,2) an conf] assms
    have run: "out = Inr ()" "db' = db1" by simp_all
    from sig have "analysis_signal a \<noteq> ''NEUTRAL''" by auto
    from analyze_asset_signal[OF an this] run show ?thesis by auto
  qed
  from strong weak show ?thesis by blast
qed

text \<open>The rally gives UP with confidence 17/27 and an order is stored, so the analysis
  was a strong one; the slow drift gives UP with confidence 10/27: the decision is
  stored and no order is.\<close>

theorem process_asset_trades_only_on_strong_signal_witness:
  "(\<exists>a. snd (analyze_asset (io_polyfit scenario_io) (scenario_store rally_closes) ''BTC'') = Inr a
       \<and> (analysis_signal a = ''UP'' \<or> analysis_signal a = ''DOWN'')
       \<and> analysis_confidence a \<ge> 0.5)
   \<and> snd (snd (process_asset scenario_settings scenario_worker (scenario_store drift_closes)
                  ''BTC'' 18000000000 scenario_io)) = Inr ()
   \<and> orders (fst (snd (process_asset scenario_settings scenario_worker
                  (scenario_store drift_closes) ''BTC'' 18000000000 scenario_io))) = []
   \<and> map decision_direction (decisions (fst (snd (process_asset scenario_settings
                  scenario_worker (scenario_store drift_closes) ''BTC'' 18000000000
                  scenario_io)))) = [''UP'']
   \<and> map decision_confidence (decisions (fst (snd (process_asset scenario_settings
                  scenario_worker (scenario_store drift_closes) ''BTC'' 18000000000
                  scenario_io)))) = [10 / 27]"
proof -
  from rally_cycle obtain w' db' where
    run: "process_asset scenario_settings scenario_worker (scenario_store rally_closes)
               ''BTC'' 18000000000 scenario_io = (w', db', Inr ())"
    and "map decision_direction (decisions db') = [''UP'']"
    and "map decision_confidence (decisions db') = [17 / 27]"
    and "map executed (decisions db') = [False]"
    and placed: "map order_status (orders db') = [''open'']"
    and "map order_price (orders db') = [14 / 25]"
    and "map order_decision_id (orders db') = [None]"
    by (elim exE conjE)
  have "orders (scenario_store rally_closes) = []"
    by (simp add: scenario_store_def empty_store_def)
  with placed have changed: "orders db' \<noteq> orders (scenario_store rally_closes)" by auto
  from process_asset_trades_only_on_strong_signal[OF run] changed
  have strong: "\<exists>a. snd (analyze_asset (io_polyfit scenario_io) (scenario_store rally_closes)
                        ''BTC'') = Inr a
       \<and> (analysis_signal a = ''UP'' \<or> analysis_signal a = ''DOWN'')
       \<and> analysis_confidence a \<ge> 0.5"
    by blast
  from drift_analysis obtain f a where
    an: "analyze_asset least_squares_slope (scenario_store drift_closes) ''BTC''
            = ((scenario_store drift_closes)
                 \<lparr>decisions := [new_decision_row (scenario_store drift_closes) ''BTC''
                                  ''UP'' (10 / 27) f]\<rparr>, Inr a)"
    and sig: "analysis_signal a = ''UP''" and conf: "analysis_confidence a = 10 / 27"
    by (elim exE conjE)
  note an' = an[folded scenario_polyfit]
  have weak: "analysis_confidence a < 0.5" unfolding conf by simp
  obtain w2 db2 out2 where
    run2: "process_asset scenario_settings scenario_worker (scenario_store drift_closes)
               ''BTC'' 18000000000 scenario_io = (w2, db2, out2)"
    by (metis prod_cases3)
  from process_asset_trades_only_on_strong_signal[OF run2] scenario_fresh an' sig weak
  have out2: "out2 = Inr ()"
    and db2: "db2 = (scenario_store drift_closes)
                 \<lparr>decisions := [new_decision_row (scenario_store drift_closes) ''BTC''
                                  ''UP'' (10 / 27) f]\<rparr>"
    and ord2: "orders db2 = orders (scenario_store drift_closes)"
    by blast+
  have drift: "snd (snd (process_asset scenario_settings scenario_worker
                  (scenario_store drift_closes) ''BTC'' 18000000000 scenario_io)) = Inr ()"
    "orders (fst (snd (process_asset scenario_settings scenario_worker
                  (scenario_store drift_closes) ''BTC'' 18000000000 scenario_io))) = []"
    "map decision_direction (decisions (fst (snd (process_asset scenario_settings
                  scenario_worker (scenario_store drift_closes) ''BTC'' 18000000000
                  scenario_io)))) = [''UP'']"
    "map decision_confidence (decisions (fst (snd (process_asset scenario_settings
                  scenario_worker (scenario_store drift_closes) ''BTC'' 18000000000
                  scenario_io)))) = [10 / 27]"
    unfolding run2 using out2 db2
    by (simp_all add: new_decision_row_def scenario_store_def empty_store_def)
  from strong drift show ?thesis by blast
qed
end
